theory Spec2Isabelle
  imports Complex_Main "HOL-Library.Word" "HOL-Library.Signed_Division"
begin

unbundle bit_operations_syntax

section \<open>Data model of the frame-resource demos (CrateApp.cpp, BlendApp.cpp)\<close>

text \<open>
  Line numbers are those of src/unnamed/part_000, which holds CrateApp.cpp (from line 1)
  followed by BlendApp.cpp (from line 1178), and of
  src/Chapter 6 Drawing in Direct3D/Box/BoxApp.cpp.

  Machine types. \<open>UINT\<close> is 32 bits wide and wraps around; \<open>WPARAM\<close> is the 64-bit
  message parameter. C++ \<open>int\<close> members are modelled as \<open>int\<close>: the only arithmetic the
  sources do on them is \<open>(i + 1) % n\<close> on an index and \<open>--\<close> on a positive counter, and
  C++ \<open>%\<close> truncates towards zero (\<open>smod\<close>). A 4x4 float matrix is only stored
  and copied by the functions modelled here, so it is a list of rows.
\<close>

type_synonym UINT = "32 word"
type_synonym WPARAM = "64 word"
type_synonym XMFLOAT4X4 = "real list list"

definition gNumFrameResources :: int where
  "gNumFrameResources = 3"

definition Identity4x4 :: XMFLOAT4X4 where
  "Identity4x4 = [[1, 0, 0, 0], [0, 1, 0, 0], [0, 0, 1, 0], [0, 0, 0, 1]]"

definition XMMatrixTranslation :: "real \<Rightarrow> real \<Rightarrow> real \<Rightarrow> XMFLOAT4X4" where
  "XMMatrixTranslation x y z = [[1, 0, 0, 0], [0, 1, 0, 0], [0, 0, 1, 0], [x, y, z, 1]]"

definition XMMatrixScaling :: "real \<Rightarrow> real \<Rightarrow> real \<Rightarrow> XMFLOAT4X4" where
  "XMMatrixScaling x y z = [[x, 0, 0, 0], [0, y, 0, 0], [0, 0, z, 0], [0, 0, 0, 1]]"

definition XMMatrixTranspose :: "XMFLOAT4X4 \<Rightarrow> XMFLOAT4X4" where
  "XMMatrixTranspose M = transpose M"

text \<open>
  \<open>struct RenderItem\<close> (CrateApp.cpp 22-52, BlendApp.cpp the same text). The pointers
  \<open>Mat\<close> and \<open>Geo\<close> are the keys of the pointed-to entries of \<open>mMaterials\<close> and
  \<open>mGeometries\<close> (\<open>None\<close> is \<open>nullptr\<close>). The draw arguments (topology, index
  count, start locations) are copied from the geometry and never read by the functions
  below; they are left out.
\<close>

record RenderItem =
  World :: XMFLOAT4X4
  TexTransform :: XMFLOAT4X4
  NumFramesDirty :: int
  ObjCBIndex :: UINT
  Mat :: "string option"
  Geo :: "string option"

definition RenderItem_default :: RenderItem where
  "RenderItem_default =
     \<lparr>World = Identity4x4, TexTransform = Identity4x4,
      NumFramesDirty = gNumFrameResources, ObjCBIndex = - 1, Mat = None, Geo = None\<rparr>"

text \<open>
  \<open>struct Material\<close> is declared in Common/d3dUtil.h, which is not among the sources.
  The record holds the members the sources read and write. The index members only ever
  receive the non-negative constants of BuildMaterials and the descriptor offset of
  AnimateMaterials; they are natural numbers. The colour members (DiffuseAlbedo,
  FresnelR0, Roughness) are written once and copied; they are left out.
\<close>

record Material =
  Name :: string
  MatCBIndex :: nat
  DiffuseSrvHeapIndex :: nat
  AlphaSrvHeapIndex :: nat
  NumFramesDirty :: int
  MatTransform :: XMFLOAT4X4

text \<open>
  Modelled from the spec: the default member values of \<open>Material\<close> come from
  Common/d3dUtil.h, which is missing from the sources. A new material is dirty for every
  frame resource, as a new \<open>RenderItem\<close> is (the comment at CrateApp.cpp 33-37 states
  the rule for both), and its transform is the identity.
\<close>

definition make_Material :: "string \<Rightarrow> nat \<Rightarrow> nat \<Rightarrow> Material" where
  "make_Material n cb srv =
     \<lparr>Name = n, MatCBIndex = cb, DiffuseSrvHeapIndex = srv, AlphaSrvHeapIndex = 0,
      NumFramesDirty = gNumFrameResources, MatTransform = Identity4x4\<rparr>"

text \<open>
  \<open>ObjectConstants\<close> and \<open>MaterialConstants\<close> (FrameResource.h, not among the
  sources) as the values UpdateObjectCBs and UpdateMaterialCBs store into them: the
  transposed world and texture transforms, and the transposed material transform.
\<close>

type_synonym ObjectConstants = "XMFLOAT4X4 \<times> XMFLOAT4X4"
type_synonym MaterialConstants = XMFLOAT4X4

text \<open>
  \<open>struct FrameResource\<close> (FrameResource.h, not among the sources) as BuildFrameResources
  constructs it and Update and Draw use it. \<open>passCount\<close>, \<open>objectCount\<close> and
  \<open>materialCount\<close> are the element counts handed to the constructor. An upload buffer
  is the sequence of \<open>CopyData (index, data)\<close> calls made on it, oldest first: the
  element at an index is the last entry written there. \<open>Fence\<close> is the fence value
  that marks the commands recorded with this frame resource; the glossary of the spec
  calls a fence a monotonically increasing counter, and it is a natural number here
  (a 64-bit counter does not wrap within any run of frames that can be executed).
\<close>

record FrameResource =
  passCount :: UINT
  objectCount :: UINT
  materialCount :: UINT
  ObjectCB :: "(UINT \<times> ObjectConstants) list"
  MaterialCB :: "(nat \<times> MaterialConstants) list"
  Fence :: nat

definition make_FrameResource :: "UINT \<Rightarrow> UINT \<Rightarrow> UINT \<Rightarrow> FrameResource" where
  "make_FrameResource p n m =
     \<lparr>passCount = p, objectCount = n, materialCount = m,
      ObjectCB = [], MaterialCB = [], Fence = 0\<rparr>"

text \<open>
  \<open>struct Texture\<close> and \<open>struct MeshGeometry\<close> (Common/d3dUtil.h, not among the
  sources) as the sources fill them: a texture has a name and a file name, a geometry a
  name and named submeshes. The GPU resources they hold are not modelled.
\<close>

record Texture =
  Name :: string
  Filename :: string

record MeshGeometry =
  Name :: string
  DrawArgs :: "string list"

text \<open>
  The members of the base class D3DApp that Update and Draw touch, and the members
  shared by CrateApp and BlendApp. \<open>SwapChainBufferCount\<close> is a constant of
  D3DApp (Common/d3dApp.h, not among the sources); it is carried as a member whose value
  is left open. \<open>mCurrFrameResource\<close> is a pointer to an element of
  \<open>mFrameResources\<close>: the element's position, \<open>None\<close> for \<open>nullptr\<close>.
  \<open>mMaterials\<close>, \<open>mGeometries\<close> and \<open>mTextures\<close> are unordered maps; the
  association list fixes one iteration order. \<open>mSrvDescriptorHeap\<close> is the
  descriptor heap by its \<open>NumDescriptors\<close>, \<open>None\<close> before it is created.
\<close>

record D3DApp =
  SwapChainBufferCount :: int
  mCurrBackBuffer :: int
  mCurrentFence :: nat

record FrameApp = D3DApp +
  mFrameResources :: "FrameResource list"
  mCurrFrameResource :: "nat option"
  mCurrFrameResourceIndex :: int
  mAllRitems :: "RenderItem list"
  mMaterials :: "(string \<times> Material) list"
  mGeometries :: "(string \<times> MeshGeometry) list"
  mTextures :: "(string \<times> Texture) list"
  mSrvDescriptorHeap :: "nat option"

text \<open>
  What a frame does to the outside: the calls on the command allocator, the command
  list (\<open>Rec\<close>, by method name), the device (\<open>Dev\<close>), the command queue, the swap
  chain and the fence, in program order.
\<close>

datatype call =
    AllocReset
  | ListReset
  | Rec string
  | Dev string
  | ListClose
  | ExecuteCommandLists
  | Present
  | Signal nat
  | WaitForFence nat
  | FlushCommandQueue

section \<open>The code shared by CrateApp and BlendApp\<close>

text \<open>
  Update, "Cycle through the circular frame resource array" (CrateApp.cpp 244-246,
  BlendApp.cpp 1466-1468). Indexing \<open>mFrameResources\<close> out of range is undefined
  behaviour: \<open>None\<close>.
\<close>

definition cycle_frame_resource :: "'a FrameApp_scheme \<Rightarrow> 'a FrameApp_scheme option" where
  "cycle_frame_resource s =
     (let i = (mCurrFrameResourceIndex s + 1) smod gNumFrameResources in
      if 0 \<le> i \<and> nat i < length (mFrameResources s)
      then Some (s\<lparr>mCurrFrameResourceIndex := i, mCurrFrameResource := Some (nat i)\<rparr>)
      else None)"

text \<open>
  The fence value recorded in the current frame resource, and the test of Update
  (CrateApp.cpp 250, BlendApp.cpp 1472): \<open>completed\<close> is what
  \<open>mFence->GetCompletedValue()\<close> returns. When the test holds, Update creates an event,
  asks the fence to set it at the recorded value and waits for it without a time limit.
\<close>

definition current_Fence :: "'a FrameApp_scheme \<Rightarrow> nat" where
  "current_Fence s =
     (case mCurrFrameResource s of
        None \<Rightarrow> 0
      | Some i \<Rightarrow> Fence (mFrameResources s ! i))"

definition must_wait :: "nat \<Rightarrow> 'a FrameApp_scheme \<Rightarrow> bool" where
  "must_wait completed s \<longleftrightarrow> current_Fence s \<noteq> 0 \<and> completed < current_Fence s"

definition wait_calls :: "nat \<Rightarrow> 'a FrameApp_scheme \<Rightarrow> call list" where
  "wait_calls completed s =
     (if must_wait completed s then [WaitForFence (current_Fence s)] else [])"

text \<open>
  UpdateObjectCBs (CrateApp.cpp 623-645, BlendApp.cpp 1761-1783): the loop over
  \<open>mAllRitems\<close>, threading the current object buffer.
\<close>

fun UpdateObjectCBs_loop ::
  "(UINT \<times> ObjectConstants) list \<Rightarrow> RenderItem list \<Rightarrow>
   (UINT \<times> ObjectConstants) list \<times> RenderItem list" where
  "UpdateObjectCBs_loop cb [] = (cb, [])"
| "UpdateObjectCBs_loop cb (e # es) =
     (if RenderItem.NumFramesDirty e > 0
      then
        (let objConstants = (XMMatrixTranspose (World e), XMMatrixTranspose (TexTransform e));
             r = UpdateObjectCBs_loop (cb @ [(ObjCBIndex e, objConstants)]) es
         in (fst r, e\<lparr>RenderItem.NumFramesDirty := RenderItem.NumFramesDirty e - 1\<rparr> # snd r))
      else
        (let r = UpdateObjectCBs_loop cb es in (fst r, e # snd r)))"

definition UpdateObjectCBs :: "'a FrameApp_scheme \<Rightarrow> 'a FrameApp_scheme option" where
  "UpdateObjectCBs s =
     (case mCurrFrameResource s of
        None \<Rightarrow> None
      | Some i \<Rightarrow>
          if i < length (mFrameResources s)
          then
            (let fr = mFrameResources s ! i;
                 r = UpdateObjectCBs_loop (ObjectCB fr) (mAllRitems s)
             in Some (s\<lparr>mFrameResources := (mFrameResources s)[i := fr\<lparr>ObjectCB := fst r\<rparr>],
                        mAllRitems := snd r\<rparr>))
          else None)"

text \<open>
  UpdateMaterialCBs (CrateApp.cpp 647-671, BlendApp.cpp 1785-1809): the loop over
  \<open>mMaterials\<close>.
\<close>

fun UpdateMaterialCBs_loop ::
  "(nat \<times> MaterialConstants) list \<Rightarrow> (string \<times> Material) list \<Rightarrow>
   (nat \<times> MaterialConstants) list \<times> (string \<times> Material) list" where
  "UpdateMaterialCBs_loop cb [] = (cb, [])"
| "UpdateMaterialCBs_loop cb ((k, mat) # es) =
     (if Material.NumFramesDirty mat > 0
      then
        (let matConstants = XMMatrixTranspose (MatTransform mat);
             r = UpdateMaterialCBs_loop (cb @ [(MatCBIndex mat, matConstants)]) es
         in (fst r, (k, mat\<lparr>Material.NumFramesDirty := Material.NumFramesDirty mat - 1\<rparr>) # snd r))
      else
        (let r = UpdateMaterialCBs_loop cb es in (fst r, (k, mat) # snd r)))"

definition UpdateMaterialCBs :: "'a FrameApp_scheme \<Rightarrow> 'a FrameApp_scheme option" where
  "UpdateMaterialCBs s =
     (case mCurrFrameResource s of
        None \<Rightarrow> None
      | Some i \<Rightarrow>
          if i < length (mFrameResources s)
          then
            (let fr = mFrameResources s ! i;
                 r = UpdateMaterialCBs_loop (MaterialCB fr) (mMaterials s)
             in Some (s\<lparr>mFrameResources := (mFrameResources s)[i := fr\<lparr>MaterialCB := fst r\<rparr>],
                        mMaterials := snd r\<rparr>))
          else None)"

text \<open>
  The end of Draw (CrateApp.cpp 405-426, BlendApp.cpp 1605-1627): the barrier back to
  the present state, Close, ExecuteCommandLists, Present and the back-buffer swap, then
  the fence is advanced, recorded in the current frame resource and signalled.
  \<open>% SwapChainBufferCount\<close> with a zero count and a null \<open>mCurrFrameResource\<close> are
  undefined behaviour: \<open>None\<close>.
\<close>

definition submit_and_signal ::
  "'a FrameApp_scheme \<Rightarrow> ('a FrameApp_scheme \<times> call list) option" where
  "submit_and_signal s =
     (case mCurrFrameResource s of
        None \<Rightarrow> None
      | Some i \<Rightarrow>
          if i < length (mFrameResources s) \<and> SwapChainBufferCount s \<noteq> 0
          then
            (let f = mCurrentFence s + 1;
                 fr = mFrameResources s ! i
             in Some
                  (s\<lparr>mCurrBackBuffer := (mCurrBackBuffer s + 1) smod SwapChainBufferCount s,
                     mCurrentFence := f,
                     mFrameResources := (mFrameResources s)[i := fr\<lparr>Fence := f\<rparr>]\<rparr>,
                   [Rec ''ResourceBarrier'', ListClose, ExecuteCommandLists, Present, Signal f]))
          else None)"

text \<open>
  The start of Draw (CrateApp.cpp 267-289, BlendApp.cpp 1489-1511): the allocator of
  the current frame resource and the command list are reset, then the viewport, the
  scissor rectangle, the barrier, the two clears and the render targets are recorded.
\<close>

definition begin_recording :: "call list" where
  "begin_recording =
     [AllocReset, ListReset, Rec ''RSSetViewports'', Rec ''RSSetScissorRects'',
      Rec ''ResourceBarrier'', Rec ''ClearRenderTargetView'', Rec ''ClearDepthStencilView'',
      Rec ''OMSetRenderTargets'']"

text \<open>Running a list of callbacks; the calls they make are collected in order.\<close>

fun run_with ::
  "('e \<Rightarrow> 's \<Rightarrow> ('s \<times> call list) option) \<Rightarrow> 'e list \<Rightarrow> 's \<Rightarrow> ('s \<times> call list) option" where
  "run_with step [] s = Some (s, [])"
| "run_with step (e # es) s =
     (case step e s of
        None \<Rightarrow> None
      | Some (s1, t1) \<Rightarrow>
          (case run_with step es s1 of
             None \<Rightarrow> None
           | Some (s2, t2) \<Rightarrow> Some (s2, t1 @ t2)))"

fun signals :: "call list \<Rightarrow> nat list" where
  "signals [] = []"
| "signals (Signal v # cs) = v # signals cs"
| "signals (c # cs) = signals cs"

fun is_wait :: "call \<Rightarrow> bool" where
  "is_wait (WaitForFence v) = True"
| "is_wait FlushCommandQueue = True"
| "is_wait c = False"

fun is_Rec :: "call \<Rightarrow> bool" where
  "is_Rec (Rec n) = True"
| "is_Rec (Dev n) = True"
| "is_Rec c = False"

section \<open>The CPU and the GPU around the fence\<close>










section \<open>CrateApp\<close>

text \<open>
  \<open>m[k] = v\<close> on an unordered map: the entry of \<open>k\<close> is replaced, or a new entry is
  added. \<open>modify k f m\<close> changes the object that the entry of \<open>k\<close> points to.
\<close>

fun assign :: "string \<Rightarrow> 'v \<Rightarrow> (string \<times> 'v) list \<Rightarrow> (string \<times> 'v) list" where
  "assign k v [] = [(k, v)]"
| "assign k v ((k', v') # m) = (if k' = k then (k, v) # m else (k', v') # assign k v m)"

definition modify :: "string \<Rightarrow> ('v \<Rightarrow> 'v) \<Rightarrow> (string \<times> 'v) list \<Rightarrow> (string \<times> 'v) list" where
  "modify k f m = map (\<lambda>(k', v). if k' = k then (k', f v) else (k', v)) m"

datatype D3D12_FILTER =
    D3D12_FILTER_MIN_MAG_MIP_POINT
  | D3D12_FILTER_MIN_MAG_MIP_LINEAR
  | D3D12_FILTER_ANISOTROPIC

datatype D3D12_TEXTURE_ADDRESS_MODE =
    D3D12_TEXTURE_ADDRESS_MODE_WRAP
  | D3D12_TEXTURE_ADDRESS_MODE_MIRROR
  | D3D12_TEXTURE_ADDRESS_MODE_CLAMP
  | D3D12_TEXTURE_ADDRESS_MODE_BORDER

text \<open>
  The members of CrateApp (CrateApp.cpp 106-159) beyond the shared ones.
  \<open>mOpaqueRitems\<close> holds pointers to the elements of \<open>mAllRitems\<close>: their positions.
  The camera members are modelled with OnMouseMove in their own section.
\<close>

record CrateApp = FrameApp +
  mOpaqueRitems :: "nat list"
  mOpaqueDraw :: bool
  mTexTransformScale :: real
  mCurrentSamplerFilter :: D3D12_FILTER
  mCurrentSamplerAddressMode :: D3D12_TEXTURE_ADDRESS_MODE
  mSamplerDirty :: bool

text \<open>
  The object after its constructor (member initialisers, CrateApp.cpp 106-159), on the
  D3DApp members \<open>d\<close> that D3DApp::Initialize (not among the sources) has set up.
\<close>

definition CrateApp_new :: "D3DApp \<Rightarrow> CrateApp" where
  "CrateApp_new d =
     \<lparr>SwapChainBufferCount = SwapChainBufferCount d,
      mCurrBackBuffer = mCurrBackBuffer d,
      mCurrentFence = mCurrentFence d,
      mFrameResources = [], mCurrFrameResource = None, mCurrFrameResourceIndex = 0,
      mAllRitems = [], mMaterials = [], mGeometries = [], mTextures = [],
      mSrvDescriptorHeap = None,
      mOpaqueRitems = [], mOpaqueDraw = True, mTexTransformScale = 1,
      mCurrentSamplerFilter = D3D12_FILTER_MIN_MAG_MIP_POINT,
      mCurrentSamplerAddressMode = D3D12_TEXTURE_ADDRESS_MODE_WRAP,
      mSamplerDirty = False\<rparr>"

text \<open>LoadTextures (CrateApp.cpp 717-751).\<close>

definition CrateApp_LoadTextures :: "CrateApp \<Rightarrow> CrateApp" where
  "CrateApp_LoadTextures s =
     s\<lparr>mTextures :=
         assign ''flareAlphaTex''
           \<lparr>Texture.Name = ''flareAlphaTex'', Filename = ''../../Textures/flarealpha.dds''\<rparr>
           (assign ''flareTex''
              \<lparr>Texture.Name = ''flareTex'', Filename = ''../../Textures/flare.dds''\<rparr>
              (assign ''woodCrateTex''
                 \<lparr>Texture.Name = ''woodCrateTex'', Filename = ''../../Textures/mipmaps.dds''\<rparr>
                 (mTextures s)))\<rparr>"

text \<open>BuildDescriptorHeaps (CrateApp.cpp 843-897): an SRV heap of three descriptors.\<close>

definition CrateApp_BuildDescriptorHeaps :: "CrateApp \<Rightarrow> CrateApp" where
  "CrateApp_BuildDescriptorHeaps s = s\<lparr>mSrvDescriptorHeap := Some 3\<rparr>"

text \<open>BuildShapeGeometry (CrateApp.cpp 917-965).\<close>

definition CrateApp_BuildShapeGeometry :: "CrateApp \<Rightarrow> CrateApp" where
  "CrateApp_BuildShapeGeometry s =
     s\<lparr>mGeometries :=
         assign ''boxGeo'' \<lparr>MeshGeometry.Name = ''boxGeo'', DrawArgs = [''box'']\<rparr>
           (mGeometries s)\<rparr>"

text \<open>BuildMaterials (CrateApp.cpp 1035-1057).\<close>

definition CrateApp_BuildMaterials :: "CrateApp \<Rightarrow> CrateApp" where
  "CrateApp_BuildMaterials s =
     s\<lparr>mMaterials :=
         assign ''flareBox'' ((make_Material ''flareBox'' 1 1)\<lparr>AlphaSrvHeapIndex := 2\<rparr>)
           (assign ''woodCrate'' (make_Material ''woodCrate'' 0 0) (mMaterials s))\<rparr>"

text \<open>
  BuildRenderItems (CrateApp.cpp 1059-1088). The loop at the end pushes a pointer to
  every element of \<open>mAllRitems\<close>.
\<close>

definition CrateApp_BuildRenderItems :: "CrateApp \<Rightarrow> CrateApp" where
  "CrateApp_BuildRenderItems s =
     (let boxRitem = RenderItem_default
            \<lparr>ObjCBIndex := 0, Mat := Some ''woodCrate'', Geo := Some ''boxGeo'',
             World := XMMatrixTranslation (- 0.75) 0 0\<rparr>;
          flareBox = RenderItem_default
            \<lparr>ObjCBIndex := 1, Mat := Some ''flareBox'', Geo := Some ''boxGeo'',
             World := XMMatrixTranslation 0.75 0 0\<rparr>;
          all = mAllRitems s @ [boxRitem, flareBox]
      in s\<lparr>mAllRitems := all, mOpaqueRitems := mOpaqueRitems s @ [0..<length all]\<rparr>)"

text \<open>
  BuildFrameResources (CrateApp.cpp 1026-1033, BlendApp.cpp 2272-2279): the loop pushes
  \<open>gNumFrameResources\<close> frame resources with one pass element and as many object and
  material elements as there are render items and materials (the sizes are cast to UINT).
  BlendApp passes the wave vertex count as well; the wave vertex buffer is not modelled.
\<close>

definition BuildFrameResources :: "'a FrameApp_scheme \<Rightarrow> 'a FrameApp_scheme" where
  "BuildFrameResources s =
     s\<lparr>mFrameResources :=
         mFrameResources s @
         replicate (nat gNumFrameResources)
           (make_FrameResource 1 (of_nat (length (mAllRitems s)))
              (of_nat (length (mMaterials s))))\<rparr>"

text \<open>
  Initialize (CrateApp.cpp 196-228). The calls that only create GPU objects (root
  signatures, shaders, pipeline states) and the failures of the device are not modelled.
\<close>

definition CrateApp_Initialize :: "D3DApp \<Rightarrow> CrateApp" where
  "CrateApp_Initialize d =
     BuildFrameResources
       (CrateApp_BuildRenderItems
          (CrateApp_BuildMaterials
             (CrateApp_BuildShapeGeometry
                (CrateApp_BuildDescriptorHeaps
                   (CrateApp_LoadTextures (CrateApp_new d))))))"

text \<open>ScaleTexTransform (CrateApp.cpp 534-543).\<close>

definition ScaleTexTransform :: "real \<Rightarrow> CrateApp \<Rightarrow> CrateApp" where
  "ScaleTexTransform newScaleDelta s =
     (let sc = max (mTexTransformScale s + newScaleDelta) 0.1
      in s\<lparr>mTexTransformScale := sc,
           mAllRitems :=
             map (\<lambda>e. e\<lparr>TexTransform := XMMatrixScaling sc sc 1,
                         RenderItem.NumFramesDirty := gNumFrameResources\<rparr>)
               (mAllRitems s)\<rparr>)"

text \<open>
  ChangeSamplerFilter, ChangeSamplerAddressMode and MarkSamplerDirty
  (CrateApp.cpp 545-566).
\<close>

definition MarkSamplerDirty :: "CrateApp \<Rightarrow> CrateApp" where
  "MarkSamplerDirty s = s\<lparr>mSamplerDirty := True\<rparr>"

definition ChangeSamplerFilter :: "D3D12_FILTER \<Rightarrow> CrateApp \<Rightarrow> CrateApp" where
  "ChangeSamplerFilter newFilter s =
     (if newFilter \<noteq> mCurrentSamplerFilter s
      then MarkSamplerDirty (s\<lparr>mCurrentSamplerFilter := newFilter\<rparr>)
      else s)"

definition ChangeSamplerAddressMode :: "D3D12_TEXTURE_ADDRESS_MODE \<Rightarrow> CrateApp \<Rightarrow> CrateApp" where
  "ChangeSamplerAddressMode newAddressMode s =
     (if newAddressMode \<noteq> mCurrentSamplerAddressMode s
      then MarkSamplerDirty (s\<lparr>mCurrentSamplerAddressMode := newAddressMode\<rparr>)
      else s)"

text \<open>
  OnKeyDown (CrateApp.cpp 474-532). The keys are the character codes of '1' to '9' and
  the virtual-key codes of F1 and F2 (0x70, 0x71).
\<close>

definition VK_F1 :: WPARAM where "VK_F1 = 0x70"
definition VK_F2 :: WPARAM where "VK_F2 = 0x71"

definition CrateApp_OnKeyDown :: "WPARAM \<Rightarrow> CrateApp \<Rightarrow> CrateApp" where
  "CrateApp_OnKeyDown wParam s =
     (if wParam = 0x31 then ScaleTexTransform 0.01 s
      else if wParam = 0x32 then ScaleTexTransform (- 0.01) s
      else if wParam = 0x33 then ChangeSamplerFilter D3D12_FILTER_MIN_MAG_MIP_POINT s
      else if wParam = 0x34 then ChangeSamplerFilter D3D12_FILTER_MIN_MAG_MIP_LINEAR s
      else if wParam = 0x35 then ChangeSamplerFilter D3D12_FILTER_ANISOTROPIC s
      else if wParam = 0x36 then ChangeSamplerAddressMode D3D12_TEXTURE_ADDRESS_MODE_WRAP s
      else if wParam = 0x37 then ChangeSamplerAddressMode D3D12_TEXTURE_ADDRESS_MODE_CLAMP s
      else if wParam = 0x38 then ChangeSamplerAddressMode D3D12_TEXTURE_ADDRESS_MODE_BORDER s
      else if wParam = 0x39 then ChangeSamplerAddressMode D3D12_TEXTURE_ADDRESS_MODE_MIRROR s
      else if wParam = VK_F1 then s\<lparr>mOpaqueDraw := True\<rparr>
      else if wParam = VK_F2 then s\<lparr>mOpaqueDraw := False\<rparr>
      else s)"

text \<open>
  AnimateMaterials (CrateApp.cpp 609-621). \<open>m2\<close> is the texture transform computed
  from the timer (a rotation about the centre of the texture); it is an input.
  \<open>mOpaqueRitems[1]\<close> out of range is undefined behaviour: \<open>None\<close>.
\<close>

definition CrateApp_AnimateMaterials :: "XMFLOAT4X4 \<Rightarrow> CrateApp \<Rightarrow> CrateApp option" where
  "CrateApp_AnimateMaterials m2 s =
     (if 1 < length (mOpaqueRitems s) \<and> mOpaqueRitems s ! 1 < length (mAllRitems s)
      then
        (let k = mOpaqueRitems s ! 1;
             item = mAllRitems s ! k
         in Some (s\<lparr>mAllRitems :=
                      (mAllRitems s)
                        [k := item\<lparr>TexTransform := m2,
                                   RenderItem.NumFramesDirty := gNumFrameResources\<rparr>]\<rparr>))
      else None)"

text \<open>UpdateSampler and CreateSamplerDescriptor (CrateApp.cpp 708-715, 568-584).\<close>

definition UpdateSampler :: "CrateApp \<Rightarrow> CrateApp \<times> call list" where
  "UpdateSampler s =
     (if mSamplerDirty s then (s\<lparr>mSamplerDirty := False\<rparr>, [Dev ''CreateSampler''])
      else (s, []))"

text \<open>
  Update (CrateApp.cpp 239-263). OnKeyboardInput is empty; UpdateCamera and
  UpdateMainPassCB compute float matrices from the camera and the timer and copy them
  into element 0 of the pass buffer of the current frame resource; they do not touch the
  members modelled here. \<open>completed\<close> is the completed value of the fence that Update
  reads.
\<close>

definition CrateApp_Update ::
  "XMFLOAT4X4 \<Rightarrow> nat \<Rightarrow> CrateApp \<Rightarrow> (CrateApp \<times> call list) option" where
  "CrateApp_Update m2 completed s =
     (case cycle_frame_resource s of
        None \<Rightarrow> None
      | Some s1 \<Rightarrow>
          (case CrateApp_AnimateMaterials m2 s1 of
             None \<Rightarrow> None
           | Some s2 \<Rightarrow>
               (case UpdateObjectCBs s2 of
                  None \<Rightarrow> None
                | Some s3 \<Rightarrow>
                    (case UpdateMaterialCBs s3 of
                       None \<Rightarrow> None
                     | Some s4 \<Rightarrow>
                         Some (fst (UpdateSampler s4),
                               wait_calls completed s1 @ snd (UpdateSampler s4))))))"

text \<open>
  The two blocks of Draw that draw \<open>mOpaqueRitems[0]\<close> and \<open>mOpaqueRitems[1]\<close>
  (CrateApp.cpp 302-334, 336-368). A null or dangling render item, geometry or material
  is undefined behaviour: \<open>None\<close>.
\<close>

definition CrateApp_draw_item :: "nat \<Rightarrow> CrateApp \<Rightarrow> call list option" where
  "CrateApp_draw_item n s =
     (if n < length (mOpaqueRitems s) \<and> mOpaqueRitems s ! n < length (mAllRitems s)
      then
        (let currentRenderItem = mAllRitems s ! (mOpaqueRitems s ! n)
         in case (Geo currentRenderItem, Mat currentRenderItem) of
              (Some g, Some m) \<Rightarrow>
                (case (map_of (mGeometries s) g, map_of (mMaterials s) m) of
                   (Some geo, Some mat) \<Rightarrow>
                     Some [Rec ''SetPipelineState'', Rec ''SetGraphicsRootSignature'',
                           Rec ''SetGraphicsRootConstantBufferView'',
                           Rec ''SetGraphicsRootDescriptorTable'',
                           Rec ''IASetVertexBuffers'', Rec ''IASetIndexBuffer'',
                           Rec ''IASetPrimitiveTopology'',
                           Rec ''SetGraphicsRootDescriptorTable'',
                           Rec ''SetGraphicsRootConstantBufferView'',
                           Rec ''SetGraphicsRootConstantBufferView'',
                           Rec ''DrawIndexedInstanced'']
                 | _ \<Rightarrow> None)
            | _ \<Rightarrow> None)
      else None)"

text \<open>Draw (CrateApp.cpp 265-427).\<close>

definition CrateApp_Draw :: "CrateApp \<Rightarrow> (CrateApp \<times> call list) option" where
  "CrateApp_Draw s =
     (case (CrateApp_draw_item 0 s, CrateApp_draw_item 1 s, submit_and_signal s) of
        (Some t0, Some t1, Some (s', t)) \<Rightarrow>
          Some (s', begin_recording @ [Rec ''SetDescriptorHeaps''] @ t0 @ t1 @ t)
      | _ \<Rightarrow> None)"

text \<open>The callbacks that the message loop of D3DApp delivers to CrateApp.\<close>

datatype CrateEvent =
    Crate_Update XMFLOAT4X4 nat
  | Crate_Draw
  | Crate_OnKeyDown WPARAM

fun CrateApp_step :: "CrateEvent \<Rightarrow> CrateApp \<Rightarrow> (CrateApp \<times> call list) option" where
  "CrateApp_step (Crate_Update m2 completed) s = CrateApp_Update m2 completed s"
| "CrateApp_step Crate_Draw s = CrateApp_Draw s"
| "CrateApp_step (Crate_OnKeyDown wParam) s = Some (CrateApp_OnKeyDown wParam s, [])"

section \<open>BlendApp\<close>

datatype RenderLayer = Opaque | Transparent | AnimatedBolt | AlphaTested

datatype RenderMode = Normal | PixelOverdraw

text \<open>
  \<open>struct PixelOverdrawResources\<close> (BlendApp.cpp 1249-1269): the full-screen quad
  geometry, the pipeline states by name (the quad's own and the scene's), the descriptor
  offset of the quad texture and the render item of the quad.
\<close>

record PixelOverdrawResources =
  quadGeo :: "MeshGeometry option"
  quadPSO :: bool
  mPixelOverdrawPSOs :: "string list"
  quadTexture :: bool
  srvOffsetInHeap :: UINT
  renderItem :: "RenderItem option"

text \<open>
  The members of BlendApp (BlendApp.cpp 1328-1378) beyond the shared ones.
  \<open>mRitemLayer\<close> holds, per layer, pointers to the elements of \<open>mAllRitems\<close>: their
  positions. The wave simulation and the camera are not part of this record.
\<close>

record BlendApp = FrameApp +
  mBoltAnimTextures :: "Texture list"
  mBoltAnimSrvOffsetInHeap :: UINT
  mWavesRitem :: "nat option"
  mRitemLayer :: "RenderLayer \<Rightarrow> nat list"
  mDefaultPSOs :: "string list"
  mDrawTransparentFirst :: bool
  mRenderMode :: RenderMode
  mPixelOverdrawResources :: "PixelOverdrawResources option"

definition BlendApp_new :: "D3DApp \<Rightarrow> BlendApp" where
  "BlendApp_new d =
     \<lparr>SwapChainBufferCount = SwapChainBufferCount d,
      mCurrBackBuffer = mCurrBackBuffer d,
      mCurrentFence = mCurrentFence d,
      mFrameResources = [], mCurrFrameResource = None, mCurrFrameResourceIndex = 0,
      mAllRitems = [], mMaterials = [], mGeometries = [], mTextures = [],
      mSrvDescriptorHeap = None,
      mBoltAnimTextures = [], mBoltAnimSrvOffsetInHeap = 0, mWavesRitem = None,
      mRitemLayer = (\<lambda>l. []), mDefaultPSOs = [], mDrawTransparentFirst = False,
      mRenderMode = Normal, mPixelOverdrawResources = None\<rparr>"

text \<open>\<open>std::to_string\<close> on a non-negative number, and the \<open>%.3d\<close> of swprintf.\<close>

fun to_string :: "nat \<Rightarrow> string" where
  "to_string n =
     (if n < 10 then [char_of (48 + n)]
      else to_string (n div 10) @ [char_of (48 + n mod 10)])"

declare to_string.simps [simp del]

definition pad3 :: "nat \<Rightarrow> string" where
  "pad3 n = (if n < 10 then ''00'' else if n < 100 then ''0'' else []) @ to_string n"

text \<open>
  LoadTextures (BlendApp.cpp 1886-1929): three named textures and the
  \<open>AnimTexturesCount = 60\<close> textures of the bolt animation, numbered from 1.
\<close>

definition BlendApp_LoadTextures :: "BlendApp \<Rightarrow> BlendApp" where
  "BlendApp_LoadTextures s =
     s\<lparr>mTextures :=
         assign ''fenceTex''
           \<lparr>Texture.Name = ''fenceTex'', Filename = ''../../Textures/WireFence.dds''\<rparr>
           (assign ''waterTex''
              \<lparr>Texture.Name = ''waterTex'', Filename = ''../../Textures/water1.dds''\<rparr>
              (assign ''grassTex''
                 \<lparr>Texture.Name = ''grassTex'', Filename = ''../../Textures/grass.dds''\<rparr>
                 (mTextures s))),
       mBoltAnimTextures :=
         mBoltAnimTextures s @
         map (\<lambda>i. \<lparr>Texture.Name = ''BoltAnim_'' @ to_string i,
                    Filename = ''../../Textures/BoltAnim_DDS/Bolt'' @ pad3 i @ ''.dds''\<rparr>)
           [1..<61]\<rparr>"

text \<open>
  BuildDescriptorHeaps (BlendApp.cpp 1971-2023): the heap has room for the three named
  textures, the bolt textures and the pixel-overdraw texture (the sum is computed in
  UINT); the bolt descriptors start at offset 3.
\<close>

definition BlendApp_BuildDescriptorHeaps :: "BlendApp \<Rightarrow> BlendApp" where
  "BlendApp_BuildDescriptorHeaps s =
     s\<lparr>mSrvDescriptorHeap :=
         Some (unat (3 + (word_of_nat (length (mBoltAnimTextures s)) :: UINT) + 1)),
       mBoltAnimSrvOffsetInHeap := 3\<rparr>"

text \<open>
  BuildLandGeometry, BuildWavesGeometry, BuildBoxGeometry and BuildBoltGeometry
  (BlendApp.cpp 2065-2265), by the entries they add to \<open>mGeometries\<close>.
\<close>

definition BlendApp_BuildGeometry :: "BlendApp \<Rightarrow> BlendApp" where
  "BlendApp_BuildGeometry s =
     s\<lparr>mGeometries :=
         assign ''boltGeo'' \<lparr>MeshGeometry.Name = ''boltGeo'', DrawArgs = [''bolt'']\<rparr>
           (assign ''boxGeo'' \<lparr>MeshGeometry.Name = ''boxGeo'', DrawArgs = [''box'']\<rparr>
              (assign ''waterGeo'' \<lparr>MeshGeometry.Name = ''waterGeo'', DrawArgs = [''grid'']\<rparr>
                 (assign ''landGeo'' \<lparr>MeshGeometry.Name = ''landGeo'', DrawArgs = [''grid'']\<rparr>
                    (mGeometries s))))\<rparr>"

text \<open>BuildMaterials (BlendApp.cpp 2281-2322).\<close>

definition BlendApp_BuildMaterials :: "BlendApp \<Rightarrow> BlendApp" where
  "BlendApp_BuildMaterials s =
     s\<lparr>mMaterials :=
         assign ''boltAnim'' (make_Material ''boltAnim'' 3 (unat (mBoltAnimSrvOffsetInHeap s)))
           (assign ''wirefence'' (make_Material ''wirefence'' 2 2)
              (assign ''water'' (make_Material ''water'' 1 1)
                 (assign ''grass'' (make_Material ''grass'' 0 0) (mMaterials s))))\<rparr>"

text \<open>
  BuildRenderItems (BlendApp.cpp 2324-2383). The four items are moved into
  \<open>mAllRitems\<close> in the order waves, grid, box, bolt; the layers keep the pointers.
\<close>

definition BlendApp_BuildRenderItems :: "BlendApp \<Rightarrow> BlendApp" where
  "BlendApp_BuildRenderItems s =
     (let n = length (mAllRitems s);
          wavesRitem = RenderItem_default
            \<lparr>World := Identity4x4, TexTransform := XMMatrixScaling 5 5 1, ObjCBIndex := 0,
             Mat := Some ''water'', Geo := Some ''waterGeo''\<rparr>;
          gridRitem = RenderItem_default
            \<lparr>World := Identity4x4, TexTransform := XMMatrixScaling 5 5 1, ObjCBIndex := 1,
             Mat := Some ''grass'', Geo := Some ''landGeo''\<rparr>;
          boxRitem = RenderItem_default
            \<lparr>World := XMMatrixTranslation 3 2 (- 9), ObjCBIndex := 2,
             Mat := Some ''wirefence'', Geo := Some ''boxGeo''\<rparr>;
          animatedBoltItem = RenderItem_default
            \<lparr>World := XMMatrixTranslation 3 11 (- 9), TexTransform := XMMatrixScaling 1 4 1,
             ObjCBIndex := 3, Mat := Some ''boltAnim'', Geo := Some ''boltGeo''\<rparr>;
          l = mRitemLayer s
      in s\<lparr>mWavesRitem := Some n,
           mRitemLayer :=
             l(Transparent := l Transparent @ [n],
               Opaque := l Opaque @ [n + 1],
               AlphaTested := l AlphaTested @ [n + 2],
               AnimatedBolt := l AnimatedBolt @ [n + 3]),
           mAllRitems := mAllRitems s @ [wavesRitem, gridRitem, boxRitem, animatedBoltItem]\<rparr>)"

text \<open>
  BuildPSOsForSceneRendering (BlendApp.cpp 2622-2741), by the names it stores pipeline
  states under, and BuildPSOs (2267-2270).
\<close>

definition BuildPSOsForSceneRendering :: "string list" where
  "BuildPSOsForSceneRendering = [''opaque'', ''transparent'', ''alphaTested'', ''animatedBolt'']"

definition BlendApp_BuildPSOs :: "BlendApp \<Rightarrow> BlendApp" where
  "BlendApp_BuildPSOs s = s\<lparr>mDefaultPSOs := BuildPSOsForSceneRendering\<rparr>"

text \<open>Initialize (BlendApp.cpp 1414-1450).\<close>

definition BlendApp_Initialize :: "D3DApp \<Rightarrow> BlendApp" where
  "BlendApp_Initialize d =
     BlendApp_BuildPSOs
       (BuildFrameResources
          (BlendApp_BuildRenderItems
             (BlendApp_BuildMaterials
                (BlendApp_BuildGeometry
                   (BlendApp_BuildDescriptorHeaps
                      (BlendApp_LoadTextures (BlendApp_new d)))))))"

text \<open>
  AnimateMaterials (BlendApp.cpp 1711-1759). \<open>dt\<close> is \<open>gt.DeltaTime()\<close>. \<open>tick\<close>
  says whether the timer has advanced by the update interval of 1/30 s since the offset
  last changed (the test at 1744 on the static \<open>lastUpdatedTime\<close>). A missing map entry
  is a null pointer that is dereferenced, and \<open>% size()\<close> with no bolt texture divides
  by zero: \<open>None\<close>. \<open>currentOffset - 3 + 1\<close> is computed in UINT, the remainder and
  the sum in \<open>size_t\<close>, and the result is stored into a UINT.
\<close>

definition BlendApp_AnimateMaterials :: "real \<Rightarrow> bool \<Rightarrow> BlendApp \<Rightarrow> BlendApp option" where
  "BlendApp_AnimateMaterials dt tick s =
     (case map_of (mMaterials s) ''water'' of
        None \<Rightarrow> None
      | Some waterMat \<Rightarrow>
          (let M = MatTransform waterMat;
               tu0 = M ! 3 ! 0 + 0.1 * dt;
               tv0 = M ! 3 ! 1 + 0.02 * dt;
               tu = (if tu0 \<ge> 1 then tu0 - 1 else tu0);
               tv = (if tv0 \<ge> 1 then tv0 - 1 else tv0);
               scroll = (\<lambda>m. m\<lparr>MatTransform := M[3 := (M ! 3)[0 := tu, 1 := tv]],
                                Material.NumFramesDirty := gNumFrameResources\<rparr>);
               s1 = s\<lparr>mMaterials := modify ''water'' scroll (mMaterials s)\<rparr>
           in if tick
              then
                (case map_of (mMaterials s1) ''boltAnim'' of
                   None \<Rightarrow> None
                 | Some boltAnimMat \<Rightarrow>
                     if length (mBoltAnimTextures s1) = 0 then None
                     else
                       (let currentOffset = mBoltAnimSrvOffsetInHeap s1;
                            offset = (word_of_nat
                               (unat (currentOffset - 3 + 1) mod length (mBoltAnimTextures s1) + 3)
                                :: UINT)
                        in Some
                             (s1\<lparr>mBoltAnimSrvOffsetInHeap := offset,
                                 mMaterials :=
                                   modify ''boltAnim''
                                     (\<lambda>m. m\<lparr>DiffuseSrvHeapIndex := unat offset\<rparr>)
                                     (mMaterials s1)\<rparr>)))
              else Some s1))"

text \<open>
  Update (BlendApp.cpp 1461-1485). OnKeyboardInput is empty; UpdateCamera,
  UpdateMainPassCB and UpdateWaves compute float data from the camera, the timer and the
  wave simulation and copy it into the pass buffer and the wave vertex buffer of the
  current frame resource; they do not touch the members modelled here.
\<close>

definition BlendApp_Update ::
  "real \<Rightarrow> bool \<Rightarrow> nat \<Rightarrow> BlendApp \<Rightarrow> (BlendApp \<times> call list) option" where
  "BlendApp_Update dt tick completed s =
     (case cycle_frame_resource s of
        None \<Rightarrow> None
      | Some s1 \<Rightarrow>
          (case BlendApp_AnimateMaterials dt tick s1 of
             None \<Rightarrow> None
           | Some s2 \<Rightarrow>
               (case UpdateObjectCBs s2 of
                  None \<Rightarrow> None
                | Some s3 \<Rightarrow>
                    (case UpdateMaterialCBs s3 of
                       None \<Rightarrow> None
                     | Some s4 \<Rightarrow> Some (s4, wait_calls completed s1)))))"

text \<open>
  CreateResourcesForPixelOverdrawMode (BlendApp.cpp 2492-2607): nothing when the
  resources exist; otherwise the quad geometry, the pipeline states, the quad texture and
  its descriptor at offset \<open>3 + mBoltAnimTextures.size()\<close> (stored into a UINT) are
  created. The member \<open>renderItem\<close> is never assigned.
\<close>

definition CreateResourcesForPixelOverdrawMode :: "BlendApp \<Rightarrow> BlendApp \<times> call list" where
  "CreateResourcesForPixelOverdrawMode s =
     (if mPixelOverdrawResources s \<noteq> None then (s, [])
      else
        (s\<lparr>mPixelOverdrawResources :=
             Some \<lparr>quadGeo = Some \<lparr>MeshGeometry.Name = ''quadGeo'', DrawArgs = [''quad'']\<rparr>,
                   quadPSO = True,
                   mPixelOverdrawPSOs = BuildPSOsForSceneRendering,
                   quadTexture = True,
                   srvOffsetInHeap = word_of_nat (3 + length (mBoltAnimTextures s)),
                   renderItem = None\<rparr>\<rparr>,
         [Dev ''CreateDefaultBuffer'', Dev ''CreateDefaultBuffer'']
         @ map (\<lambda>n. Dev ''CreateGraphicsPipelineState'') BuildPSOsForSceneRendering
         @ [Dev ''CreateGraphicsPipelineState'', Dev ''CreateCommittedResource'',
            Dev ''CreateShaderResourceView'']))"

text \<open>
  GetPsoForSceneRendering (BlendApp.cpp 2743-2751), by the map the pipeline state is
  taken from. In pixel-overdraw mode the resources are dereferenced: \<open>None\<close> when they
  do not exist.
\<close>

definition GetPsoForSceneRendering :: "string \<Rightarrow> BlendApp \<Rightarrow> string option" where
  "GetPsoForSceneRendering psoName s =
     (if mRenderMode s = PixelOverdraw
      then (case mPixelOverdrawResources s of
              None \<Rightarrow> None
            | Some r \<Rightarrow> Some (''mPixelOverdrawPSOs/'' @ psoName))
      else Some (''mDefaultPSOs/'' @ psoName))"

text \<open>
  DrawRenderItems (BlendApp.cpp 2385-2414) on a list of render-item pointers. A null or
  dangling render item, geometry or material is undefined behaviour: \<open>None\<close>.
\<close>

fun DrawRenderItems :: "BlendApp \<Rightarrow> nat list \<Rightarrow> call list option" where
  "DrawRenderItems s [] = Some []"
| "DrawRenderItems s (k # ks) =
     (if k < length (mAllRitems s)
      then
        (let ri = mAllRitems s ! k
         in case (Geo ri, Mat ri) of
              (Some g, Some m) \<Rightarrow>
                (case (map_of (mGeometries s) g, map_of (mMaterials s) m,
                       DrawRenderItems s ks) of
                   (Some geo, Some mat, Some t) \<Rightarrow>
                     Some ([Rec ''IASetVertexBuffers'', Rec ''IASetIndexBuffer'',
                            Rec ''IASetPrimitiveTopology'',
                            Rec ''SetGraphicsRootDescriptorTable'',
                            Rec ''SetGraphicsRootConstantBufferView'',
                            Rec ''SetGraphicsRootConstantBufferView'',
                            Rec ''DrawIndexedInstanced''] @ t)
                 | _ \<Rightarrow> None)
            | _ \<Rightarrow> None)
      else None)"

text \<open>SetPipelineState for a layer followed by DrawRenderItems on it.\<close>

definition draw_layer :: "string \<Rightarrow> RenderLayer \<Rightarrow> BlendApp \<Rightarrow> call list option" where
  "draw_layer psoName layer s =
     (case (GetPsoForSceneRendering psoName s, DrawRenderItems s (mRitemLayer s layer)) of
        (Some pso, Some t) \<Rightarrow> Some (Rec ''SetPipelineState'' # t)
      | _ \<Rightarrow> None)"

fun concat_calls :: "call list option list \<Rightarrow> call list option" where
  "concat_calls [] = Some []"
| "concat_calls (None # ts) = None"
| "concat_calls (Some t # ts) =
     (case concat_calls ts of None \<Rightarrow> None | Some r \<Rightarrow> Some (t @ r))"

text \<open>The block that draws the full-screen quad in pixel-overdraw mode (BlendApp.cpp 1553-1603).\<close>

definition draw_overdraw_quad :: "BlendApp \<Rightarrow> call list option" where
  "draw_overdraw_quad s =
     (if mRenderMode s = PixelOverdraw
      then
        (case mPixelOverdrawResources s of
           None \<Rightarrow> None
         | Some r \<Rightarrow>
             (case quadGeo r of
                None \<Rightarrow> None
              | Some g \<Rightarrow>
                  Some [Rec ''ResourceBarrier'', Rec ''ResourceBarrier'',
                        Rec ''CopyTextureRegion'',
                        Rec ''ResourceBarrier'', Rec ''ResourceBarrier'',
                        Rec ''SetPipelineState'',
                        Rec ''IASetVertexBuffers'', Rec ''IASetIndexBuffer'',
                        Rec ''IASetPrimitiveTopology'',
                        Rec ''SetGraphicsRootDescriptorTable'',
                        Rec ''DrawIndexedInstanced'']))
      else Some [])"

text \<open>Draw (BlendApp.cpp 1487-1628).\<close>

definition BlendApp_Draw :: "BlendApp \<Rightarrow> (BlendApp \<times> call list) option" where
  "BlendApp_Draw s =
     (let c = (if mRenderMode s = PixelOverdraw
               then CreateResourcesForPixelOverdrawMode s else (s, []));
          s1 = fst c;
          blended = [draw_layer ''transparent'' Transparent s1,
                     draw_layer ''animatedBolt'' AnimatedBolt s1]
      in case (concat_calls
                 ((if mDrawTransparentFirst s1 then blended else [])
                  @ [draw_layer ''opaque'' Opaque s1,
                     draw_layer ''alphaTested'' AlphaTested s1]
                  @ (if \<not> mDrawTransparentFirst s1 then blended else [])
                  @ [draw_overdraw_quad s1]),
               submit_and_signal s1) of
           (Some body, Some (s', t)) \<Rightarrow>
             Some (s', begin_recording
                       @ [Rec ''SetDescriptorHeaps'', Rec ''SetGraphicsRootSignature'',
                          Rec ''SetGraphicsRootConstantBufferView'']
                       @ snd c @ body @ t)
         | _ \<Rightarrow> None)"

text \<open>ChangeRenderMode and OnKeyDown (BlendApp.cpp 2609-2614, 1675-1689).\<close>

definition ChangeRenderMode :: "RenderMode \<Rightarrow> BlendApp \<Rightarrow> BlendApp" where
  "ChangeRenderMode newMode s = (if newMode = mRenderMode s then s else s\<lparr>mRenderMode := newMode\<rparr>)"

definition BlendApp_OnKeyDown :: "WPARAM \<Rightarrow> BlendApp \<Rightarrow> BlendApp" where
  "BlendApp_OnKeyDown wParam s =
     (if wParam = 0x31 then s\<lparr>mDrawTransparentFirst := \<not> mDrawTransparentFirst s\<rparr>
      else if wParam = VK_F1 then ChangeRenderMode Normal s
      else if wParam = VK_F2 then ChangeRenderMode PixelOverdraw s
      else s)"

text \<open>The callbacks that the message loop of D3DApp delivers to BlendApp.\<close>

datatype BlendEvent =
    Blend_Update real bool nat
  | Blend_Draw
  | Blend_OnKeyDown WPARAM

fun BlendApp_step :: "BlendEvent \<Rightarrow> BlendApp \<Rightarrow> (BlendApp \<times> call list) option" where
  "BlendApp_step (Blend_Update dt tick completed) s = BlendApp_Update dt tick completed s"
| "BlendApp_step Blend_Draw s = BlendApp_Draw s"
| "BlendApp_step (Blend_OnKeyDown wParam) s = Some (BlendApp_OnKeyDown wParam s, [])"

section \<open>BoxApp\<close>

text \<open>
  The members of BoxApp (BoxApp.cpp 78-125) that Update and Draw touch: the object
  constant buffer, as the sequence of its CopyData calls (the transposed
  world-view-projection matrix and the time), and the box geometry.
\<close>

record BoxApp = D3DApp +
  mObjectCB :: "(nat \<times> XMFLOAT4X4 \<times> real) list"
  mBoxGeo :: "MeshGeometry option"

text \<open>
  Initialize (BoxApp.cpp 162-190) by what BuildConstantBuffers and BuildBoxGeometry
  leave in these members (BoxApp.cpp 400-428, 505-600).
\<close>

definition BoxApp_Initialize :: "D3DApp \<Rightarrow> BoxApp" where
  "BoxApp_Initialize d =
     \<lparr>SwapChainBufferCount = SwapChainBufferCount d,
      mCurrBackBuffer = mCurrBackBuffer d,
      mCurrentFence = mCurrentFence d,
      mObjectCB = [],
      mBoxGeo = Some \<lparr>MeshGeometry.Name = ''boxGeo'', DrawArgs = [''box'', ''pyramid'']\<rparr>\<rparr>"

text \<open>
  Update (BoxApp.cpp 201-242). The two world-view-projection matrices are computed from
  the camera with float arithmetic; they and the timer value are inputs.
\<close>

definition BoxApp_Update ::
  "XMFLOAT4X4 \<Rightarrow> XMFLOAT4X4 \<Rightarrow> real \<Rightarrow> BoxApp \<Rightarrow> (BoxApp \<times> call list) option" where
  "BoxApp_Update worldViewProj wvp t s =
     Some (s\<lparr>mObjectCB :=
               mObjectCB s @ [(0, XMMatrixTranspose worldViewProj, t),
                              (1, XMMatrixTranspose wvp, t)]\<rparr>, [])"

text \<open>
  Draw (BoxApp.cpp 244-336, with USING_SINGLE_VERTEX_BUFFER set to 1 as at line 19).
  FlushCommandQueue belongs to D3DApp and is not among the sources: it is one call, and
  what it does to the fence members of D3DApp is not modelled. A null \<open>mBoxGeo\<close> and
  \<open>% SwapChainBufferCount\<close> with a zero count are undefined behaviour: \<open>None\<close>.
\<close>

definition BoxApp_Draw :: "BoxApp \<Rightarrow> (BoxApp \<times> call list) option" where
  "BoxApp_Draw s =
     (case mBoxGeo s of
        None \<Rightarrow> None
      | Some geo \<Rightarrow>
          if SwapChainBufferCount s \<noteq> 0
          then
            Some (s\<lparr>mCurrBackBuffer := (mCurrBackBuffer s + 1) smod SwapChainBufferCount s\<rparr>,
                  begin_recording
                  @ [Rec ''IASetPrimitiveTopology'', Rec ''SetDescriptorHeaps'',
                     Rec ''SetGraphicsRootSignature'', Rec ''SetGraphicsRootDescriptorTable'',
                     Rec ''IASetVertexBuffers'', Rec ''IASetIndexBuffer'',
                     Rec ''DrawIndexedInstanced'', Rec ''SetGraphicsRootDescriptorTable'',
                     Rec ''DrawIndexedInstanced'', Rec ''ResourceBarrier'']
                  @ [ListClose, ExecuteCommandLists, Present, FlushCommandQueue])
          else None)"

section \<open>One frame\<close>

text \<open>
  Modelled from the spec: the frame loop is D3DApp::Run (Common/d3dApp.cpp), which is
  missing from the sources. Section 2 of the spec gives its order: per-frame Update, then
  per-frame Draw, which ends with present and fence signal.
\<close>

definition frame ::
  "('s \<Rightarrow> ('s \<times> call list) option) \<Rightarrow> ('s \<Rightarrow> ('s \<times> call list) option) \<Rightarrow>
   's \<Rightarrow> ('s \<times> call list) option" where
  "frame update draw s =
     (case update s of
        None \<Rightarrow> None
      | Some (s1, t1) \<Rightarrow>
          (case draw s1 of
             None \<Rightarrow> None
           | Some (s2, t2) \<Rightarrow> Some (s2, t1 @ t2)))"

section \<open>The orbit camera\<close>












section \<open>Observations and invariants of the runs\<close>

text \<open>Which callbacks are Update.\<close>

fun is_Crate_Update :: "CrateEvent \<Rightarrow> bool" where
  "is_Crate_Update (Crate_Update m2 c) = True"
| "is_Crate_Update e = False"

fun is_Blend_Update :: "BlendEvent \<Rightarrow> bool" where
  "is_Blend_Update (Blend_Update dt tick c) = True"
| "is_Blend_Update e = False"

text \<open>
  The fence values recorded in the frame resources, in ring order, and the relation
  between two states that agree on every member the synchronisation reads or writes.
\<close>

definition fences :: "'a FrameApp_scheme \<Rightarrow> nat list" where
  "fences s = map Fence (mFrameResources s)"

definition same_sync :: "'a FrameApp_scheme \<Rightarrow> 'a FrameApp_scheme \<Rightarrow> bool" where
  "same_sync s s' \<longleftrightarrow>
     fences s' = fences s \<and> mCurrentFence s' = mCurrentFence s \<and>
     mCurrFrameResource s' = mCurrFrameResource s \<and>
     mCurrFrameResourceIndex s' = mCurrFrameResourceIndex s \<and>
     SwapChainBufferCount s' = SwapChainBufferCount s \<and>
     mCurrBackBuffer s' = mCurrBackBuffer s"

text \<open>The calls that end Draw, with the value that is signalled.\<close>

definition draw_tail :: "nat \<Rightarrow> call list" where
  "draw_tail f = [Rec ''ResourceBarrier'', ListClose, ExecuteCommandLists, Present, Signal f]"



text \<open>The calls that involve the fence: signals and waits.\<close>

fun is_fence_call :: "call \<Rightarrow> bool" where
  "is_fence_call (Signal v) = True"
| "is_fence_call (WaitForFence v) = True"
| "is_fence_call FlushCommandQueue = True"
| "is_fence_call c = False"





text \<open>
  What one pass of the loop of UpdateObjectCBs or UpdateMaterialCBs leaves of an element:
  the counter is decremented when it is positive.
\<close>

definition RenderItem_copied :: "RenderItem \<Rightarrow> RenderItem" where
  "RenderItem_copied e =
     (if RenderItem.NumFramesDirty e > 0
      then e\<lparr>RenderItem.NumFramesDirty := RenderItem.NumFramesDirty e - 1\<rparr> else e)"

definition Material_copied :: "Material \<Rightarrow> Material" where
  "Material_copied m =
     (if Material.NumFramesDirty m > 0
      then m\<lparr>Material.NumFramesDirty := Material.NumFramesDirty m - 1\<rparr> else m)"

text \<open>The callbacks at which the bolt animation advances, and the descriptor index of the bolt material.\<close>

fun is_tick :: "BlendEvent \<Rightarrow> bool" where
  "is_tick (Blend_Update dt tick completed) = tick"
| "is_tick e = False"

definition boltAnim_index :: "BlendApp \<Rightarrow> nat option" where
  "boltAnim_index s = map_option DiffuseSrvHeapIndex (map_of (mMaterials s) ''boltAnim'')"

text \<open>
  The indices that the loop of DrawRenderItems (BlendApp.cpp 2385-2414) computes
  addresses from, for each render item in turn: the descriptor index given to
  \<open>tex.Offset\<close>, and the element indices \<open>ri->ObjCBIndex\<close> and
  \<open>ri->Mat->MatCBIndex\<close> that are multiplied by the element sizes of the object and
  the material buffer of the current frame resource.
\<close>

fun DrawRenderItems_indices :: "BlendApp \<Rightarrow> nat list \<Rightarrow> (nat \<times> nat \<times> nat) list option" where
  "DrawRenderItems_indices s [] = Some []"
| "DrawRenderItems_indices s (k # ks) =
     (if k < length (mAllRitems s)
      then
        (let ri = mAllRitems s ! k
         in case (Geo ri, Mat ri) of
              (Some g, Some m) \<Rightarrow>
                (case (map_of (mGeometries s) g, map_of (mMaterials s) m,
                       DrawRenderItems_indices s ks) of
                   (Some geo, Some mat, Some r) \<Rightarrow>
                     Some ((DiffuseSrvHeapIndex mat, unat (ObjCBIndex ri), MatCBIndex mat) # r)
                 | _ \<Rightarrow> None)
            | _ \<Rightarrow> None)
      else None)"

text \<open>
  What Initialize of BlendApp sets up and no callback changes: the indices and the names
  stored in the render items and the materials, the layers, the size of the descriptor
  heap, the number of bolt textures and the element counts of the frame resources;
  and the range of the bolt offset, which the descriptor index of the bolt material
  follows.
\<close>

definition blend_inv :: "BlendApp \<Rightarrow> bool" where
  "blend_inv s \<longleftrightarrow>
     map ObjCBIndex (mAllRitems s) = [0, 1, 2, 3] \<and>
     map Mat (mAllRitems s) =
       [Some ''water'', Some ''grass'', Some ''wirefence'', Some ''boltAnim''] \<and>
     map Geo (mAllRitems s) =
       [Some ''waterGeo'', Some ''landGeo'', Some ''boxGeo'', Some ''boltGeo''] \<and>
     map (\<lambda>p. (fst p, MatCBIndex (snd p))) (mMaterials s) =
       [(''grass'', 0), (''water'', 1), (''wirefence'', 2), (''boltAnim'', 3)] \<and>
     map (\<lambda>p. DiffuseSrvHeapIndex (snd p)) (mMaterials s) =
       [0, 1, 2, unat (mBoltAnimSrvOffsetInHeap s)] \<and>
     map fst (mGeometries s) = [''landGeo'', ''waterGeo'', ''boxGeo'', ''boltGeo''] \<and>
     mRitemLayer s Transparent = [0] \<and> mRitemLayer s Opaque = [1] \<and>
     mRitemLayer s AlphaTested = [2] \<and> mRitemLayer s AnimatedBolt = [3] \<and>
     mSrvDescriptorHeap s = Some 64 \<and>
     length (mBoltAnimTextures s) = 60 \<and>
     map objectCount (mFrameResources s) = [4, 4, 4] \<and>
     map materialCount (mFrameResources s) = [4, 4, 4] \<and>
     3 \<le> unat (mBoltAnimSrvOffsetInHeap s) \<and> unat (mBoltAnimSrvOffsetInHeap s) < 63"












text \<open>
  For each frame resource in ring order, the number of CopyData calls made on its object
  buffer at element \<open>x\<close>, and on its material buffer at element \<open>x\<close>.
\<close>

definition object_copies :: "UINT \<Rightarrow> 'a FrameApp_scheme \<Rightarrow> nat list" where
  "object_copies x s =
     map (\<lambda>fr. length (filter (\<lambda>p. fst p = x) (ObjectCB fr))) (mFrameResources s)"

definition material_copies :: "nat \<Rightarrow> 'a FrameApp_scheme \<Rightarrow> nat list" where
  "material_copies x s =
     map (\<lambda>fr. length (filter (\<lambda>p. fst p = x) (MaterialCB fr))) (mFrameResources s)"

text \<open>The range of the dirty counters of all render items and materials.\<close>

definition dirty_ok :: "'a FrameApp_scheme \<Rightarrow> bool" where
  "dirty_ok s \<longleftrightarrow>
     list_all (\<lambda>e. 0 \<le> RenderItem.NumFramesDirty e \<and>
                   RenderItem.NumFramesDirty e \<le> gNumFrameResources) (mAllRitems s) \<and>
     list_all (\<lambda>p. 0 \<le> Material.NumFramesDirty (snd p) \<and>
                   Material.NumFramesDirty (snd p) \<le> gNumFrameResources) (mMaterials s)"

text \<open>
  What one Update does to the frame resource index, the dirty counter of an entity that
  nothing else modifies, and the numbers of copies of that entity in the three frame
  resources.
\<close>

definition advance :: "int \<times> int \<times> nat list \<Rightarrow> int \<times> int \<times> nat list" where
  "advance p =
     (case p of (i, n, cs) \<Rightarrow>
        (let j = (i + 1) mod 3
         in (j, (if n > 0 then n - 1 else n),
             (if n > 0 then cs[nat j := cs ! nat j + 1] else cs))))"

text \<open>The keys of CrateApp that scale the texture transform of every render item.\<close>

fun is_rescale :: "CrateEvent \<Rightarrow> bool" where
  "is_rescale (Crate_OnKeyDown w) = (w = 0x31 \<or> w = 0x32)"
| "is_rescale e = False"

text \<open>
  The frame resource index, the dirty counter of the render item at position \<open>k\<close> and
  the numbers of copies at element \<open>x\<close> of the object buffers; the same for the
  material at position \<open>k\<close> and the material buffers.
\<close>

definition item_ob :: "nat \<Rightarrow> UINT \<Rightarrow> 'a FrameApp_scheme \<Rightarrow> int \<times> int \<times> nat list" where
  "item_ob k x s =
     (mCurrFrameResourceIndex s, RenderItem.NumFramesDirty (mAllRitems s ! k),
      object_copies x s)"

definition material_ob :: "nat \<Rightarrow> nat \<Rightarrow> 'a FrameApp_scheme \<Rightarrow> int \<times> int \<times> nat list" where
  "material_ob k x s =
     (mCurrFrameResourceIndex s, Material.NumFramesDirty (snd (mMaterials s ! k)),
      material_copies x s)"

text \<open>What Initialize of CrateApp sets up and no callback changes.\<close>

definition crate_inv :: "CrateApp \<Rightarrow> bool" where
  "crate_inv s \<longleftrightarrow>
     map ObjCBIndex (mAllRitems s) = [0, 1] \<and>
     mOpaqueRitems s = [0, 1] \<and>
     map (\<lambda>p. MatCBIndex (snd p)) (mMaterials s) = [0, 1] \<and>
     length (mFrameResources s) = 3 \<and>
     0 \<le> mCurrFrameResourceIndex s \<and> mCurrFrameResourceIndex s < 3"

section \<open>Evaluation and frame lemmas\<close>


lemma run_with_invariant:
  assumes stp: "\<And>e s s' t. I s \<Longrightarrow> f e s = Some (s', t) \<Longrightarrow> I s'"
  shows "I s \<Longrightarrow> run_with f es s = Some (s', t) \<Longrightarrow> I s'"
proof (induction es arbitrary: s t)
  case Nil
  then show ?case by simp
next
  case (Cons e es)
  from Cons.prems(2) obtain s1 t1 t2 where
    e: "f e s = Some (s1, t1)" and r: "run_with f es s1 = Some (s', t2)"
    by (auto split: option.splits)
  show ?case
    using Cons.IH [OF stp [OF Cons.prems(1) e] r] .
qed


lemma cycle_index:
  "cycle_frame_resource s = Some s' \<Longrightarrow>
     mCurrFrameResourceIndex s' = (mCurrFrameResourceIndex s + 1) smod gNumFrameResources"
  by (auto simp: cycle_frame_resource_def Let_def split: if_splits)

lemma smod3: "0 \<le> (i::int) \<Longrightarrow> (i + 1) smod 3 = (i + 1) mod 3"
  by (simp add: smod_int_alt_def sgn_if)

lemma UpdateObjectCBs_index:
  "UpdateObjectCBs s = Some s' \<Longrightarrow> mCurrFrameResourceIndex s' = mCurrFrameResourceIndex s"
  by (auto simp: UpdateObjectCBs_def Let_def split: option.splits if_splits)

lemma UpdateMaterialCBs_index:
  "UpdateMaterialCBs s = Some s' \<Longrightarrow> mCurrFrameResourceIndex s' = mCurrFrameResourceIndex s"
  by (auto simp: UpdateMaterialCBs_def Let_def split: option.splits if_splits)

lemma submit_index:
  "submit_and_signal s = Some (s', t) \<Longrightarrow> mCurrFrameResourceIndex s' = mCurrFrameResourceIndex s"
  by (auto simp: submit_and_signal_def Let_def split: option.splits if_splits)


lemma BlendApp_AnimateMaterials_index:
  "BlendApp_AnimateMaterials dt tick s = Some s' \<Longrightarrow>
     mCurrFrameResourceIndex s' = mCurrFrameResourceIndex s"
  by (auto simp: BlendApp_AnimateMaterials_def Let_def split: option.splits if_splits)

lemma BlendApp_Update_index:
  "BlendApp_Update dt tick c s = Some (s', t) \<Longrightarrow>
     mCurrFrameResourceIndex s' = (mCurrFrameResourceIndex s + 1) smod gNumFrameResources"
  by (auto simp: BlendApp_Update_def split: option.splits
      dest!: cycle_index UpdateObjectCBs_index UpdateMaterialCBs_index BlendApp_AnimateMaterials_index)


lemma BlendApp_Draw_index:
  "BlendApp_Draw s = Some (s', t) \<Longrightarrow> mCurrFrameResourceIndex s' = mCurrFrameResourceIndex s"
  by (auto simp: BlendApp_Draw_def CreateResourcesForPixelOverdrawMode_def Let_def
      split: option.splits prod.splits if_splits dest!: submit_index)

lemmas crate_defs =
  CrateApp_Initialize_def CrateApp_new_def CrateApp_LoadTextures_def
  CrateApp_BuildDescriptorHeaps_def CrateApp_BuildShapeGeometry_def CrateApp_BuildMaterials_def
  CrateApp_BuildRenderItems_def BuildFrameResources_def make_FrameResource_def make_Material_def
  RenderItem_default_def gNumFrameResources_def

lemmas crate_step_defs =
  CrateApp_Update_def CrateApp_Draw_def cycle_frame_resource_def CrateApp_AnimateMaterials_def
  UpdateObjectCBs_def UpdateMaterialCBs_def UpdateSampler_def wait_calls_def must_wait_def
  current_Fence_def submit_and_signal_def CrateApp_draw_item_def begin_recording_def
  smod_int_alt_def Let_def


lemmas blend_defs =
  BlendApp_Initialize_def BlendApp_new_def BlendApp_LoadTextures_def
  BlendApp_BuildDescriptorHeaps_def BlendApp_BuildGeometry_def BlendApp_BuildMaterials_def
  BlendApp_BuildRenderItems_def BlendApp_BuildPSOs_def BuildFrameResources_def
  make_FrameResource_def make_Material_def RenderItem_default_def gNumFrameResources_def

lemmas blend_step_defs =
  BlendApp_Update_def BlendApp_Draw_def cycle_frame_resource_def BlendApp_AnimateMaterials_def
  UpdateObjectCBs_def UpdateMaterialCBs_def wait_calls_def must_wait_def
  current_Fence_def submit_and_signal_def begin_recording_def draw_layer_def
  GetPsoForSceneRendering_def draw_overdraw_quad_def CreateResourcesForPixelOverdrawMode_def
  BuildPSOsForSceneRendering_def modify_def
  smod_int_alt_def Let_def



lemma blend_run_ex:
  "\<exists>s t. run_with BlendApp_step
      [Blend_Update 0 True 1, Blend_Draw, Blend_Update 0 True 1]
      (BlendApp_Initialize \<lparr>SwapChainBufferCount = 2, mCurrBackBuffer = 0, mCurrentFence = 1\<rparr>)
     = Some (s, t)"
  by (simp add: blend_defs blend_step_defs Identity4x4_def)


lemma BlendApp_OnKeyDown_index:
  "mCurrFrameResourceIndex (BlendApp_OnKeyDown w s) = mCurrFrameResourceIndex s"
  by (simp add: BlendApp_OnKeyDown_def ChangeRenderMode_def)


lemma BlendApp_step_index:
  "BlendApp_step e s = Some (s', t) \<Longrightarrow> 0 \<le> mCurrFrameResourceIndex s \<Longrightarrow>
     mCurrFrameResourceIndex s < 3 \<Longrightarrow>
     mCurrFrameResourceIndex s' =
       (if is_Blend_Update e then (mCurrFrameResourceIndex s + 1) mod 3
        else mCurrFrameResourceIndex s)"
  by (cases e)
     (auto simp: BlendApp_OnKeyDown_index gNumFrameResources_def smod3
       dest!: BlendApp_Update_index BlendApp_Draw_index)


lemma BlendApp_Initialize_index: "mCurrFrameResourceIndex (BlendApp_Initialize d) = 0"
  by (simp add: blend_defs Let_def)





section \<open>The ring of frame resources\<close>



lemma same_sync_refl: "same_sync s s"
  by (simp add: same_sync_def)

lemma same_sync_trans: "same_sync s s1 \<Longrightarrow> same_sync s1 s2 \<Longrightarrow> same_sync s s2"
  by (simp add: same_sync_def)

lemma map_Fence_ObjectCB:
  "i < length xs \<Longrightarrow> map Fence (xs[i := (xs ! i)\<lparr>ObjectCB := c\<rparr>]) = map Fence xs"
  by (simp add: map_update list_update_same_conv)

lemma map_Fence_MaterialCB:
  "i < length xs \<Longrightarrow> map Fence (xs[i := (xs ! i)\<lparr>MaterialCB := c\<rparr>]) = map Fence xs"
  by (simp add: map_update list_update_same_conv)

lemma UpdateObjectCBs_sync: "UpdateObjectCBs s = Some s' \<Longrightarrow> same_sync s s'"
  by (auto simp: UpdateObjectCBs_def same_sync_def fences_def Let_def map_Fence_ObjectCB
      split: option.splits if_splits)

lemma UpdateMaterialCBs_sync: "UpdateMaterialCBs s = Some s' \<Longrightarrow> same_sync s s'"
  by (auto simp: UpdateMaterialCBs_def same_sync_def fences_def Let_def map_Fence_MaterialCB
      split: option.splits if_splits)

lemma CrateApp_AnimateMaterials_sync: "CrateApp_AnimateMaterials m2 s = Some s' \<Longrightarrow> same_sync s s'"
  by (auto simp: CrateApp_AnimateMaterials_def same_sync_def fences_def Let_def split: if_splits)

lemma BlendApp_AnimateMaterials_sync:
  "BlendApp_AnimateMaterials dt tick s = Some s' \<Longrightarrow> same_sync s s'"
  by (auto simp: BlendApp_AnimateMaterials_def same_sync_def fences_def Let_def
      split: option.splits if_splits)

lemma UpdateSampler_sync: "same_sync s (fst (UpdateSampler s))"
  by (simp add: UpdateSampler_def same_sync_def fences_def)



lemma CreateResources_sync: "same_sync s (fst (CreateResourcesForPixelOverdrawMode s))"
  by (simp add: CreateResourcesForPixelOverdrawMode_def same_sync_def fences_def)

lemma cycle_sync:
  "cycle_frame_resource s = Some s' \<Longrightarrow>
     fences s' = fences s \<and> mCurrentFence s' = mCurrentFence s \<and>
     SwapChainBufferCount s' = SwapChainBufferCount s \<and> mCurrBackBuffer s' = mCurrBackBuffer s \<and>
     mCurrFrameResourceIndex s' = (mCurrFrameResourceIndex s + 1) smod gNumFrameResources \<and>
     0 \<le> mCurrFrameResourceIndex s' \<and>
     mCurrFrameResource s' = Some (nat (mCurrFrameResourceIndex s')) \<and>
     nat (mCurrFrameResourceIndex s') < length (fences s)"
  by (auto simp: cycle_frame_resource_def fences_def Let_def split: if_splits)



lemma waits_rec: "list_all is_Rec t \<Longrightarrow> filter is_wait t = []"
  by (induction t rule: signals.induct) auto


lemma waits_wait_calls: "filter is_wait (wait_calls c s) = wait_calls c s"
  by (simp add: wait_calls_def)

lemma CrateApp_Update_cases:
  assumes "CrateApp_Update m2 c s = Some (s', t)"
  shows "\<exists>s1 r. cycle_frame_resource s = Some s1 \<and> same_sync s1 s' \<and>
           t = wait_calls c s1 @ r \<and> list_all is_Rec r"
proof -
  from assms obtain s1 s2 s3 s4 where
    c: "cycle_frame_resource s = Some s1" and
    a: "CrateApp_AnimateMaterials m2 s1 = Some s2" and
    o: "UpdateObjectCBs s2 = Some s3" and
    m: "UpdateMaterialCBs s3 = Some s4" and
    s': "s' = fst (UpdateSampler s4)" and
    t: "t = wait_calls c s1 @ snd (UpdateSampler s4)"
    by (auto simp: CrateApp_Update_def split: option.splits)
  have "same_sync s1 s'"
    using CrateApp_AnimateMaterials_sync [OF a] UpdateObjectCBs_sync [OF o]
      UpdateMaterialCBs_sync [OF m] UpdateSampler_sync [of s4] s'
    by (auto intro: same_sync_trans)
  moreover have "list_all is_Rec (snd (UpdateSampler s4))"
    by (simp add: UpdateSampler_def)
  ultimately show ?thesis
    using c t by blast
qed

lemma BlendApp_Update_cases:
  assumes "BlendApp_Update dt tick c s = Some (s', t)"
  shows "\<exists>s1. cycle_frame_resource s = Some s1 \<and> same_sync s1 s' \<and> t = wait_calls c s1"
proof -
  from assms obtain s1 s2 s3 where
    c: "cycle_frame_resource s = Some s1" and
    a: "BlendApp_AnimateMaterials dt tick s1 = Some s2" and
    o: "UpdateObjectCBs s2 = Some s3" and
    m: "UpdateMaterialCBs s3 = Some s'" and
    t: "t = wait_calls c s1"
    by (auto simp: BlendApp_Update_def split: option.splits)
  have "same_sync s1 s'"
    using BlendApp_AnimateMaterials_sync [OF a] UpdateObjectCBs_sync [OF o]
      UpdateMaterialCBs_sync [OF m]
    by (auto intro: same_sync_trans)
  then show ?thesis
    using c t by blast
qed

lemma submit_and_signal_effect:
  assumes "submit_and_signal s = Some (s', t)"
  shows "\<exists>i. mCurrFrameResource s = Some i \<and> i < length (fences s) \<and>
           SwapChainBufferCount s \<noteq> 0 \<and>
           t = draw_tail (mCurrentFence s + 1) \<and>
           mCurrentFence s' = mCurrentFence s + 1 \<and>
           fences s' = (fences s)[i := mCurrentFence s + 1] \<and>
           mCurrBackBuffer s' = (mCurrBackBuffer s + 1) smod SwapChainBufferCount s \<and>
           SwapChainBufferCount s' = SwapChainBufferCount s \<and>
           mCurrFrameResource s' = Some i \<and>
           mCurrFrameResourceIndex s' = mCurrFrameResourceIndex s"
  using assms
  by (auto simp: submit_and_signal_def fences_def draw_tail_def Let_def map_update
      split: option.splits if_splits)

lemma DrawRenderItems_rec: "DrawRenderItems s ks = Some t \<Longrightarrow> list_all is_Rec t"
  by (induction ks arbitrary: t) (auto simp: Let_def split: if_splits option.splits)

lemma draw_layer_rec: "draw_layer n l s = Some t \<Longrightarrow> list_all is_Rec t"
  by (auto simp: draw_layer_def split: option.splits dest: DrawRenderItems_rec)

lemma draw_overdraw_quad_rec: "draw_overdraw_quad s = Some t \<Longrightarrow> list_all is_Rec t"
  by (auto simp: draw_overdraw_quad_def split: option.splits if_splits)

lemma concat_calls_rec:
  "concat_calls ts = Some r \<Longrightarrow> (\<And>t. Some t \<in> set ts \<Longrightarrow> list_all is_Rec t) \<Longrightarrow>
     list_all is_Rec r"
  by (induction ts arbitrary: r rule: concat_calls.induct) (auto split: option.splits)

lemma CreateResources_rec: "list_all is_Rec (snd (CreateResourcesForPixelOverdrawMode s))"
  by (simp add: CreateResourcesForPixelOverdrawMode_def BuildPSOsForSceneRendering_def)

lemma CrateApp_draw_item_rec: "CrateApp_draw_item n s = Some t \<Longrightarrow> list_all is_Rec t"
  by (auto simp: CrateApp_draw_item_def Let_def split: if_splits option.splits)

lemma CrateApp_Draw_cases:
  assumes "CrateApp_Draw s = Some (s', t)"
  shows "\<exists>body tc. list_all is_Rec body \<and> submit_and_signal s = Some (s', tc) \<and>
           t = [AllocReset, ListReset] @ body @ tc"
proof -
  from assms obtain t0 t1 tc where
    d0: "CrateApp_draw_item 0 s = Some t0" and d1: "CrateApp_draw_item 1 s = Some t1" and
    sb: "submit_and_signal s = Some (s', tc)" and
    t: "t = begin_recording @ [Rec ''SetDescriptorHeaps''] @ t0 @ t1 @ tc"
    by (auto simp: CrateApp_Draw_def split: option.splits)
  let ?body = "drop 2 begin_recording @ [Rec ''SetDescriptorHeaps''] @ t0 @ t1"
  have "list_all is_Rec ?body"
    using CrateApp_draw_item_rec [OF d0] CrateApp_draw_item_rec [OF d1]
    by (simp add: begin_recording_def)
  moreover have "t = [AllocReset, ListReset] @ ?body @ tc"
    using t by (simp add: begin_recording_def)
  ultimately show ?thesis
    using sb by blast
qed

lemma BlendApp_Draw_cases:
  assumes "BlendApp_Draw s = Some (s', t)"
  shows "\<exists>s1 body tc. s1 = fst (if mRenderMode s = PixelOverdraw
             then CreateResourcesForPixelOverdrawMode s else (s, [])) \<and>
           same_sync s s1 \<and> list_all is_Rec body \<and> submit_and_signal s1 = Some (s', tc) \<and>
           t = [AllocReset, ListReset] @ body @ tc"
proof -
  define c where "c = (if mRenderMode s = PixelOverdraw
               then CreateResourcesForPixelOverdrawMode s else (s, []))"
  define s1 where "s1 = fst c"
  define blended where "blended = [draw_layer ''transparent'' Transparent s1,
                     draw_layer ''animatedBolt'' AnimatedBolt s1]"
  define parts where "parts = (if mDrawTransparentFirst s1 then blended else [])
                  @ [draw_layer ''opaque'' Opaque s1,
                     draw_layer ''alphaTested'' AlphaTested s1]
                  @ (if \<not> mDrawTransparentFirst s1 then blended else [])
                  @ [draw_overdraw_quad s1]"
  from assms obtain body tc where
    b: "concat_calls parts = Some body" and
    sb: "submit_and_signal s1 = Some (s', tc)" and
    t: "t = begin_recording
                       @ [Rec ''SetDescriptorHeaps'', Rec ''SetGraphicsRootSignature'',
                          Rec ''SetGraphicsRootConstantBufferView'']
                       @ snd c @ body @ tc"
    unfolding BlendApp_Draw_def Let_def c_def [symmetric] s1_def [symmetric]
      blended_def [symmetric] parts_def [symmetric]
    by (auto split: option.splits prod.splits)
  have rb: "list_all is_Rec body"
  proof (rule concat_calls_rec [OF b])
    fix u assume "Some u \<in> set parts"
    then show "list_all is_Rec u"
      by (auto simp: parts_def blended_def split: if_splits
          dest: draw_layer_rec [OF sym] draw_overdraw_quad_rec [OF sym])
  qed
  have rc: "list_all is_Rec (snd c)"
    using CreateResources_rec [of s] by (simp add: c_def)
  have ss: "same_sync s s1"
    using CreateResources_sync [of s] by (simp add: s1_def c_def same_sync_refl)
  let ?body = "drop 2 begin_recording
                       @ [Rec ''SetDescriptorHeaps'', Rec ''SetGraphicsRootSignature'',
                          Rec ''SetGraphicsRootConstantBufferView'']
                       @ snd c @ body"
  have "list_all is_Rec ?body"
    using rb rc by (simp add: begin_recording_def)
  moreover have "t = [AllocReset, ListReset] @ ?body @ tc"
    using t by (simp add: begin_recording_def)
  ultimately show ?thesis
    using sb ss unfolding s1_def c_def by blast
qed



















section \<open>The fence counter\<close>







lemma fence_calls_rec: "list_all is_Rec t \<Longrightarrow> filter is_fence_call t = []"
  by (induction t rule: signals.induct) auto

lemma fence_calls_wait_calls: "filter is_fence_call (wait_calls c s) = wait_calls c s"
  by (simp add: wait_calls_def)

lemma current_Fence_sync:
  assumes "same_sync a b" "mCurrFrameResource a = Some i" "i < length (fences a)"
  shows "current_Fence b = current_Fence a"
proof -
  have "fences b ! i = fences a ! i" "mCurrFrameResource b = Some i"
    "i < length (fences b)"
    using assms by (simp_all add: same_sync_def)
  then show ?thesis
    using assms(2,3) by (simp add: current_Fence_def fences_def)
qed

lemma wait_calls_sync:
  assumes c: "cycle_frame_resource s = Some x" and ss: "same_sync x s1"
  shows "wait_calls k s1 = wait_calls k x"
proof -
  have "mCurrFrameResource x = Some (nat (mCurrFrameResourceIndex x))"
    "nat (mCurrFrameResourceIndex x) < length (fences x)"
    using cycle_sync [OF c] by auto
  from current_Fence_sync [OF ss this] show ?thesis
    by (simp add: wait_calls_def must_wait_def)
qed

lemma Update_same_D3D:
  assumes c: "cycle_frame_resource s = Some x" and ss: "same_sync x s1"
  shows "mCurrBackBuffer s1 = mCurrBackBuffer s \<and>
         SwapChainBufferCount s1 = SwapChainBufferCount s \<and>
         mCurrentFence s1 = mCurrentFence s"
  using cycle_sync [OF c] ss by (simp add: same_sync_def)

lemma Draw_end:
  assumes sb: "submit_and_signal x = Some (s', tc)" and ss: "same_sync s x"
  shows "tc = [Rec ''ResourceBarrier'', ListClose, ExecuteCommandLists, Present,
               Signal (mCurrentFence s + 1)] \<and>
         mCurrBackBuffer s' = (mCurrBackBuffer s + 1) smod SwapChainBufferCount s"
  using submit_and_signal_effect [OF sb] ss by (auto simp: same_sync_def draw_tail_def)

lemma CrateApp_frame_shape:
  assumes u: "CrateApp_Update m2 c s = Some (s1, tu)" and d: "CrateApp_Draw s1 = Some (s2, td)"
  shows "\<exists>body r. list_all is_Rec body \<and> list_all is_Rec r \<and> tu = wait_calls c s1 @ r \<and>
           td = [AllocReset, ListReset] @ body @
                [ListClose, ExecuteCommandLists, Present, Signal (mCurrentFence s + 1)] \<and>
           mCurrBackBuffer s2 = (mCurrBackBuffer s + 1) smod SwapChainBufferCount s \<and>
           mCurrentFence s1 = mCurrentFence s"
proof -
  from CrateApp_Update_cases [OF u] obtain x r where
    c: "cycle_frame_resource s = Some x" and ss: "same_sync x s1" and
    tu: "tu = wait_calls c x @ r" and r: "list_all is_Rec r"
    by blast
  from CrateApp_Draw_cases [OF d] obtain body tc where
    b: "list_all is_Rec body" and sb: "submit_and_signal s1 = Some (s2, tc)" and
    td: "td = [AllocReset, ListReset] @ body @ tc"
    by blast
  note E = Draw_end [OF sb same_sync_refl] and D = Update_same_D3D [OF c ss]
  have "list_all is_Rec (body @ [Rec ''ResourceBarrier''])"
    using b by simp
  moreover have "td = [AllocReset, ListReset] @ (body @ [Rec ''ResourceBarrier'']) @
                [ListClose, ExecuteCommandLists, Present, Signal (mCurrentFence s + 1)]"
    using td E D by simp
  moreover have "tu = wait_calls c s1 @ r"
    using tu wait_calls_sync [OF c ss] by simp
  moreover have "mCurrBackBuffer s2 = (mCurrBackBuffer s + 1) smod SwapChainBufferCount s"
    using E D by simp
  ultimately show ?thesis
    using r D by blast
qed

lemma BlendApp_frame_shape:
  assumes u: "BlendApp_Update dt tick c s = Some (s1, tu)" and d: "BlendApp_Draw s1 = Some (s2, td)"
  shows "\<exists>body. list_all is_Rec body \<and> tu = wait_calls c s1 \<and>
           td = [AllocReset, ListReset] @ body @
                [ListClose, ExecuteCommandLists, Present, Signal (mCurrentFence s + 1)] \<and>
           mCurrBackBuffer s2 = (mCurrBackBuffer s + 1) smod SwapChainBufferCount s \<and>
           mCurrentFence s1 = mCurrentFence s"
proof -
  from BlendApp_Update_cases [OF u] obtain x where
    c: "cycle_frame_resource s = Some x" and ss: "same_sync x s1" and
    tu: "tu = wait_calls c x"
    by blast
  from BlendApp_Draw_cases [OF d] obtain y body tc where
    sy: "same_sync s1 y" and
    b: "list_all is_Rec body" and sb: "submit_and_signal y = Some (s2, tc)" and
    td: "td = [AllocReset, ListReset] @ body @ tc"
    by blast
  note E = Draw_end [OF sb sy] and D = Update_same_D3D [OF c ss]
  have "list_all is_Rec (body @ [Rec ''ResourceBarrier''])"
    using b by simp
  moreover have "td = [AllocReset, ListReset] @ (body @ [Rec ''ResourceBarrier'']) @
                [ListClose, ExecuteCommandLists, Present, Signal (mCurrentFence s + 1)]"
    using td E D by simp
  moreover have "tu = wait_calls c s1"
    using tu wait_calls_sync [OF c ss] by simp
  moreover have "mCurrBackBuffer s2 = (mCurrBackBuffer s + 1) smod SwapChainBufferCount s"
    using E D by simp
  ultimately show ?thesis
    using D by blast
qed

lemma BoxApp_frame_shape:
  assumes u: "BoxApp_Update w1 w2 tm x = Some (x1, vu)" and d: "BoxApp_Draw x1 = Some (x2, vd)"
  shows "\<exists>body. list_all is_Rec body \<and> vu = [] \<and>
           vd = [AllocReset, ListReset] @ body @
                [ListClose, ExecuteCommandLists, Present, FlushCommandQueue] \<and>
           mCurrBackBuffer x2 = (mCurrBackBuffer x + 1) smod SwapChainBufferCount x \<and>
           mObjectCB x2 = mObjectCB x @ [(0, XMMatrixTranspose w1, tm), (1, XMMatrixTranspose w2, tm)]"
proof -
  have x1: "x1 = x\<lparr>mObjectCB := mObjectCB x @ [(0, XMMatrixTranspose w1, tm),
                (1, XMMatrixTranspose w2, tm)]\<rparr>" and vu: "vu = []"
    using u by (auto simp: BoxApp_Update_def)
  let ?body = "drop 2 begin_recording
                  @ [Rec ''IASetPrimitiveTopology'', Rec ''SetDescriptorHeaps'',
                     Rec ''SetGraphicsRootSignature'', Rec ''SetGraphicsRootDescriptorTable'',
                     Rec ''IASetVertexBuffers'', Rec ''IASetIndexBuffer'',
                     Rec ''DrawIndexedInstanced'', Rec ''SetGraphicsRootDescriptorTable'',
                     Rec ''DrawIndexedInstanced'', Rec ''ResourceBarrier'']"
  have "list_all is_Rec ?body"
    by (simp add: begin_recording_def)
  moreover have "vd = [AllocReset, ListReset] @ ?body @
                [ListClose, ExecuteCommandLists, Present, FlushCommandQueue]"
    using d by (auto simp: BoxApp_Draw_def begin_recording_def split: option.splits if_splits)
  moreover have "mCurrBackBuffer x2 = (mCurrBackBuffer x + 1) smod SwapChainBufferCount x"
    using d x1 by (auto simp: BoxApp_Draw_def split: option.splits if_splits)
  moreover have "mObjectCB x2 = mObjectCB x @ [(0, XMMatrixTranspose w1, tm), (1, XMMatrixTranspose w2, tm)]"
    using d x1 by (auto simp: BoxApp_Draw_def split: option.splits if_splits)
  ultimately show ?thesis
    using vu by blast
qed

lemma frame_cases:
  assumes "frame upd drw s = Some (s', t)"
  obtains s1 tu td where "upd s = Some (s1, tu)" "drw s1 = Some (s', td)" "t = tu @ td"
  using assms by (auto simp: frame_def split: option.splits)

section \<open>The order of a frame\<close>

text \<open>
  C5. In a frame of each demo the calls of Update come before the calls of Draw. Draw
  resets the allocator and the command list, records, closes the command list, calls
  ExecuteCommandLists, then Present, and last signals the fence with the incremented
  fence value (CrateApp, BlendApp) or calls FlushCommandQueue (BoxApp); nothing follows
  the signal or the flush. The frame leaves \<open>mCurrBackBuffer\<close> at
  \<open>(mCurrBackBuffer + 1) % SwapChainBufferCount\<close>. Update of CrateApp and BlendApp
  makes no call but the fence wait and, in CrateApp, the creation of the sampler; Update
  of BoxApp makes no call and has written both object constants before Draw starts.
\<close>

theorem frame_call_order:
  "(frame (CrateApp_Update m2 c) CrateApp_Draw s = Some (s', t) \<longrightarrow>
      (\<exists>s1 tu body. CrateApp_Update m2 c s = Some (s1, tu) \<and>
          list_all (\<lambda>x. is_Rec x \<or> is_wait x) tu \<and> list_all is_Rec body \<and>
          t = tu @ [AllocReset, ListReset] @ body @
              [ListClose, ExecuteCommandLists, Present, Signal (mCurrentFence s + 1)]) \<and>
      mCurrBackBuffer s' = (mCurrBackBuffer s + 1) smod SwapChainBufferCount s) \<and>
   (frame (BlendApp_Update dt tick c) BlendApp_Draw b = Some (b', u) \<longrightarrow>
      (\<exists>b1 tu body. BlendApp_Update dt tick c b = Some (b1, tu) \<and>
          list_all is_wait tu \<and> list_all is_Rec body \<and>
          u = tu @ [AllocReset, ListReset] @ body @
              [ListClose, ExecuteCommandLists, Present, Signal (mCurrentFence b + 1)]) \<and>
      mCurrBackBuffer b' = (mCurrBackBuffer b + 1) smod SwapChainBufferCount b) \<and>
   (frame (BoxApp_Update w1 w2 tm) BoxApp_Draw x = Some (x', v) \<longrightarrow>
      (\<exists>body. list_all is_Rec body \<and>
          v = [AllocReset, ListReset] @ body @
              [ListClose, ExecuteCommandLists, Present, FlushCommandQueue]) \<and>
      mCurrBackBuffer x' = (mCurrBackBuffer x + 1) smod SwapChainBufferCount x \<and>
      mObjectCB x' = mObjectCB x @ [(0, XMMatrixTranspose w1, tm), (1, XMMatrixTranspose w2, tm)])"
proof (intro conjI impI)
  assume f: "frame (CrateApp_Update m2 c) CrateApp_Draw s = Some (s', t)"
  from f obtain s1 tu td where
    u: "CrateApp_Update m2 c s = Some (s1, tu)" and d: "CrateApp_Draw s1 = Some (s', td)" and
    t: "t = tu @ td"
    by (rule frame_cases)
  from CrateApp_frame_shape [OF u d] obtain body r where
    S: "list_all is_Rec body" "list_all is_Rec r" "tu = wait_calls c s1 @ r"
       "td = [AllocReset, ListReset] @ body @
                [ListClose, ExecuteCommandLists, Present, Signal (mCurrentFence s + 1)]"
       "mCurrBackBuffer s' = (mCurrBackBuffer s + 1) smod SwapChainBufferCount s"
    by blast
  have "list_all (\<lambda>x. is_Rec x \<or> is_wait x) tu"
    using S(2,3) by (auto simp: wait_calls_def list_all_iff)
  then show "\<exists>s1 tu body. CrateApp_Update m2 c s = Some (s1, tu) \<and>
          list_all (\<lambda>x. is_Rec x \<or> is_wait x) tu \<and> list_all is_Rec body \<and>
          t = tu @ [AllocReset, ListReset] @ body @
              [ListClose, ExecuteCommandLists, Present, Signal (mCurrentFence s + 1)]"
    using u S(1,4) t by blast
  show "mCurrBackBuffer s' = (mCurrBackBuffer s + 1) smod SwapChainBufferCount s"
    by (rule S(5))
next
  assume f: "frame (BlendApp_Update dt tick c) BlendApp_Draw b = Some (b', u)"
  from f obtain b1 tu td where
    up: "BlendApp_Update dt tick c b = Some (b1, tu)" and d: "BlendApp_Draw b1 = Some (b', td)" and
    t: "u = tu @ td"
    by (rule frame_cases)
  from BlendApp_frame_shape [OF up d] obtain body where
    S: "list_all is_Rec body" "tu = wait_calls c b1"
       "td = [AllocReset, ListReset] @ body @
                [ListClose, ExecuteCommandLists, Present, Signal (mCurrentFence b + 1)]"
       "mCurrBackBuffer b' = (mCurrBackBuffer b + 1) smod SwapChainBufferCount b"
    by blast
  have "list_all is_wait tu"
    using S(2) by (simp add: wait_calls_def)
  then show "\<exists>b1 tu body. BlendApp_Update dt tick c b = Some (b1, tu) \<and>
          list_all is_wait tu \<and> list_all is_Rec body \<and>
          u = tu @ [AllocReset, ListReset] @ body @
              [ListClose, ExecuteCommandLists, Present, Signal (mCurrentFence b + 1)]"
    using up S(1,3) t by blast
  show "mCurrBackBuffer b' = (mCurrBackBuffer b + 1) smod SwapChainBufferCount b"
    by (rule S(4))
next
  assume f: "frame (BoxApp_Update w1 w2 tm) BoxApp_Draw x = Some (x', v)"
  from f obtain x1 vu vd where
    up: "BoxApp_Update w1 w2 tm x = Some (x1, vu)" and d: "BoxApp_Draw x1 = Some (x', vd)" and
    t: "v = vu @ vd"
    by (rule frame_cases)
  from BoxApp_frame_shape [OF up d] obtain body where
    S: "list_all is_Rec body" "vu = []"
       "vd = [AllocReset, ListReset] @ body @
                [ListClose, ExecuteCommandLists, Present, FlushCommandQueue]"
       "mCurrBackBuffer x' = (mCurrBackBuffer x + 1) smod SwapChainBufferCount x"
       "mObjectCB x' = mObjectCB x @ [(0, XMMatrixTranspose w1, tm), (1, XMMatrixTranspose w2, tm)]"
    by blast
  show "\<exists>body. list_all is_Rec body \<and>
          v = [AllocReset, ListReset] @ body @
              [ListClose, ExecuteCommandLists, Present, FlushCommandQueue]"
    using S(1,2,3) t by auto
  show "mCurrBackBuffer x' = (mCurrBackBuffer x + 1) smod SwapChainBufferCount x"
    by (rule S(4))
  show "mObjectCB x' = mObjectCB x @ [(0, XMMatrixTranspose w1, tm), (1, XMMatrixTranspose w2, tm)]"
    by (rule S(5))
qed

section \<open>One fence wait per frame\<close>

text \<open>
  C6. In an Update/Draw cycle of CrateApp or BlendApp the only blocking call is the
  wait of Update, made exactly when the fence test of Update holds: at most one per
  cycle; Draw blocks nowhere. The calls of the cycle that involve the fence are that wait
  and the one signal that ends Draw. In a cycle of BoxApp the only call that involves the
  fence, and the only blocking one, is the FlushCommandQueue that ends Draw.
\<close>

theorem one_fence_wait_per_frame:
  "(CrateApp_Update m2 c s = Some (s1, tu) \<and> CrateApp_Draw s1 = Some (s2, td) \<longrightarrow>
      filter is_wait (tu @ td) =
        (if must_wait c s1 then [WaitForFence (current_Fence s1)] else []) \<and>
      length (filter is_wait (tu @ td)) \<le> 1 \<and> filter is_wait td = [] \<and>
      filter is_fence_call (tu @ td) = filter is_wait (tu @ td) @ [Signal (mCurrentFence s1 + 1)]) \<and>
   (BlendApp_Update dt tick c b = Some (b1, uu) \<and> BlendApp_Draw b1 = Some (b2, ud) \<longrightarrow>
      filter is_wait (uu @ ud) =
        (if must_wait c b1 then [WaitForFence (current_Fence b1)] else []) \<and>
      length (filter is_wait (uu @ ud)) \<le> 1 \<and> filter is_wait ud = [] \<and>
      filter is_fence_call (uu @ ud) = filter is_wait (uu @ ud) @ [Signal (mCurrentFence b1 + 1)]) \<and>
   (BoxApp_Update w1 w2 tm x = Some (x1, vu) \<and> BoxApp_Draw x1 = Some (x2, vd) \<longrightarrow>
      filter is_wait (vu @ vd) = [FlushCommandQueue] \<and>
      filter is_fence_call (vu @ vd) = [FlushCommandQueue])"
proof (intro conjI impI)
  assume a: "CrateApp_Update m2 c s = Some (s1, tu) \<and> CrateApp_Draw s1 = Some (s2, td)"
  from CrateApp_frame_shape [of m2 c s s1 tu s2 td] a obtain body r where
    S: "list_all is_Rec body" "list_all is_Rec r" "tu = wait_calls c s1 @ r"
       "td = [AllocReset, ListReset] @ body @
                [ListClose, ExecuteCommandLists, Present, Signal (mCurrentFence s + 1)]"
       "mCurrentFence s1 = mCurrentFence s"
    by blast
  have w: "filter is_wait tu = wait_calls c s1" "filter is_wait td = []"
    using S by (simp_all add: waits_wait_calls waits_rec)
  have f: "filter is_fence_call tu = wait_calls c s1"
    "filter is_fence_call td = [Signal (mCurrentFence s1 + 1)]"
    using S by (simp_all add: fence_calls_wait_calls fence_calls_rec)
  show "filter is_wait (tu @ td) =
        (if must_wait c s1 then [WaitForFence (current_Fence s1)] else [])"
    using w by (simp add: wait_calls_def)
  show "length (filter is_wait (tu @ td)) \<le> 1"
    using w by (simp add: wait_calls_def)
  show "filter is_wait td = []" by (rule w(2))
  show "filter is_fence_call (tu @ td) = filter is_wait (tu @ td) @ [Signal (mCurrentFence s1 + 1)]"
    using w f by simp
next
  assume a: "BlendApp_Update dt tick c b = Some (b1, uu) \<and> BlendApp_Draw b1 = Some (b2, ud)"
  from BlendApp_frame_shape [of dt tick c b b1 uu b2 ud] a obtain body where
    S: "list_all is_Rec body" "uu = wait_calls c b1"
       "ud = [AllocReset, ListReset] @ body @
                [ListClose, ExecuteCommandLists, Present, Signal (mCurrentFence b + 1)]"
       "mCurrentFence b1 = mCurrentFence b"
    by blast
  have w: "filter is_wait uu = wait_calls c b1" "filter is_wait ud = []"
    using S by (simp_all add: waits_wait_calls waits_rec)
  have f: "filter is_fence_call uu = wait_calls c b1"
    "filter is_fence_call ud = [Signal (mCurrentFence b1 + 1)]"
    using S by (simp_all add: fence_calls_wait_calls fence_calls_rec)
  show "filter is_wait (uu @ ud) =
        (if must_wait c b1 then [WaitForFence (current_Fence b1)] else [])"
    using w by (simp add: wait_calls_def)
  show "length (filter is_wait (uu @ ud)) \<le> 1"
    using w by (simp add: wait_calls_def)
  show "filter is_wait ud = []" by (rule w(2))
  show "filter is_fence_call (uu @ ud) = filter is_wait (uu @ ud) @ [Signal (mCurrentFence b1 + 1)]"
    using w f by simp
next
  assume a: "BoxApp_Update w1 w2 tm x = Some (x1, vu) \<and> BoxApp_Draw x1 = Some (x2, vd)"
  from BoxApp_frame_shape [of w1 w2 tm x x1 vu x2 vd] a obtain body where
    S: "list_all is_Rec body" "vu = []"
       "vd = [AllocReset, ListReset] @ body @
                [ListClose, ExecuteCommandLists, Present, FlushCommandQueue]"
    by blast
  show "filter is_wait (vu @ vd) = [FlushCommandQueue]"
    using S by (simp add: waits_rec)
  show "filter is_fence_call (vu @ vd) = [FlushCommandQueue]"
    using S by (simp add: fence_calls_rec)
qed

lemma crate_frame1_ex:
  "\<exists>s' t. frame (CrateApp_Update Identity4x4 1) CrateApp_Draw
       (CrateApp_Initialize \<lparr>SwapChainBufferCount = 2, mCurrBackBuffer = 0, mCurrentFence = 1\<rparr>)
       = Some (s', t)"
  by (simp add: frame_def crate_defs crate_step_defs numeral_3_eq_3 upt_rec)

lemma blend_frame1_ex:
  "\<exists>s' t. frame (BlendApp_Update 0 True 1) BlendApp_Draw
       (BlendApp_Initialize \<lparr>SwapChainBufferCount = 2, mCurrBackBuffer = 0, mCurrentFence = 1\<rparr>)
       = Some (s', t)"
  by (simp add: frame_def blend_defs blend_step_defs Identity4x4_def)

lemma box_frame1_ex:
  "\<exists>s' t. frame (BoxApp_Update Identity4x4 Identity4x4 0) BoxApp_Draw
       (BoxApp_Initialize \<lparr>SwapChainBufferCount = 2, mCurrBackBuffer = 0, mCurrentFence = 1\<rparr>)
       = Some (s', t)"
  by (simp add: frame_def BoxApp_Update_def BoxApp_Draw_def BoxApp_Initialize_def)

lemma crate_init_D3D:
  "mCurrBackBuffer (CrateApp_Initialize d) = mCurrBackBuffer d"
  "SwapChainBufferCount (CrateApp_Initialize d) = SwapChainBufferCount d"
  "mCurrentFence (CrateApp_Initialize d) = mCurrentFence d"
  by (simp_all add: crate_defs)

lemma blend_init_D3D:
  "mCurrBackBuffer (BlendApp_Initialize d) = mCurrBackBuffer d"
  "SwapChainBufferCount (BlendApp_Initialize d) = SwapChainBufferCount d"
  "mCurrentFence (BlendApp_Initialize d) = mCurrentFence d"
  by (simp_all add: blend_defs Let_def)

lemma box_init_D3D:
  "mCurrBackBuffer (BoxApp_Initialize d) = mCurrBackBuffer d"
  "SwapChainBufferCount (BoxApp_Initialize d) = SwapChainBufferCount d"
  by (simp_all add: BoxApp_Initialize_def)

theorem frame_call_order_witness:
  "(\<exists>s' t. frame (CrateApp_Update Identity4x4 1) CrateApp_Draw
       (CrateApp_Initialize \<lparr>SwapChainBufferCount = 2, mCurrBackBuffer = 0, mCurrentFence = 1\<rparr>)
       = Some (s', t) \<and> mCurrBackBuffer s' = 1 \<and> last t = Signal 2) \<and>
   (\<exists>b' u. frame (BlendApp_Update 0 True 1) BlendApp_Draw
       (BlendApp_Initialize \<lparr>SwapChainBufferCount = 2, mCurrBackBuffer = 0, mCurrentFence = 1\<rparr>)
       = Some (b', u) \<and> mCurrBackBuffer b' = 1 \<and> last u = Signal 2) \<and>
   (\<exists>x' v. frame (BoxApp_Update Identity4x4 Identity4x4 0) BoxApp_Draw
       (BoxApp_Initialize \<lparr>SwapChainBufferCount = 2, mCurrBackBuffer = 0, mCurrentFence = 1\<rparr>)
       = Some (x', v) \<and> mCurrBackBuffer x' = 1 \<and> last v = FlushCommandQueue)"
proof -
  let ?d = "\<lparr>SwapChainBufferCount = 2, mCurrBackBuffer = 0, mCurrentFence = 1\<rparr>"
  obtain s' t where c: "frame (CrateApp_Update Identity4x4 1) CrateApp_Draw
       (CrateApp_Initialize ?d) = Some (s', t)"
    using crate_frame1_ex by blast
  obtain b' u where b: "frame (BlendApp_Update 0 True 1) BlendApp_Draw
       (BlendApp_Initialize ?d) = Some (b', u)"
    using blend_frame1_ex by blast
  obtain x' v where x: "frame (BoxApp_Update Identity4x4 Identity4x4 0) BoxApp_Draw
       (BoxApp_Initialize ?d) = Some (x', v)"
    using box_frame1_ex by blast
  note T = frame_call_order [where ?m2.0 = Identity4x4 and c = 1 and dt = 0 and tick = True
      and ?w1.0 = Identity4x4 and ?w2.0 = Identity4x4 and tm = 0
      and s = "CrateApp_Initialize ?d" and b = "BlendApp_Initialize ?d"
      and x = "BoxApp_Initialize ?d"
      and s' = s' and t = t and b' = b' and u = u and x' = x' and v = v]
  have "mCurrBackBuffer s' = 1 \<and> last t = Signal 2"
    using T c by (auto simp: crate_init_D3D smod_int_alt_def)
  moreover have "mCurrBackBuffer b' = 1 \<and> last u = Signal 2"
    using T b by (auto simp: blend_init_D3D smod_int_alt_def)
  moreover have "mCurrBackBuffer x' = 1 \<and> last v = FlushCommandQueue"
    using T x by (auto simp: box_init_D3D smod_int_alt_def)
  ultimately show ?thesis
    using c b x by blast
qed

lemma crate_wait_ex:
  "\<exists>s t s1 tu s2 td.
     run_with CrateApp_step
       [Crate_Update Identity4x4 1, Crate_Draw, Crate_Update Identity4x4 1, Crate_Draw,
        Crate_Update Identity4x4 1, Crate_Draw]
       (CrateApp_Initialize \<lparr>SwapChainBufferCount = 2, mCurrBackBuffer = 0, mCurrentFence = 1\<rparr>)
       = Some (s, t) \<and>
     CrateApp_Update Identity4x4 1 s = Some (s1, tu) \<and> CrateApp_Draw s1 = Some (s2, td) \<and>
     must_wait 1 s1 \<and> current_Fence s1 = 2"
  by (simp add: crate_defs crate_step_defs numeral_3_eq_3 upt_rec)

lemma blend_wait_ex:
  "\<exists>s t s1 tu s2 td.
     run_with BlendApp_step
       [Blend_Update 0 True 1, Blend_Draw, Blend_Update 0 True 1, Blend_Draw,
        Blend_Update 0 True 1, Blend_Draw]
       (BlendApp_Initialize \<lparr>SwapChainBufferCount = 2, mCurrBackBuffer = 0, mCurrentFence = 1\<rparr>)
       = Some (s, t) \<and>
     BlendApp_Update 0 True 1 s = Some (s1, tu) \<and> BlendApp_Draw s1 = Some (s2, td) \<and>
     must_wait 1 s1 \<and> current_Fence s1 = 2"
  by (simp add: blend_defs blend_step_defs Identity4x4_def)

lemma box_cycle_ex:
  "\<exists>x1 vu x2 vd.
     BoxApp_Update Identity4x4 Identity4x4 0
       (BoxApp_Initialize \<lparr>SwapChainBufferCount = 2, mCurrBackBuffer = 0, mCurrentFence = 1\<rparr>)
       = Some (x1, vu) \<and> BoxApp_Draw x1 = Some (x2, vd)"
  by (simp add: BoxApp_Update_def BoxApp_Draw_def BoxApp_Initialize_def)

theorem one_fence_wait_per_frame_witness:
  "(\<exists>s s1 tu s2 td.
       CrateApp_Update Identity4x4 1 s = Some (s1, tu) \<and> CrateApp_Draw s1 = Some (s2, td) \<and>
       filter is_wait (tu @ td) = [WaitForFence 2]) \<and>
   (\<exists>b b1 uu b2 ud.
       BlendApp_Update 0 True 1 b = Some (b1, uu) \<and> BlendApp_Draw b1 = Some (b2, ud) \<and>
       filter is_wait (uu @ ud) = [WaitForFence 2]) \<and>
   (\<exists>x1 vu x2 vd.
       BoxApp_Update Identity4x4 Identity4x4 0
         (BoxApp_Initialize \<lparr>SwapChainBufferCount = 2, mCurrBackBuffer = 0, mCurrentFence = 1\<rparr>)
         = Some (x1, vu) \<and> BoxApp_Draw x1 = Some (x2, vd) \<and>
       filter is_wait (vu @ vd) = [FlushCommandQueue])"
proof -
  let ?d = "\<lparr>SwapChainBufferCount = 2, mCurrBackBuffer = 0, mCurrentFence = 1\<rparr>"
  obtain s s1 tu s2 td where
    c: "CrateApp_Update Identity4x4 1 s = Some (s1, tu)" "CrateApp_Draw s1 = Some (s2, td)"
       "must_wait 1 s1" "current_Fence s1 = 2"
    using crate_wait_ex by blast
  obtain b b1 uu b2 ud where
    b: "BlendApp_Update 0 True 1 b = Some (b1, uu)" "BlendApp_Draw b1 = Some (b2, ud)"
       "must_wait 1 b1" "current_Fence b1 = 2"
    using blend_wait_ex by blast
  obtain x1 vu x2 vd where
    x: "BoxApp_Update Identity4x4 Identity4x4 0 (BoxApp_Initialize ?d) = Some (x1, vu)"
       "BoxApp_Draw x1 = Some (x2, vd)"
    using box_cycle_ex by blast
  note T = one_fence_wait_per_frame [where ?m2.0 = Identity4x4 and c = 1 and dt = 0
      and tick = True and ?w1.0 = Identity4x4 and ?w2.0 = Identity4x4 and tm = 0
      and s = s and ?s1.0 = s1 and tu = tu and ?s2.0 = s2 and td = td
      and b = b and ?b1.0 = b1 and uu = uu and ?b2.0 = b2 and ud = ud
      and x = "BoxApp_Initialize ?d" and ?x1.0 = x1 and vu = vu and ?x2.0 = x2 and vd = vd]
  have "filter is_wait (tu @ td) = [WaitForFence 2]"
    using T c by (simp del: filter_append)
  moreover have "filter is_wait (uu @ ud) = [WaitForFence 2]"
    using T b by (simp del: filter_append)
  moreover have "filter is_wait (vu @ vd) = [FlushCommandQueue]"
    using T x by (simp del: filter_append)
  ultimately show ?thesis
    using c(1,2) b(1,2) x by blast
qed























section \<open>The fence wait of Update\<close>






lemma UpdateObjectCBs_loop_snd:
  "snd (UpdateObjectCBs_loop cb es) = map RenderItem_copied es"
  by (induction cb es rule: UpdateObjectCBs_loop.induct)
     (simp_all add: RenderItem_copied_def Let_def)

lemma UpdateObjectCBs_loop_fst:
  "fst (UpdateObjectCBs_loop cb es) =
     cb @ map (\<lambda>e. (ObjCBIndex e, (XMMatrixTranspose (World e), XMMatrixTranspose (TexTransform e))))
            (filter (\<lambda>e. RenderItem.NumFramesDirty e > 0) es)"
  by (induction cb es rule: UpdateObjectCBs_loop.induct) (simp_all add: Let_def)

lemma UpdateMaterialCBs_loop_snd:
  "snd (UpdateMaterialCBs_loop cb es) = map (\<lambda>(k, m). (k, Material_copied m)) es"
  by (induction cb es rule: UpdateMaterialCBs_loop.induct)
     (simp_all add: Material_copied_def Let_def)

lemma UpdateMaterialCBs_loop_fst:
  "fst (UpdateMaterialCBs_loop cb es) =
     cb @ map (\<lambda>(k, m). (MatCBIndex m, XMMatrixTranspose (MatTransform m)))
            (filter (\<lambda>(k, m). Material.NumFramesDirty m > 0) es)"
  by (induction cb es rule: UpdateMaterialCBs_loop.induct) (simp_all add: Let_def)

lemma map_of_modify:
  "map_of (modify k f m) x = (if x = k then map_option f (map_of m k) else map_of m x)"
  unfolding modify_def by (induction m) auto

lemma map_of_copied:
  "map_of (map (\<lambda>(k, m). (k, Material_copied m)) ms) x = map_option Material_copied (map_of ms x)"
  by (induction ms) auto

lemma Material_copied_fields [simp]:
  "MatCBIndex (Material_copied m) = MatCBIndex m"
  "DiffuseSrvHeapIndex (Material_copied m) = DiffuseSrvHeapIndex m"
  "MatTransform (Material_copied m) = MatTransform m"
  "Material.Name (Material_copied m) = Material.Name m"
  by (simp_all add: Material_copied_def)

lemma RenderItem_copied_fields [simp]:
  "ObjCBIndex (RenderItem_copied e) = ObjCBIndex e"
  "Mat (RenderItem_copied e) = Mat e"
  "Geo (RenderItem_copied e) = Geo e"
  "World (RenderItem_copied e) = World e"
  "TexTransform (RenderItem_copied e) = TexTransform e"
  by (simp_all add: RenderItem_copied_def)

lemma UpdateObjectCBs_effect:
  assumes "UpdateObjectCBs s = Some s'"
  shows "\<exists>i. mCurrFrameResource s = Some i \<and> i < length (mFrameResources s) \<and>
           s' = s\<lparr>mFrameResources := (mFrameResources s)
                    [i := (mFrameResources s ! i)
                       \<lparr>ObjectCB := fst (UpdateObjectCBs_loop (ObjectCB (mFrameResources s ! i))
                                          (mAllRitems s))\<rparr>],
                  mAllRitems := map RenderItem_copied (mAllRitems s)\<rparr>"
  using assms
  by (auto simp: UpdateObjectCBs_def Let_def UpdateObjectCBs_loop_snd
      split: option.splits if_splits)

lemma UpdateMaterialCBs_effect:
  assumes "UpdateMaterialCBs s = Some s'"
  shows "\<exists>i. mCurrFrameResource s = Some i \<and> i < length (mFrameResources s) \<and>
           s' = s\<lparr>mFrameResources := (mFrameResources s)
                    [i := (mFrameResources s ! i)
                       \<lparr>MaterialCB := fst (UpdateMaterialCBs_loop (MaterialCB (mFrameResources s ! i))
                                          (mMaterials s))\<rparr>],
                  mMaterials := map (\<lambda>(k, m). (k, Material_copied m)) (mMaterials s)\<rparr>"
  using assms
  by (auto simp: UpdateMaterialCBs_def Let_def UpdateMaterialCBs_loop_snd
      split: option.splits if_splits)

lemma cycle_effect:
  assumes "cycle_frame_resource s = Some s'"
  shows "\<exists>i. s' = s\<lparr>mCurrFrameResourceIndex := i, mCurrFrameResource := Some (nat i)\<rparr>"
  using assms by (auto simp: cycle_frame_resource_def Let_def split: if_splits)

lemma bolt_word:
  fixes w :: UINT
  assumes "3 \<le> unat w"
  shows "unat (w - 3 + 1) = unat w - 2"
proof -
  have "w - 3 + 1 = w - 2" by simp
  moreover have "(2 :: UINT) \<le> w"
    using assms by (simp add: word_le_nat_alt)
  ultimately show ?thesis
    by (simp add: unat_sub)
qed

lemma bolt_store:
  assumes "n \<noteq> 0" "n + 2 < 2 ^ 32"
  shows "unat (word_of_nat (x mod n + 3) :: UINT) = x mod n + 3"
proof -
  have "x mod n < n" using assms(1) by simp
  then have "x mod n + 3 < 2 ^ 32" using assms(2) by simp
  then show ?thesis
    using unat_of_nat [where 'a = 32, of "x mod n + 3"] by simp
qed

lemma AnimateMaterials_bolt:
  assumes a: "BlendApp_AnimateMaterials dt tick s = Some s'"
  shows "mBoltAnimTextures s' = mBoltAnimTextures s"
    and "mBoltAnimSrvOffsetInHeap s' =
          (if tick
           then word_of_nat (unat (mBoltAnimSrvOffsetInHeap s - 3 + 1)
                             mod length (mBoltAnimTextures s) + 3)
           else mBoltAnimSrvOffsetInHeap s)"
    and "tick \<Longrightarrow> boltAnim_index s' = Some (unat (mBoltAnimSrvOffsetInHeap s'))"
    and "\<not> tick \<Longrightarrow> boltAnim_index s' = boltAnim_index s"
    and "tick \<Longrightarrow> mBoltAnimTextures s \<noteq> []"
  using a
  by (auto simp: BlendApp_AnimateMaterials_def Let_def boltAnim_index_def map_of_modify
      split: option.splits if_splits)

lemma map_update_same: "f x = f (xs ! i) \<Longrightarrow> map f (xs[i := x]) = map f xs"
  by (cases "i < length xs") (simp_all add: list_eq_iff_nth_eq nth_list_update)

lemma submit_effect:
  assumes "submit_and_signal s = Some (s', t)"
  shows "\<exists>i b f. s' = s\<lparr>mCurrBackBuffer := b, mCurrentFence := f,
                         mFrameResources := (mFrameResources s)
                           [i := (mFrameResources s ! i)\<lparr>Fence := f\<rparr>]\<rparr>"
  using assms
  by (auto simp: submit_and_signal_def Let_def split: option.splits if_splits)

lemma replicate3: "replicate 3 x = [x, x, x]"
  by (simp add: numeral_3_eq_3)

lemma blend_inv_Initialize: "blend_inv (BlendApp_Initialize d)"
  by (simp add: blend_inv_def blend_defs Let_def replicate3)

lemma blend_inv_cycle:
  assumes "cycle_frame_resource s = Some s'" "blend_inv s"
  shows "blend_inv s'"
proof -
  from cycle_effect [OF assms(1)] obtain i where
    "s' = s\<lparr>mCurrFrameResourceIndex := i, mCurrFrameResource := Some (nat i)\<rparr>"
    by blast
  then show ?thesis
    using assms(2) by (simp add: blend_inv_def)
qed

lemma blend_inv_UpdateObjectCBs:
  assumes "UpdateObjectCBs s = Some s'" "blend_inv s"
  shows "blend_inv s'"
proof -
  from UpdateObjectCBs_effect [OF assms(1)] obtain i c where
    "s' = s\<lparr>mFrameResources := (mFrameResources s)[i := (mFrameResources s ! i)\<lparr>ObjectCB := c\<rparr>],
            mAllRitems := map RenderItem_copied (mAllRitems s)\<rparr>"
    by blast
  then show ?thesis
    using assms(2) by (simp add: blend_inv_def map_update_same comp_def)
qed

lemma blend_inv_UpdateMaterialCBs:
  assumes "UpdateMaterialCBs s = Some s'" "blend_inv s"
  shows "blend_inv s'"
proof -
  from UpdateMaterialCBs_effect [OF assms(1)] obtain i c where
    "s' = s\<lparr>mFrameResources := (mFrameResources s)[i := (mFrameResources s ! i)\<lparr>MaterialCB := c\<rparr>],
            mMaterials := map (\<lambda>(k, m). (k, Material_copied m)) (mMaterials s)\<rparr>"
    by blast
  then show ?thesis
    using assms(2) by (simp add: blend_inv_def map_update_same comp_def case_prod_beta)
qed

lemma blend_inv_submit:
  assumes "submit_and_signal s = Some (s', t)" "blend_inv s"
  shows "blend_inv s'"
proof -
  from submit_effect [OF assms(1)] obtain i b f where
    "s' = s\<lparr>mCurrBackBuffer := b, mCurrentFence := f,
            mFrameResources := (mFrameResources s)[i := (mFrameResources s ! i)\<lparr>Fence := f\<rparr>]\<rparr>"
    by blast
  then show ?thesis
    using assms(2) by (simp add: blend_inv_def map_update_same)
qed

lemma blend_inv_CreateResources:
  "blend_inv s \<Longrightarrow> blend_inv (fst (CreateResourcesForPixelOverdrawMode s))"
  by (simp add: CreateResourcesForPixelOverdrawMode_def blend_inv_def)

lemma blend_inv_OnKeyDown: "blend_inv s \<Longrightarrow> blend_inv (BlendApp_OnKeyDown wParam s)"
  by (simp add: BlendApp_OnKeyDown_def ChangeRenderMode_def blend_inv_def)

lemma blend_materials:
  assumes "blend_inv s"
  shows "\<exists>m0 m1 m2 m3.
           mMaterials s = [(''grass'', m0), (''water'', m1), (''wirefence'', m2), (''boltAnim'', m3)] \<and>
           MatCBIndex m0 = 0 \<and> MatCBIndex m1 = 1 \<and> MatCBIndex m2 = 2 \<and> MatCBIndex m3 = 3 \<and>
           DiffuseSrvHeapIndex m0 = 0 \<and> DiffuseSrvHeapIndex m1 = 1 \<and>
           DiffuseSrvHeapIndex m2 = 2 \<and>
           DiffuseSrvHeapIndex m3 = unat (mBoltAnimSrvOffsetInHeap s)"
proof -
  from assms have
    a: "map (\<lambda>p. (fst p, MatCBIndex (snd p))) (mMaterials s) =
          [(''grass'', 0), (''water'', 1), (''wirefence'', 2), (''boltAnim'', 3)]" and
    b: "map (\<lambda>p. DiffuseSrvHeapIndex (snd p)) (mMaterials s) =
          [0, 1, 2, unat (mBoltAnimSrvOffsetInHeap s)]"
    by (simp_all add: blend_inv_def)
  from a obtain p0 p1 p2 p3 where
    ms: "mMaterials s = [p0, p1, p2, p3]"
    by (auto simp: map_eq_Cons_conv)
  show ?thesis
    using a b unfolding ms by (cases p0; cases p1; cases p2; cases p3) simp
qed

lemma bolt_store60: "unat (word_of_nat (x mod 60 + 3) :: UINT) = x mod 60 + 3"
  by (rule bolt_store) simp_all

lemma blend_inv_AnimateMaterials:
  assumes a: "BlendApp_AnimateMaterials dt tick s = Some s'" and inv: "blend_inv s"
  shows "blend_inv s'"
    and "unat (mBoltAnimSrvOffsetInHeap s') =
          (if tick then (unat (mBoltAnimSrvOffsetInHeap s) - 2) mod 60 + 3
           else unat (mBoltAnimSrvOffsetInHeap s))"
proof -
  from blend_materials [OF inv] obtain m0 m1 m2 m3 where
    ms: "mMaterials s = [(''grass'', m0), (''water'', m1), (''wirefence'', m2), (''boltAnim'', m3)]"
      and ix: "MatCBIndex m0 = 0" "MatCBIndex m1 = 1" "MatCBIndex m2 = 2" "MatCBIndex m3 = 3"
      "DiffuseSrvHeapIndex m0 = 0" "DiffuseSrvHeapIndex m1 = 1" "DiffuseSrvHeapIndex m2 = 2"
      "DiffuseSrvHeapIndex m3 = unat (mBoltAnimSrvOffsetInHeap s)"
    by blast
  from inv have n: "length (mBoltAnimTextures s) = 60" and
    lo: "3 \<le> unat (mBoltAnimSrvOffsetInHeap s)" and
    hi: "unat (mBoltAnimSrvOffsetInHeap s) < 63"
    by (simp_all add: blend_inv_def)
  have c: "s' = s\<lparr>mMaterials := mMaterials s',
                  mBoltAnimSrvOffsetInHeap := mBoltAnimSrvOffsetInHeap s'\<rparr>"
    using a
    by (auto simp: BlendApp_AnimateMaterials_def Let_def split: option.splits if_splits)
  have "\<exists>w b. mMaterials s' =
            [(''grass'', m0), (''water'', w), (''wirefence'', m2), (''boltAnim'', b)] \<and>
          MatCBIndex w = 1 \<and> DiffuseSrvHeapIndex w = 1 \<and> MatCBIndex b = 3 \<and>
          DiffuseSrvHeapIndex b =
            (if tick then unat (mBoltAnimSrvOffsetInHeap s') else DiffuseSrvHeapIndex m3)"
    using a ix
    by (auto simp: BlendApp_AnimateMaterials_def Let_def ms modify_def split: if_splits)
  then obtain w b where
    mat: "mMaterials s' =
            [(''grass'', m0), (''water'', w), (''wirefence'', m2), (''boltAnim'', b)]" and
    wb: "MatCBIndex w = 1" "DiffuseSrvHeapIndex w = 1" "MatCBIndex b = 3"
      "DiffuseSrvHeapIndex b =
         (if tick then unat (mBoltAnimSrvOffsetInHeap s') else DiffuseSrvHeapIndex m3)"
    by blast
  from AnimateMaterials_bolt(2) [OF a] have eq:
    "mBoltAnimSrvOffsetInHeap s' =
       (if tick then word_of_nat ((unat (mBoltAnimSrvOffsetInHeap s) - 2) mod 60 + 3)
        else mBoltAnimSrvOffsetInHeap s)"
    unfolding n bolt_word [OF lo] .
  show off: "unat (mBoltAnimSrvOffsetInHeap s') =
          (if tick then (unat (mBoltAnimSrvOffsetInHeap s) - 2) mod 60 + 3
           else unat (mBoltAnimSrvOffsetInHeap s))"
  proof (cases tick)
    case True
    with eq have "mBoltAnimSrvOffsetInHeap s' =
        word_of_nat ((unat (mBoltAnimSrvOffsetInHeap s) - 2) mod 60 + 3)"
      by (simp only: if_True)
    then show ?thesis
      using True by (simp only: bolt_store60 if_True)
  next
    case False
    with eq show ?thesis by (simp only: if_False)
  qed
  have rng: "3 \<le> unat (mBoltAnimSrvOffsetInHeap s')" "unat (mBoltAnimSrvOffsetInHeap s') < 63"
    using off lo hi by (simp_all split: if_splits)
  have d3: "DiffuseSrvHeapIndex b = unat (mBoltAnimSrvOffsetInHeap s')"
    using wb(4) off ix(8) by (simp split: if_splits)
  show "blend_inv s'"
    apply (subst c)
    using inv ix wb(1-3) d3 rng
    apply (simp add: blend_inv_def mat)
    done
qed

lemma quiet_offset:
  assumes "UpdateObjectCBs s = Some s'"
  shows "mBoltAnimSrvOffsetInHeap s' = mBoltAnimSrvOffsetInHeap s"
  using UpdateObjectCBs_effect [OF assms] by auto

lemma quiet_offset_mat:
  assumes "UpdateMaterialCBs s = Some s'"
  shows "mBoltAnimSrvOffsetInHeap s' = mBoltAnimSrvOffsetInHeap s"
  using UpdateMaterialCBs_effect [OF assms] by auto

lemma quiet_offset_cycle:
  assumes "cycle_frame_resource s = Some s'"
  shows "mBoltAnimSrvOffsetInHeap s' = mBoltAnimSrvOffsetInHeap s"
  using cycle_effect [OF assms] by auto

lemma quiet_offset_submit:
  assumes "submit_and_signal s = Some (s', t)"
  shows "mBoltAnimSrvOffsetInHeap s' = mBoltAnimSrvOffsetInHeap s"
  using submit_effect [OF assms] by auto

lemma blend_inv_Update:
  assumes u: "BlendApp_Update dt tick c s = Some (s', t)" and inv: "blend_inv s"
  shows "blend_inv s'"
    and "unat (mBoltAnimSrvOffsetInHeap s') =
          (if tick then (unat (mBoltAnimSrvOffsetInHeap s) - 2) mod 60 + 3
           else unat (mBoltAnimSrvOffsetInHeap s))"
proof -
  from u obtain s1 s2 s3 where
    c: "cycle_frame_resource s = Some s1" and
    a: "BlendApp_AnimateMaterials dt tick s1 = Some s2" and
    ob: "UpdateObjectCBs s2 = Some s3" and
    m: "UpdateMaterialCBs s3 = Some s'"
    by (auto simp: BlendApp_Update_def split: option.splits)
  note i1 = blend_inv_cycle [OF c inv]
  note i2 = blend_inv_AnimateMaterials [OF a i1]
  show "blend_inv s'"
    by (rule blend_inv_UpdateMaterialCBs [OF m blend_inv_UpdateObjectCBs [OF ob i2(1)]])
  show "unat (mBoltAnimSrvOffsetInHeap s') =
          (if tick then (unat (mBoltAnimSrvOffsetInHeap s) - 2) mod 60 + 3
           else unat (mBoltAnimSrvOffsetInHeap s))"
    using i2(2) by (simp add: quiet_offset_mat [OF m] quiet_offset [OF ob] quiet_offset_cycle [OF c])
qed

lemma blend_inv_Draw:
  assumes d: "BlendApp_Draw s = Some (s', t)" and inv: "blend_inv s"
  shows "blend_inv s'" and "mBoltAnimSrvOffsetInHeap s' = mBoltAnimSrvOffsetInHeap s"
proof -
  from BlendApp_Draw_cases [OF d] obtain s1 body tc where
    s1: "s1 = fst (if mRenderMode s = PixelOverdraw
                   then CreateResourcesForPixelOverdrawMode s else (s, []))" and
    sb: "submit_and_signal s1 = Some (s', tc)" and
    "t = [AllocReset, ListReset] @ body @ tc"
    by blast
  have "blend_inv s1"
    using inv by (simp add: s1 blend_inv_CreateResources)
  then show "blend_inv s'"
    by (rule blend_inv_submit [OF sb])
  have "mBoltAnimSrvOffsetInHeap s1 = mBoltAnimSrvOffsetInHeap s"
    by (simp add: s1 CreateResourcesForPixelOverdrawMode_def)
  then show "mBoltAnimSrvOffsetInHeap s' = mBoltAnimSrvOffsetInHeap s"
    by (simp add: quiet_offset_submit [OF sb])
qed

lemma blend_inv_step:
  assumes "BlendApp_step e s = Some (s', t)" "blend_inv s"
  shows "blend_inv s'"
    and "unat (mBoltAnimSrvOffsetInHeap s') =
          (if is_tick e then (unat (mBoltAnimSrvOffsetInHeap s) - 2) mod 60 + 3
           else unat (mBoltAnimSrvOffsetInHeap s))"
proof -
  have "blend_inv s' \<and> unat (mBoltAnimSrvOffsetInHeap s') =
          (if is_tick e then (unat (mBoltAnimSrvOffsetInHeap s) - 2) mod 60 + 3
           else unat (mBoltAnimSrvOffsetInHeap s))"
  proof (cases e)
    case (Blend_Update dt tick c)
    then show ?thesis
      using blend_inv_Update [of dt tick c s s' t] assms by simp
  next
    case Blend_Draw
    then show ?thesis
      using blend_inv_Draw [of s s' t] assms by simp
  next
    case (Blend_OnKeyDown w)
    then have "s' = BlendApp_OnKeyDown w s"
      using assms(1) by simp
    then show ?thesis
      using assms(2) Blend_OnKeyDown
      by (simp add: blend_inv_OnKeyDown) (simp add: BlendApp_OnKeyDown_def ChangeRenderMode_def)
  qed
  then show "blend_inv s'"
    and "unat (mBoltAnimSrvOffsetInHeap s') =
          (if is_tick e then (unat (mBoltAnimSrvOffsetInHeap s) - 2) mod 60 + 3
           else unat (mBoltAnimSrvOffsetInHeap s))"
    by simp_all
qed

lemma blend_inv_run:
  assumes "run_with BlendApp_step es s = Some (s', t)" "blend_inv s"
  shows "blend_inv s'"
  using run_with_invariant [of blend_inv BlendApp_step, OF blend_inv_step(1) assms(2) assms(1)] .

lemma bolt_run:
  "run_with BlendApp_step es s = Some (s', t) \<Longrightarrow> blend_inv s \<Longrightarrow>
   unat (mBoltAnimSrvOffsetInHeap s) = 3 + k mod 60 \<Longrightarrow>
   unat (mBoltAnimSrvOffsetInHeap s') = 3 + (k + length (filter is_tick es)) mod 60"
proof (induction es arbitrary: s t k)
  case Nil
  then show ?case by simp
next
  case (Cons e es)
  from Cons.prems(1) obtain s1 t1 t2 where
    e: "BlendApp_step e s = Some (s1, t1)" and r: "run_with BlendApp_step es s1 = Some (s', t2)"
    by (auto split: option.splits)
  note st = blend_inv_step [OF e Cons.prems(2)]
  show ?case
  proof (cases "is_tick e")
    case True
    have "unat (mBoltAnimSrvOffsetInHeap s1) = 3 + (k + 1) mod 60"
      using st(2) True Cons.prems(3) by (simp add: mod_Suc_eq)
    from Cons.IH [OF r st(1) this] True show ?thesis
      by simp
  next
    case False
    have "unat (mBoltAnimSrvOffsetInHeap s1) = 3 + k mod 60"
      using st(2) False Cons.prems(3) by simp
    from Cons.IH [OF r st(1) this] False show ?thesis
      by simp
  qed
qed

lemma boltAnim_index_inv:
  assumes "blend_inv s"
  shows "boltAnim_index s = Some (unat (mBoltAnimSrvOffsetInHeap s))"
  using blend_materials [OF assms] by (auto simp: boltAnim_index_def)

lemma blend_items:
  assumes "blend_inv s"
  shows "\<exists>r0 r1 r2 r3.
           mAllRitems s = [r0, r1, r2, r3] \<and>
           ObjCBIndex r0 = 0 \<and> ObjCBIndex r1 = 1 \<and> ObjCBIndex r2 = 2 \<and> ObjCBIndex r3 = 3 \<and>
           Mat r0 = Some ''water'' \<and> Mat r1 = Some ''grass'' \<and> Mat r2 = Some ''wirefence'' \<and>
           Mat r3 = Some ''boltAnim'' \<and>
           Geo r0 = Some ''waterGeo'' \<and> Geo r1 = Some ''landGeo'' \<and> Geo r2 = Some ''boxGeo'' \<and>
           Geo r3 = Some ''boltGeo''"
proof -
  from assms have
    a: "map ObjCBIndex (mAllRitems s) = [0, 1, 2, 3]" and
    b: "map Mat (mAllRitems s) =
          [Some ''water'', Some ''grass'', Some ''wirefence'', Some ''boltAnim'']" and
    c: "map Geo (mAllRitems s) =
          [Some ''waterGeo'', Some ''landGeo'', Some ''boxGeo'', Some ''boltGeo'']"
    by (simp_all add: blend_inv_def)
  from a obtain r0 r1 r2 r3 where
    rs: "mAllRitems s = [r0, r1, r2, r3]"
    by (auto simp: map_eq_Cons_conv)
  show ?thesis
    using a b c unfolding rs by simp
qed

lemma blend_geometries:
  assumes "blend_inv s"
  shows "\<exists>g0 g1 g2 g3.
           mGeometries s = [(''landGeo'', g0), (''waterGeo'', g1), (''boxGeo'', g2), (''boltGeo'', g3)]"
proof -
  from assms have
    a: "map fst (mGeometries s) = [''landGeo'', ''waterGeo'', ''boxGeo'', ''boltGeo'']"
    by (simp add: blend_inv_def)
  from a obtain p0 p1 p2 p3 where
    gs: "mGeometries s = [p0, p1, p2, p3]"
    by (auto simp: map_eq_Cons_conv)
  show ?thesis
    using a unfolding gs by (cases p0; cases p1; cases p2; cases p3) simp
qed

lemma DrawRenderItems_defined:
  "(DrawRenderItems s ks = None) = (DrawRenderItems_indices s ks = None)"
  by (induction ks) (auto simp: Let_def split: option.splits)

lemma blend_layer_indices:
  assumes inv: "blend_inv s"
  shows "DrawRenderItems_indices s (mRitemLayer s l) =
           Some [(case l of Opaque \<Rightarrow> (0, 1, 0) | Transparent \<Rightarrow> (1, 0, 1)
                  | AnimatedBolt \<Rightarrow> (unat (mBoltAnimSrvOffsetInHeap s), 3, 3)
                  | AlphaTested \<Rightarrow> (2, 2, 2))]"
proof -
  from blend_items [OF inv] obtain r0 r1 r2 r3 where
    rs: "mAllRitems s = [r0, r1, r2, r3]"
      "ObjCBIndex r0 = 0" "ObjCBIndex r1 = 1" "ObjCBIndex r2 = 2" "ObjCBIndex r3 = 3"
      "Mat r0 = Some ''water''" "Mat r1 = Some ''grass''" "Mat r2 = Some ''wirefence''"
      "Mat r3 = Some ''boltAnim''"
      "Geo r0 = Some ''waterGeo''" "Geo r1 = Some ''landGeo''" "Geo r2 = Some ''boxGeo''"
      "Geo r3 = Some ''boltGeo''"
    by blast
  from blend_materials [OF inv] obtain m0 m1 m2 m3 where
    ms: "mMaterials s = [(''grass'', m0), (''water'', m1), (''wirefence'', m2), (''boltAnim'', m3)]"
      "MatCBIndex m0 = 0" "MatCBIndex m1 = 1" "MatCBIndex m2 = 2" "MatCBIndex m3 = 3"
      "DiffuseSrvHeapIndex m0 = 0" "DiffuseSrvHeapIndex m1 = 1" "DiffuseSrvHeapIndex m2 = 2"
      "DiffuseSrvHeapIndex m3 = unat (mBoltAnimSrvOffsetInHeap s)"
    by blast
  from blend_geometries [OF inv] obtain g0 g1 g2 g3 where
    gs: "mGeometries s = [(''landGeo'', g0), (''waterGeo'', g1), (''boxGeo'', g2), (''boltGeo'', g3)]"
    by blast
  from inv have ls: "mRitemLayer s Transparent = [0]" "mRitemLayer s Opaque = [1]"
    "mRitemLayer s AlphaTested = [2]" "mRitemLayer s AnimatedBolt = [3]"
    by (simp_all add: blend_inv_def)
  show ?thesis
    by (cases l) (simp_all add: ls rs ms gs)
qed

section \<open>The bolt animation of BlendApp\<close>

text \<open>
  C10. Initialize of BlendApp loads 60 bolt textures and leaves
  \<open>mBoltAnimSrvOffsetInHeap\<close> at 3. A tick of AnimateMaterials on an offset in
  \<open>[3, 3 + mBoltAnimTextures.size())\<close> stores
  \<open>(offset - 3 + 1) mod mBoltAnimTextures.size() + 3\<close>, which is the next slot, or slot 3
  after the last one, and is again in that range; without a tick the offset is kept. In
  every state that the callbacks reach from Initialize there are 60 bolt textures, the
  offset is \<open>3 + k mod 60\<close> after \<open>k\<close> ticks, it lies in
  \<open>[3, 3 + mBoltAnimTextures.size())\<close> and within the descriptor heap, and
  \<open>DiffuseSrvHeapIndex\<close> of the material \<open>boltAnim\<close> is equal to it.
\<close>

theorem bolt_offset_cycles:
  "mBoltAnimSrvOffsetInHeap (BlendApp_Initialize d) = 3 \<and>
   length (mBoltAnimTextures (BlendApp_Initialize d)) = 60 \<and>
   (BlendApp_AnimateMaterials dt True s0 = Some s1 \<and>
    3 \<le> unat (mBoltAnimSrvOffsetInHeap s0) \<and>
    unat (mBoltAnimSrvOffsetInHeap s0) < 3 + length (mBoltAnimTextures s0) \<and>
    length (mBoltAnimTextures s0) + 2 < 2 ^ 32 \<longrightarrow>
      unat (mBoltAnimSrvOffsetInHeap s1) =
        (unat (mBoltAnimSrvOffsetInHeap s0) - 3 + 1) mod length (mBoltAnimTextures s0) + 3 \<and>
      unat (mBoltAnimSrvOffsetInHeap s1) =
        (if unat (mBoltAnimSrvOffsetInHeap s0) + 1 < 3 + length (mBoltAnimTextures s0)
         then unat (mBoltAnimSrvOffsetInHeap s0) + 1 else 3) \<and>
      3 \<le> unat (mBoltAnimSrvOffsetInHeap s1) \<and>
      unat (mBoltAnimSrvOffsetInHeap s1) < 3 + length (mBoltAnimTextures s1) \<and>
      boltAnim_index s1 = Some (unat (mBoltAnimSrvOffsetInHeap s1))) \<and>
   (BlendApp_AnimateMaterials dt False s2 = Some s3 \<longrightarrow>
      mBoltAnimSrvOffsetInHeap s3 = mBoltAnimSrvOffsetInHeap s2 \<and>
      boltAnim_index s3 = boltAnim_index s2) \<and>
   (run_with BlendApp_step es (BlendApp_Initialize d) = Some (s, t) \<longrightarrow>
      length (mBoltAnimTextures s) = 60 \<and>
      unat (mBoltAnimSrvOffsetInHeap s) = 3 + length (filter is_tick es) mod 60 \<and>
      3 \<le> unat (mBoltAnimSrvOffsetInHeap s) \<and>
      unat (mBoltAnimSrvOffsetInHeap s) < 3 + length (mBoltAnimTextures s) \<and>
      boltAnim_index s = Some (unat (mBoltAnimSrvOffsetInHeap s)) \<and>
      (\<exists>n. mSrvDescriptorHeap s = Some n \<and> unat (mBoltAnimSrvOffsetInHeap s) < n))"
proof (intro conjI impI)
  show "mBoltAnimSrvOffsetInHeap (BlendApp_Initialize d) = 3"
    by (simp add: blend_defs Let_def)
  show "length (mBoltAnimTextures (BlendApp_Initialize d)) = 60"
    by (simp add: blend_defs Let_def)
next
  assume a: "BlendApp_AnimateMaterials dt True s0 = Some s1 \<and>
    3 \<le> unat (mBoltAnimSrvOffsetInHeap s0) \<and>
    unat (mBoltAnimSrvOffsetInHeap s0) < 3 + length (mBoltAnimTextures s0) \<and>
    length (mBoltAnimTextures s0) + 2 < 2 ^ 32"
  define n where "n = length (mBoltAnimTextures s0)"
  define x where "x = unat (mBoltAnimSrvOffsetInHeap s0)"
  from a have an: "BlendApp_AnimateMaterials dt True s0 = Some s1" and
    lo: "3 \<le> unat (mBoltAnimSrvOffsetInHeap s0)" and hi: "x < 3 + n" and big: "n + 2 < 2 ^ 32"
    by (simp_all add: n_def x_def)
  have n0: "n \<noteq> 0"
    using AnimateMaterials_bolt(5) [OF an] by (simp add: n_def)
  from AnimateMaterials_bolt(2) [OF an] have
    "mBoltAnimSrvOffsetInHeap s1 = word_of_nat ((x - 2) mod n + 3)"
    unfolding bolt_word [OF lo] n_def x_def by (simp only: if_True)
  then have eq: "unat (mBoltAnimSrvOffsetInHeap s1) = (x - 2) mod n + 3"
    by (simp only: bolt_store [OF n0 big])
  have x3: "3 \<le> x" using lo by (simp add: x_def)
  have same: "length (mBoltAnimTextures s1) = n"
    using AnimateMaterials_bolt(1) [OF an] by (simp add: n_def)
  have "x - 3 + 1 = x - 2" using x3 by simp
  then show "unat (mBoltAnimSrvOffsetInHeap s1) =
        (unat (mBoltAnimSrvOffsetInHeap s0) - 3 + 1) mod length (mBoltAnimTextures s0) + 3"
    using eq by (simp add: x_def n_def)
  have nxt: "(x - 2) mod n + 3 = (if x + 1 < 3 + n then x + 1 else 3)"
  proof (cases "x + 1 < 3 + n")
    case True
    then have "x - 2 < n" using x3 by simp
    then show ?thesis using True x3 by simp
  next
    case False
    then have "x - 2 = n" using hi x3 by simp
    then show ?thesis using False by simp
  qed
  show "unat (mBoltAnimSrvOffsetInHeap s1) =
        (if unat (mBoltAnimSrvOffsetInHeap s0) + 1 < 3 + length (mBoltAnimTextures s0)
         then unat (mBoltAnimSrvOffsetInHeap s0) + 1 else 3)"
    using eq nxt by (simp add: x_def n_def)
  show "3 \<le> unat (mBoltAnimSrvOffsetInHeap s1)"
    using eq by simp
  have "(x - 2) mod n < n" using n0 by simp
  then show "unat (mBoltAnimSrvOffsetInHeap s1) < 3 + length (mBoltAnimTextures s1)"
    using eq same by simp
  show "boltAnim_index s1 = Some (unat (mBoltAnimSrvOffsetInHeap s1))"
    using AnimateMaterials_bolt(3) [OF an] by simp
next
  assume a: "BlendApp_AnimateMaterials dt False s2 = Some s3"
  show "mBoltAnimSrvOffsetInHeap s3 = mBoltAnimSrvOffsetInHeap s2"
    using AnimateMaterials_bolt(2) [OF a] by simp
  show "boltAnim_index s3 = boltAnim_index s2"
    using AnimateMaterials_bolt(4) [OF a] by simp
next
  assume r: "run_with BlendApp_step es (BlendApp_Initialize d) = Some (s, t)"
  have inv: "blend_inv s"
    by (rule blend_inv_run [OF r blend_inv_Initialize])
  have "unat (mBoltAnimSrvOffsetInHeap (BlendApp_Initialize d)) = 3 + 0 mod 60"
    by (simp add: blend_defs Let_def)
  from bolt_run [OF r blend_inv_Initialize this]
  show k: "unat (mBoltAnimSrvOffsetInHeap s) = 3 + length (filter is_tick es) mod 60"
    by simp
  show n: "length (mBoltAnimTextures s) = 60"
    using inv by (simp add: blend_inv_def)
  show "3 \<le> unat (mBoltAnimSrvOffsetInHeap s)"
    using k by simp
  show "unat (mBoltAnimSrvOffsetInHeap s) < 3 + length (mBoltAnimTextures s)"
    using k n by simp
  show "boltAnim_index s = Some (unat (mBoltAnimSrvOffsetInHeap s))"
    by (rule boltAnim_index_inv [OF inv])
  show "\<exists>n. mSrvDescriptorHeap s = Some n \<and> unat (mBoltAnimSrvOffsetInHeap s) < n"
    using inv by (simp add: blend_inv_def)
qed

lemma blend_animate_ex:
  "\<exists>s1. BlendApp_AnimateMaterials 0 True
      (BlendApp_Initialize \<lparr>SwapChainBufferCount = 2, mCurrBackBuffer = 0, mCurrentFence = 1\<rparr>)
     = Some s1"
  by (simp add: blend_defs blend_step_defs Identity4x4_def)

lemma blend_animate_quiet_ex:
  "\<exists>s1. BlendApp_AnimateMaterials 0 False
      (BlendApp_Initialize \<lparr>SwapChainBufferCount = 2, mCurrBackBuffer = 0, mCurrentFence = 1\<rparr>)
     = Some s1"
  by (simp add: blend_defs blend_step_defs Identity4x4_def)

theorem bolt_offset_cycles_witness:
  "(\<exists>s1. BlendApp_AnimateMaterials 0 True
      (BlendApp_Initialize \<lparr>SwapChainBufferCount = 2, mCurrBackBuffer = 0, mCurrentFence = 1\<rparr>)
      = Some s1 \<and> unat (mBoltAnimSrvOffsetInHeap s1) = 4 \<and> boltAnim_index s1 = Some 4) \<and>
   (\<exists>s3. BlendApp_AnimateMaterials 0 False
      (BlendApp_Initialize \<lparr>SwapChainBufferCount = 2, mCurrBackBuffer = 0, mCurrentFence = 1\<rparr>)
      = Some s3 \<and> mBoltAnimSrvOffsetInHeap s3 = 3) \<and>
   (\<exists>s t. run_with BlendApp_step [Blend_Update 0 True 1, Blend_Draw, Blend_Update 0 True 1]
      (BlendApp_Initialize \<lparr>SwapChainBufferCount = 2, mCurrBackBuffer = 0, mCurrentFence = 1\<rparr>)
      = Some (s, t) \<and> unat (mBoltAnimSrvOffsetInHeap s) = 5 \<and> boltAnim_index s = Some 5)"
proof -
  let ?d = "\<lparr>SwapChainBufferCount = 2, mCurrBackBuffer = 0, mCurrentFence = 1\<rparr>"
  obtain s1 where s1: "BlendApp_AnimateMaterials 0 True (BlendApp_Initialize ?d) = Some s1"
    using blend_animate_ex by blast
  obtain s3 where s3: "BlendApp_AnimateMaterials 0 False (BlendApp_Initialize ?d) = Some s3"
    using blend_animate_quiet_ex by blast
  obtain s t where r: "run_with BlendApp_step
      [Blend_Update 0 True 1, Blend_Draw, Blend_Update 0 True 1] (BlendApp_Initialize ?d)
      = Some (s, t)"
    using blend_run_ex by blast
  note T = bolt_offset_cycles [where d = ?d and dt = 0 and ?s0.0 = "BlendApp_Initialize ?d"
      and ?s1.0 = s1 and ?s2.0 = "BlendApp_Initialize ?d" and ?s3.0 = s3
      and es = "[Blend_Update 0 True 1, Blend_Draw, Blend_Update 0 True 1]" and s = s and t = t]
  have i: "mBoltAnimSrvOffsetInHeap (BlendApp_Initialize ?d) = 3"
    "length (mBoltAnimTextures (BlendApp_Initialize ?d)) = 60"
    using T by simp_all
  have "unat (mBoltAnimSrvOffsetInHeap s1) = 4 \<and> boltAnim_index s1 = Some 4"
    using T s1 i by simp
  moreover have "mBoltAnimSrvOffsetInHeap s3 = 3"
    using T s3 i by simp
  moreover have "unat (mBoltAnimSrvOffsetInHeap s) = 5 \<and> boltAnim_index s = Some 5"
    using T r by simp
  ultimately show ?thesis
    using s1 s3 r by blast
qed

lemma blend_frames:
  assumes "blend_inv s"
  shows "\<exists>f0 f1 f2. mFrameResources s = [f0, f1, f2] \<and>
           objectCount f0 = 4 \<and> objectCount f1 = 4 \<and> objectCount f2 = 4 \<and>
           materialCount f0 = 4 \<and> materialCount f1 = 4 \<and> materialCount f2 = 4"
proof -
  from assms have
    a: "map objectCount (mFrameResources s) = [4, 4, 4]" and
    b: "map materialCount (mFrameResources s) = [4, 4, 4]"
    by (simp_all add: blend_inv_def)
  from a obtain f0 f1 f2 where
    fs: "mFrameResources s = [f0, f1, f2]"
    by (auto simp: map_eq_Cons_conv)
  show ?thesis
    using a b unfolding fs by simp
qed

section \<open>The indices used by Draw of BlendApp\<close>

text \<open>
  C7. In every state that the callbacks of BlendApp reach from Initialize, for each render
  layer, DrawRenderItems on the layer dereferences only render items, geometries and
  materials that exist, and for each render item it draws: \<open>DiffuseSrvHeapIndex\<close> of its
  material is less than \<open>NumDescriptors\<close> of the SRV heap, \<open>ObjCBIndex\<close> is less than
  \<open>mAllRitems.size()\<close> and \<open>MatCBIndex\<close> of its material is less than
  \<open>mMaterials.size()\<close>, which are the element counts of the object and the material
  buffer of each of the three frame resources; so an element of any size at these indices
  ends within the buffer.
\<close>

theorem draw_indices_valid:
  "run_with BlendApp_step es (BlendApp_Initialize d) = Some (s, t) \<longrightarrow>
     (\<exists>n. mSrvDescriptorHeap s = Some n \<and>
        length (mFrameResources s) = 3 \<and>
        list_all (\<lambda>fr. unat (objectCount fr) = length (mAllRitems s) \<and>
                        unat (materialCount fr) = length (mMaterials s)) (mFrameResources s) \<and>
        (\<forall>layer. \<exists>ix calls.
            DrawRenderItems_indices s (mRitemLayer s layer) = Some ix \<and>
            DrawRenderItems s (mRitemLayer s layer) = Some calls \<and>
            list_all (\<lambda>(tex, obj, mat).
                tex < n \<and> obj < length (mAllRitems s) \<and> mat < length (mMaterials s) \<and>
                list_all (\<lambda>fr. obj < unat (objectCount fr) \<and> mat < unat (materialCount fr) \<and>
                            (\<forall>b. obj * b + b \<le> unat (objectCount fr) * b \<and>
                                 mat * b + b \<le> unat (materialCount fr) * b))
                  (mFrameResources s)) ix))"
proof
  assume r: "run_with BlendApp_step es (BlendApp_Initialize d) = Some (s, t)"
  have inv: "blend_inv s"
    by (rule blend_inv_run [OF r blend_inv_Initialize])
  from blend_frames [OF inv] obtain f0 f1 f2 where
    fs: "mFrameResources s = [f0, f1, f2]"
      "objectCount f0 = 4" "objectCount f1 = 4" "objectCount f2 = 4"
      "materialCount f0 = 4" "materialCount f1 = 4" "materialCount f2 = 4"
    by blast
  from blend_items [OF inv] have li: "length (mAllRitems s) = 4"
    by auto
  from blend_materials [OF inv] have lm: "length (mMaterials s) = 4"
    by auto
  from inv have heap: "mSrvDescriptorHeap s = Some 64" and
    off: "unat (mBoltAnimSrvOffsetInHeap s) < 63"
    by (simp_all add: blend_inv_def)
  have layers: "\<exists>ix calls.
            DrawRenderItems_indices s (mRitemLayer s layer) = Some ix \<and>
            DrawRenderItems s (mRitemLayer s layer) = Some calls \<and>
            list_all (\<lambda>(tex, obj, mat).
                tex < 64 \<and> obj < length (mAllRitems s) \<and> mat < length (mMaterials s) \<and>
                list_all (\<lambda>fr. obj < unat (objectCount fr) \<and> mat < unat (materialCount fr) \<and>
                            (\<forall>b. obj * b + b \<le> unat (objectCount fr) * b \<and>
                                 mat * b + b \<le> unat (materialCount fr) * b))
                  (mFrameResources s)) ix" for layer
  proof -
    note ix = blend_layer_indices [OF inv, of layer]
    then have "DrawRenderItems s (mRitemLayer s layer) \<noteq> None"
      by (simp add: DrawRenderItems_defined)
    then obtain calls where c: "DrawRenderItems s (mRitemLayer s layer) = Some calls"
      by blast
    show ?thesis
      unfolding ix c using off by (cases layer) (simp_all add: li lm fs)
  qed
  show "\<exists>n. mSrvDescriptorHeap s = Some n \<and>
        length (mFrameResources s) = 3 \<and>
        list_all (\<lambda>fr. unat (objectCount fr) = length (mAllRitems s) \<and>
                        unat (materialCount fr) = length (mMaterials s)) (mFrameResources s) \<and>
        (\<forall>layer. \<exists>ix calls.
            DrawRenderItems_indices s (mRitemLayer s layer) = Some ix \<and>
            DrawRenderItems s (mRitemLayer s layer) = Some calls \<and>
            list_all (\<lambda>(tex, obj, mat).
                tex < n \<and> obj < length (mAllRitems s) \<and> mat < length (mMaterials s) \<and>
                list_all (\<lambda>fr. obj < unat (objectCount fr) \<and> mat < unat (materialCount fr) \<and>
                            (\<forall>b. obj * b + b \<le> unat (objectCount fr) * b \<and>
                                 mat * b + b \<le> unat (materialCount fr) * b))
                  (mFrameResources s)) ix)"
  proof (intro exI [of _ 64] conjI allI)
    show "mSrvDescriptorHeap s = Some 64" by (rule heap)
    show "length (mFrameResources s) = 3" by (simp add: fs)
    show "list_all (\<lambda>fr. unat (objectCount fr) = length (mAllRitems s) \<and>
                        unat (materialCount fr) = length (mMaterials s)) (mFrameResources s)"
      by (simp add: fs li lm)
  next
    fix layer
    show "\<exists>ix calls.
            DrawRenderItems_indices s (mRitemLayer s layer) = Some ix \<and>
            DrawRenderItems s (mRitemLayer s layer) = Some calls \<and>
            list_all (\<lambda>(tex, obj, mat).
                tex < 64 \<and> obj < length (mAllRitems s) \<and> mat < length (mMaterials s) \<and>
                list_all (\<lambda>fr. obj < unat (objectCount fr) \<and> mat < unat (materialCount fr) \<and>
                            (\<forall>b. obj * b + b \<le> unat (objectCount fr) * b \<and>
                                 mat * b + b \<le> unat (materialCount fr) * b))
                  (mFrameResources s)) ix"
      by (rule layers)
  qed
qed

lemma blend_draw_time_ex:
  "\<exists>s t. run_with BlendApp_step [Blend_Update 0 True 1]
      (BlendApp_Initialize \<lparr>SwapChainBufferCount = 2, mCurrBackBuffer = 0, mCurrentFence = 1\<rparr>)
      = Some (s, t) \<and>
     DrawRenderItems_indices s (mRitemLayer s AnimatedBolt) = Some [(4, 3, 3)] \<and>
     DrawRenderItems_indices s (mRitemLayer s Transparent) = Some [(1, 0, 1)]"
  by (simp add: blend_defs blend_step_defs Identity4x4_def)

theorem draw_indices_valid_witness:
  "\<exists>s t n. run_with BlendApp_step [Blend_Update 0 True 1]
      (BlendApp_Initialize \<lparr>SwapChainBufferCount = 2, mCurrBackBuffer = 0, mCurrentFence = 1\<rparr>)
      = Some (s, t) \<and>
     mSrvDescriptorHeap s = Some n \<and>
     DrawRenderItems_indices s (mRitemLayer s AnimatedBolt) = Some [(4, 3, 3)] \<and>
     4 < n \<and> 3 < length (mAllRitems s) \<and> 3 < length (mMaterials s) \<and>
     list_all (\<lambda>fr. 3 < unat (objectCount fr) \<and> 3 < unat (materialCount fr))
       (mFrameResources s)"
proof -
  let ?d = "\<lparr>SwapChainBufferCount = 2, mCurrBackBuffer = 0, mCurrentFence = 1\<rparr>"
  obtain s t where
    r: "run_with BlendApp_step [Blend_Update 0 True 1] (BlendApp_Initialize ?d) = Some (s, t)" and
    ix: "DrawRenderItems_indices s (mRitemLayer s AnimatedBolt) = Some [(4, 3, 3)]"
    using blend_draw_time_ex by blast
  from draw_indices_valid [of "[Blend_Update 0 True 1]" ?d s t] r obtain n where
    n: "mSrvDescriptorHeap s = Some n" and
    l: "\<forall>layer. \<exists>ix calls.
            DrawRenderItems_indices s (mRitemLayer s layer) = Some ix \<and>
            DrawRenderItems s (mRitemLayer s layer) = Some calls \<and>
            list_all (\<lambda>(tex, obj, mat).
                tex < n \<and> obj < length (mAllRitems s) \<and> mat < length (mMaterials s) \<and>
                list_all (\<lambda>fr. obj < unat (objectCount fr) \<and> mat < unat (materialCount fr) \<and>
                            (\<forall>b. obj * b + b \<le> unat (objectCount fr) * b \<and>
                                 mat * b + b \<le> unat (materialCount fr) * b))
                  (mFrameResources s)) ix"
    by blast
  from l [rule_format, of AnimatedBolt] ix have
    "4 < n \<and> 3 < length (mAllRitems s) \<and> 3 < length (mMaterials s) \<and>
     list_all (\<lambda>fr. 3 < unat (objectCount fr) \<and> 3 < unat (materialCount fr))
       (mFrameResources s)"
    by (auto simp: list_all_iff)
  with r n ix show ?thesis
    by blast
qed






section \<open>The orbit camera stays in its bounds\<close>



lemma length_modify [simp]: "length (modify k f m) = length m"
  by (simp add: modify_def)




















section \<open>Entities created after Initialize\<close>





lemma advance_clean:
  assumes "0 \<le> i" "i < 3"
  shows "(advance ^^ k) (i, 0, cs) = ((i + int k) mod 3, 0, cs)"
proof (induction k)
  case 0
  then show ?case using assms by simp
next
  case (Suc k)
  have "((i + int k) mod 3 + 1) mod 3 = (i + int (Suc k)) mod 3"
    by presburger
  then show ?case
    using Suc by (simp add: advance_def)
qed

lemma three_cases:
  fixes i :: int
  assumes "0 \<le> i" "i < 3"
  shows "i = 0 \<or> i = 1 \<or> i = 2"
  using assms by presburger

lemma length3: "length cs = 3 \<Longrightarrow> \<exists>a b c. cs = [a, b, c]"
  by (cases cs; cases "tl cs"; cases "tl (tl cs)") auto

lemma advance_once:
  "advance (0, n, [a, b, c]) = (1, (if n > 0 then n - 1 else n), (if n > 0 then [a, b + 1, c] else [a, b, c]))"
  "advance (1, n, [a, b, c]) = (2, (if n > 0 then n - 1 else n), (if n > 0 then [a, b, c + 1] else [a, b, c]))"
  "advance (2, n, [a, b, c]) = (0, (if n > 0 then n - 1 else n), (if n > 0 then [a + 1, b, c] else [a, b, c]))"
  by (simp_all add: advance_def)

lemma advance_three:
  assumes "0 \<le> i" "i < 3" "length cs = 3"
  shows "(advance ^^ 3) (i, 3, cs) = (i, 0, map Suc cs)"
proof -
  from length3 [OF assms(3)] obtain a b c where cs: "cs = [a, b, c]"
    by blast
  from three_cases [OF assms(1,2)] show ?thesis
    by (auto simp: cs numeral_3_eq_3 advance_once)
qed

lemma advance_many:
  assumes "0 \<le> i" "i < 3" "length cs = 3" "3 \<le> k"
  shows "(advance ^^ k) (i, 3, cs) = ((i + int k) mod 3, 0, map Suc cs)"
proof -
  have "k = (k - 3) + 3" using assms(4) by simp
  then have "(advance ^^ k) (i, 3, cs) = (advance ^^ (k - 3)) ((advance ^^ 3) (i, 3, cs))"
    by (metis funpow_add comp_apply)
  also have "\<dots> = ((i + int (k - 3)) mod 3, 0, map Suc cs)"
    by (simp only: advance_three [OF assms(1-3)] advance_clean [OF assms(1,2)])
  also have "(i + int (k - 3)) mod 3 = (i + int k) mod 3"
    using assms(4) by presburger
  finally show ?thesis .
qed

lemma advance_few:
  assumes "0 \<le> i" "i < 3" "length cs = 3" "k \<le> 3"
  shows "\<exists>cs'. (advance ^^ k) (i, 3, cs) = ((i + int k) mod 3, 3 - int k, cs') \<and>
           length cs' = 3 \<and> sum_list cs' = sum_list cs + k \<and>
           (\<forall>m<3. cs ! m \<le> cs' ! m \<and> cs' ! m \<le> cs ! m + 1)"
proof -
  from length3 [OF assms(3)] obtain a b c where cs: "cs = [a, b, c]"
    by blast
  from assms(4) have k: "k = 0 \<or> k = 1 \<or> k = 2 \<or> k = 3"
    by presburger
  have all3: "(\<forall>m<3. P m) = (P 0 \<and> P 1 \<and> P (2::nat))" for P
    by (auto simp: less_Suc_eq numeral_3_eq_3 numeral_2_eq_2)
  from three_cases [OF assms(1,2)] k show ?thesis
    unfolding all3
    by (elim disjE) (simp_all add: cs numeral_3_eq_3 numeral_2_eq_2 advance_once)
qed

lemma run_advance:
  assumes stp: "\<And>e s s' t. Q s \<Longrightarrow> ok e \<Longrightarrow> f e s = Some (s', t) \<Longrightarrow>
      Q s' \<and> ob s' = (if upd e then advance (ob s) else ob s)"
  shows "Q s \<Longrightarrow> list_all ok es \<Longrightarrow> run_with f es s = Some (s', t) \<Longrightarrow>
      Q s' \<and> ob s' = (advance ^^ length (filter upd es)) (ob s)"
proof (induction es arbitrary: s t)
  case Nil
  then show ?case by simp
next
  case (Cons e es)
  from Cons.prems(3) obtain s1 t1 t2 where
    e: "f e s = Some (s1, t1)" and r: "run_with f es s1 = Some (s', t2)"
    by (auto split: option.splits)
  from Cons.prems(2) have ok: "ok e" "list_all ok es"
    by simp_all
  note st = stp [OF Cons.prems(1) ok(1) e]
  note ih = Cons.IH [OF conjunct1 [OF st] ok(2) r]
  show ?case
  proof (cases "upd e")
    case True
    then show ?thesis
      using ih st by (simp add: funpow_swap1)
  next
    case False
    then show ?thesis
      using ih st by simp
  qed
qed

lemma copies_append:
  "length (filter (\<lambda>p. fst p = x) (cb @ map g es)) =
     length (filter (\<lambda>p. fst p = x) cb) + length (filter (\<lambda>e. fst (g e) = x) es)"
  by (simp add: filter_map comp_def)

lemma UpdateObjectCBs_copies:
  assumes u: "UpdateObjectCBs s = Some s'"
  shows "\<exists>i. mCurrFrameResource s = Some i \<and> i < length (mFrameResources s) \<and>
           object_copies x s' =
             (object_copies x s)
               [i := object_copies x s ! i +
                     length (filter (\<lambda>e. ObjCBIndex e = x)
                               (filter (\<lambda>e. RenderItem.NumFramesDirty e > 0) (mAllRitems s)))] \<and>
           material_copies y s' = material_copies y s"
proof -
  from UpdateObjectCBs_effect [OF u] obtain i where
    i: "mCurrFrameResource s = Some i" "i < length (mFrameResources s)" and
    s': "s' = s\<lparr>mFrameResources := (mFrameResources s)
                    [i := (mFrameResources s ! i)
                       \<lparr>ObjectCB := fst (UpdateObjectCBs_loop (ObjectCB (mFrameResources s ! i))
                                          (mAllRitems s))\<rparr>],
                  mAllRitems := map RenderItem_copied (mAllRitems s)\<rparr>"
    by blast
  have "object_copies x s' =
             (object_copies x s)
               [i := object_copies x s ! i +
                     length (filter (\<lambda>e. ObjCBIndex e = x)
                               (filter (\<lambda>e. RenderItem.NumFramesDirty e > 0) (mAllRitems s)))]"
    using i(2)
    by (simp add: s' object_copies_def map_update UpdateObjectCBs_loop_fst copies_append)
  moreover have "material_copies y s' = material_copies y s"
    by (simp add: s' material_copies_def map_update_same)
  ultimately show ?thesis
    using i by blast
qed

lemma UpdateMaterialCBs_copies:
  assumes u: "UpdateMaterialCBs s = Some s'"
  shows "\<exists>i. mCurrFrameResource s = Some i \<and> i < length (mFrameResources s) \<and>
           material_copies x s' =
             (material_copies x s)
               [i := material_copies x s ! i +
                     length (filter (\<lambda>p. MatCBIndex (snd p) = x)
                               (filter (\<lambda>p. Material.NumFramesDirty (snd p) > 0)
                                  (mMaterials s)))] \<and>
           object_copies y s' = object_copies y s"
proof -
  from UpdateMaterialCBs_effect [OF u] obtain i where
    i: "mCurrFrameResource s = Some i" "i < length (mFrameResources s)" and
    s': "s' = s\<lparr>mFrameResources := (mFrameResources s)
                    [i := (mFrameResources s ! i)
                       \<lparr>MaterialCB := fst (UpdateMaterialCBs_loop (MaterialCB (mFrameResources s ! i))
                                          (mMaterials s))\<rparr>],
                  mMaterials := map (\<lambda>(k, m). (k, Material_copied m)) (mMaterials s)\<rparr>"
    by blast
  have "material_copies x s' =
             (material_copies x s)
               [i := material_copies x s ! i +
                     length (filter (\<lambda>p. MatCBIndex (snd p) = x)
                               (filter (\<lambda>p. Material.NumFramesDirty (snd p) > 0)
                                  (mMaterials s)))]"
    using i(2)
    by (simp add: s' material_copies_def map_update UpdateMaterialCBs_loop_fst copies_append
        case_prod_beta)
  moreover have "object_copies y s' = object_copies y s"
    by (simp add: s' object_copies_def map_update_same)
  ultimately show ?thesis
    using i by blast
qed

lemma copies_cycle:
  "cycle_frame_resource s = Some s' \<Longrightarrow>
     object_copies x s' = object_copies x s \<and> material_copies y s' = material_copies y s"
  using cycle_effect [of s s'] by (auto simp: object_copies_def material_copies_def)

lemma copies_submit:
  "submit_and_signal s = Some (s', t) \<Longrightarrow>
     object_copies x s' = object_copies x s \<and> material_copies y s' = material_copies y s"
  using submit_effect [of s s' t]
  by (auto simp: object_copies_def material_copies_def map_update_same)

lemma dirty_ok_cycle: "cycle_frame_resource s = Some s' \<Longrightarrow> dirty_ok s \<Longrightarrow> dirty_ok s'"
  using cycle_effect [of s s'] by (auto simp: dirty_ok_def)

lemma dirty_ok_submit: "submit_and_signal s = Some (s', t) \<Longrightarrow> dirty_ok s \<Longrightarrow> dirty_ok s'"
  using submit_effect [of s s' t] by (auto simp: dirty_ok_def)

lemma dirty_ok_UpdateObjectCBs: "UpdateObjectCBs s = Some s' \<Longrightarrow> dirty_ok s \<Longrightarrow> dirty_ok s'"
  using UpdateObjectCBs_effect [of s s']
  by (force simp: dirty_ok_def list_all_iff RenderItem_copied_def)

lemma dirty_ok_UpdateMaterialCBs: "UpdateMaterialCBs s = Some s' \<Longrightarrow> dirty_ok s \<Longrightarrow> dirty_ok s'"
  using UpdateMaterialCBs_effect [of s s']
  by (force simp: dirty_ok_def list_all_iff Material_copied_def)

lemma filter_unique:
  "distinct (map f es) \<Longrightarrow> k < length es \<Longrightarrow> filter (\<lambda>e. f e = f (es ! k)) es = [es ! k]"
proof (induction es arbitrary: k)
  case Nil
  then show ?case by simp
next
  case (Cons a es)
  show ?case
  proof (cases k)
    case 0
    have "f a \<notin> f ` set es"
      using Cons.prems(1) by simp
    then have "\<forall>e\<in>set es. f e \<noteq> f a"
      by (metis imageI)
    then have "filter (\<lambda>e. f e = f a) es = []"
      by (simp add: filter_empty_conv)
    then show ?thesis
      using 0 by simp
  next
    case (Suc k')
    then have k': "k' < length es"
      using Cons.prems(2) by simp
    then have "es ! k' \<in> set es"
      by simp
    then have "f a \<noteq> f (es ! k')"
      using Cons.prems(1) by auto
    then show ?thesis
      using Suc Cons.IH [OF _ k'] Cons.prems(1) by simp
  qed
qed

lemma count_unique:
  assumes "distinct (map f es)" "k < length es"
  shows "length (filter (\<lambda>e. f e = f (es ! k)) (filter P es)) = (if P (es ! k) then 1 else 0)"
proof -
  have "filter (\<lambda>e. f e = f (es ! k)) (filter P es) = filter P (filter (\<lambda>e. f e = f (es ! k)) es)"
    by (simp add: conj_commute)
  then show ?thesis
    by (simp add: filter_unique [OF assms])
qed

lemma cycle_ring:
  assumes c: "cycle_frame_resource s = Some s'" and
    r: "0 \<le> mCurrFrameResourceIndex s" "mCurrFrameResourceIndex s < 3"
  shows "s' = s\<lparr>mCurrFrameResourceIndex := (mCurrFrameResourceIndex s + 1) mod 3,
                 mCurrFrameResource := Some (nat ((mCurrFrameResourceIndex s + 1) mod 3))\<rparr>"
  using c r
  by (auto simp: cycle_frame_resource_def Let_def gNumFrameResources_def smod3 split: if_splits)

lemma UpdateObjectCBs_item:
  assumes u: "UpdateObjectCBs s = Some s'" and
    d: "distinct (map ObjCBIndex (mAllRitems s))" and k: "k < length (mAllRitems s)" and
    i: "mCurrFrameResource s = Some i" and x: "ObjCBIndex (mAllRitems s ! k) = x"
  shows "item_ob k x s' =
           (mCurrFrameResourceIndex s,
            (if RenderItem.NumFramesDirty (mAllRitems s ! k) > 0
             then RenderItem.NumFramesDirty (mAllRitems s ! k) - 1
             else RenderItem.NumFramesDirty (mAllRitems s ! k)),
            (if RenderItem.NumFramesDirty (mAllRitems s ! k) > 0
             then (object_copies x s)[i := object_copies x s ! i + 1]
             else object_copies x s))"
proof -
  from UpdateObjectCBs_copies [OF u, of x 0] i have
    c: "object_copies x s' =
          (object_copies x s)
            [i := object_copies x s ! i +
                  length (filter (\<lambda>e. ObjCBIndex e = x)
                            (filter (\<lambda>e. RenderItem.NumFramesDirty e > 0) (mAllRitems s)))]"
    by auto
  have n: "length (filter (\<lambda>e. 0 < RenderItem.NumFramesDirty e \<and> ObjCBIndex e = x)
                     (mAllRitems s)) =
           (if RenderItem.NumFramesDirty (mAllRitems s ! k) > 0 then 1 else 0)"
    using count_unique [OF d k, of "\<lambda>e. RenderItem.NumFramesDirty e > 0"] by (simp add: x)
  from UpdateObjectCBs_effect [OF u] have
    "mAllRitems s' = map RenderItem_copied (mAllRitems s)"
    "mCurrFrameResourceIndex s' = mCurrFrameResourceIndex s"
    by auto
  then show ?thesis
    using k by (simp add: item_ob_def c n RenderItem_copied_def)
qed

lemma UpdateMaterialCBs_material:
  assumes u: "UpdateMaterialCBs s = Some s'" and
    d: "distinct (map (\<lambda>p. MatCBIndex (snd p)) (mMaterials s))" and
    k: "k < length (mMaterials s)" and
    i: "mCurrFrameResource s = Some i" and x: "MatCBIndex (snd (mMaterials s ! k)) = x"
  shows "material_ob k x s' =
           (mCurrFrameResourceIndex s,
            (if Material.NumFramesDirty (snd (mMaterials s ! k)) > 0
             then Material.NumFramesDirty (snd (mMaterials s ! k)) - 1
             else Material.NumFramesDirty (snd (mMaterials s ! k))),
            (if Material.NumFramesDirty (snd (mMaterials s ! k)) > 0
             then (material_copies x s)[i := material_copies x s ! i + 1]
             else material_copies x s))"
proof -
  from UpdateMaterialCBs_copies [OF u, of x 0] i have
    c: "material_copies x s' =
          (material_copies x s)
            [i := material_copies x s ! i +
                  length (filter (\<lambda>p. MatCBIndex (snd p) = x)
                            (filter (\<lambda>p. Material.NumFramesDirty (snd p) > 0) (mMaterials s)))]"
    by auto
  have n: "length (filter (\<lambda>p. 0 < Material.NumFramesDirty (snd p) \<and> MatCBIndex (snd p) = x)
                     (mMaterials s)) =
           (if Material.NumFramesDirty (snd (mMaterials s ! k)) > 0 then 1 else 0)"
    using count_unique [OF d k, of "\<lambda>p. Material.NumFramesDirty (snd p) > 0"] by (simp add: x)
  from UpdateMaterialCBs_effect [OF u] have
    "mMaterials s' = map (\<lambda>(k, m). (k, Material_copied m)) (mMaterials s)"
    "mCurrFrameResourceIndex s' = mCurrFrameResourceIndex s"
    by auto
  then show ?thesis
    using k by (simp add: material_ob_def c n Material_copied_def case_prod_beta)
qed

lemma UpdateObjectCBs_material_ob:
  assumes u: "UpdateObjectCBs s = Some s'"
  shows "material_ob k x s' = material_ob k x s"
  using UpdateObjectCBs_copies [OF u, of 0 x] UpdateObjectCBs_effect [OF u]
  by (auto simp: material_ob_def)

lemma UpdateMaterialCBs_item_ob:
  assumes u: "UpdateMaterialCBs s = Some s'"
  shows "item_ob k x s' = item_ob k x s"
  using UpdateMaterialCBs_copies [OF u, of 0 x] UpdateMaterialCBs_effect [OF u]
  by (auto simp: item_ob_def)

lemma submit_ob:
  assumes u: "submit_and_signal s = Some (s', t)"
  shows "item_ob k x s' = item_ob k x s" "material_ob k y s' = material_ob k y s"
  using copies_submit [OF u, of x y] submit_effect [OF u]
  by (auto simp: item_ob_def material_ob_def)

lemma crate_inv_Initialize: "crate_inv (CrateApp_Initialize d)"
  by (simp add: crate_inv_def crate_defs upt_rec replicate3)

lemma dirty_ok_CrateApp_Initialize: "dirty_ok (CrateApp_Initialize d)"
  by (simp add: dirty_ok_def crate_defs)

lemma dirty_ok_BlendApp_Initialize: "dirty_ok (BlendApp_Initialize d)"
  by (simp add: dirty_ok_def blend_defs Let_def)

lemma CrateApp_AnimateMaterials_effect:
  assumes "CrateApp_AnimateMaterials m2 s = Some s'" "mOpaqueRitems s = [0, 1]"
  shows "s' = s\<lparr>mAllRitems :=
                   (mAllRitems s)
                     [1 := (mAllRitems s ! 1)\<lparr>TexTransform := m2,
                            RenderItem.NumFramesDirty := gNumFrameResources\<rparr>]\<rparr>"
  using assms by (auto simp: CrateApp_AnimateMaterials_def Let_def split: if_splits)

lemma list_all_update: "list_all P xs \<Longrightarrow> P x \<Longrightarrow> list_all P (xs[i := x])"
  by (induction xs arbitrary: i) (auto split: nat.splits)

lemma dirty_ok_CrateApp_AnimateMaterials:
  assumes "CrateApp_AnimateMaterials m2 s = Some s'" "dirty_ok s"
  shows "dirty_ok s'"
proof -
  from assms(1) obtain k where
    "s' = s\<lparr>mAllRitems :=
              (mAllRitems s)
                [k := (mAllRitems s ! k)\<lparr>TexTransform := m2,
                       RenderItem.NumFramesDirty := gNumFrameResources\<rparr>]\<rparr>"
    by (auto simp: CrateApp_AnimateMaterials_def Let_def split: if_splits)
  then show ?thesis
    using assms(2) by (simp add: dirty_ok_def list_all_update gNumFrameResources_def)
qed

lemma dirty_ok_ScaleTexTransform: "dirty_ok s \<Longrightarrow> dirty_ok (ScaleTexTransform x s)"
  by (simp add: dirty_ok_def ScaleTexTransform_def Let_def list_all_iff gNumFrameResources_def)

lemma CrateApp_OnKeyDown_cases:
  "CrateApp_OnKeyDown w s =
     (if w = 0x31 then ScaleTexTransform 0.01 s
      else if w = 0x32 then ScaleTexTransform (- 0.01) s
      else CrateApp_OnKeyDown w s) \<and>
   (w \<noteq> 0x31 \<and> w \<noteq> 0x32 \<longrightarrow>
      mAllRitems (CrateApp_OnKeyDown w s) = mAllRitems s) \<and>
   mMaterials (CrateApp_OnKeyDown w s) = mMaterials s \<and>
   mFrameResources (CrateApp_OnKeyDown w s) = mFrameResources s \<and>
   mCurrFrameResourceIndex (CrateApp_OnKeyDown w s) = mCurrFrameResourceIndex s \<and>
   mOpaqueRitems (CrateApp_OnKeyDown w s) = mOpaqueRitems s"
  by (simp add: CrateApp_OnKeyDown_def ScaleTexTransform_def ChangeSamplerFilter_def
      ChangeSamplerAddressMode_def MarkSamplerDirty_def Let_def)

lemma dirty_ok_CrateApp_OnKeyDown: "dirty_ok s \<Longrightarrow> dirty_ok (CrateApp_OnKeyDown w s)"
proof -
  assume d: "dirty_ok s"
  note c = CrateApp_OnKeyDown_cases [of w s]
  show ?thesis
  proof (cases "w = 0x31 \<or> w = 0x32")
    case True
    then show ?thesis
      using c d dirty_ok_ScaleTexTransform by auto
  next
    case False
    then show ?thesis
      using c d by (simp add: dirty_ok_def)
  qed
qed

lemma crate_inv_ScaleTexTransform: "crate_inv s \<Longrightarrow> crate_inv (ScaleTexTransform x s)"
  by (simp add: crate_inv_def ScaleTexTransform_def Let_def comp_def)

lemma crate_inv_CrateApp_OnKeyDown: "crate_inv s \<Longrightarrow> crate_inv (CrateApp_OnKeyDown w s)"
proof -
  assume d: "crate_inv s"
  note c = CrateApp_OnKeyDown_cases [of w s]
  show ?thesis
  proof (cases "w = 0x31 \<or> w = 0x32")
    case True
    then show ?thesis
      using c d crate_inv_ScaleTexTransform by auto
  next
    case False
    then show ?thesis
      using c d by (simp add: crate_inv_def)
  qed
qed

lemma CrateApp_Update_propagates:
  assumes inv: "crate_inv s" and u: "CrateApp_Update m2 c s = Some (s', t)"
  shows "crate_inv s'"
    and "item_ob 0 0 s' = advance (item_ob 0 0 s)"
    and "k < 2 \<Longrightarrow> material_ob k k s' = advance (material_ob k k s)"
    and "dirty_ok s \<Longrightarrow> dirty_ok s'"
proof -
  from u obtain s1 s2 s3 s4 where
    c: "cycle_frame_resource s = Some s1" and
    a: "CrateApp_AnimateMaterials m2 s1 = Some s2" and
    ob: "UpdateObjectCBs s2 = Some s3" and
    m: "UpdateMaterialCBs s3 = Some s4" and
    s': "s' = fst (UpdateSampler s4)"
    by (auto simp: CrateApp_Update_def split: option.splits)
  define j where "j = (mCurrFrameResourceIndex s + 1) mod 3"
  from inv have r: "0 \<le> mCurrFrameResourceIndex s" "mCurrFrameResourceIndex s < 3" and
    ix: "map ObjCBIndex (mAllRitems s) = [0, 1]" and
    mx: "map (\<lambda>p. MatCBIndex (snd p)) (mMaterials s) = [0, 1]" and
    op: "mOpaqueRitems s = [0, 1]" and fr: "length (mFrameResources s) = 3"
    by (simp_all add: crate_inv_def)
  have j: "0 \<le> j" "j < 3"
    by (simp_all add: j_def)
  have s1: "s1 = s\<lparr>mCurrFrameResourceIndex := j, mCurrFrameResource := Some (nat j)\<rparr>"
    using cycle_ring [OF c r] by (simp add: j_def)
  have i1: "crate_inv s1"
    using inv j by (simp add: s1 crate_inv_def)
  have s2: "s2 = s1\<lparr>mAllRitems :=
                   (mAllRitems s1)
                     [1 := (mAllRitems s1 ! 1)\<lparr>TexTransform := m2,
                            RenderItem.NumFramesDirty := gNumFrameResources\<rparr>]\<rparr>"
    by (rule CrateApp_AnimateMaterials_effect [OF a]) (simp add: s1 op)
  have ix2: "map ObjCBIndex (mAllRitems s2) = [0, 1]"
    using ix by (simp add: s2 s1 map_update_same)
  have i2: "crate_inv s2"
    using i1 ix2 by (simp add: s2 crate_inv_def)
  from ix have items: "length (mAllRitems s) = 2" "ObjCBIndex (mAllRitems s ! 0) = 0"
    by (auto simp: map_eq_Cons_conv)
  have it2: "mAllRitems s2 ! 0 = mAllRitems s ! 0" "length (mAllRitems s2) = 2"
    using items by (simp_all add: s2 s1)
  from UpdateObjectCBs_effect [OF ob] obtain i cb where
    s3: "s3 = s2\<lparr>mFrameResources := (mFrameResources s2)[i := (mFrameResources s2 ! i)\<lparr>ObjectCB := cb\<rparr>],
                 mAllRitems := map RenderItem_copied (mAllRitems s2)\<rparr>"
    by blast
  have i3: "crate_inv s3"
    using i2 by (simp add: s3 crate_inv_def comp_def)
  from UpdateMaterialCBs_effect [OF m] obtain i' cb' where
    s4: "s4 = s3\<lparr>mFrameResources := (mFrameResources s3)[i' := (mFrameResources s3 ! i')\<lparr>MaterialCB := cb'\<rparr>],
                 mMaterials := map (\<lambda>(k, m). (k, Material_copied m)) (mMaterials s3)\<rparr>"
    by blast
  have i4: "crate_inv s4"
    using i3 by (simp add: s4 crate_inv_def comp_def case_prod_beta)
  show "crate_inv s'"
    using i4 by (simp add: s' UpdateSampler_def crate_inv_def)
  have o3: "item_ob 0 0 s3 =
        (j,
         (if RenderItem.NumFramesDirty (mAllRitems s ! 0) > 0
          then RenderItem.NumFramesDirty (mAllRitems s ! 0) - 1
          else RenderItem.NumFramesDirty (mAllRitems s ! 0)),
         (if RenderItem.NumFramesDirty (mAllRitems s ! 0) > 0
          then (object_copies 0 s)[nat j := object_copies 0 s ! nat j + 1]
          else object_copies 0 s))"
  proof -
    have d: "distinct (map ObjCBIndex (mAllRitems s2))"
      by (simp add: ix2)
    have k: "0 < length (mAllRitems s2)"
      by (simp add: it2)
    have cur: "mCurrFrameResource s2 = Some (nat j)"
      by (simp add: s2 s1)
    have x: "ObjCBIndex (mAllRitems s2 ! 0) = 0"
      by (simp add: it2 items)
    have same: "object_copies 0 s2 = object_copies 0 s" "mCurrFrameResourceIndex s2 = j"
      by (simp_all add: s2 s1 object_copies_def)
    from UpdateObjectCBs_item [OF ob d k cur x] show ?thesis
      by (simp add: it2 same)
  qed
  have "item_ob 0 0 s' = item_ob 0 0 s3"
    using UpdateMaterialCBs_item_ob [OF m, of 0 0]
    by (simp add: s' UpdateSampler_def item_ob_def object_copies_def)
  moreover have "advance (item_ob 0 0 s) =
        (j,
         (if RenderItem.NumFramesDirty (mAllRitems s ! 0) > 0
          then RenderItem.NumFramesDirty (mAllRitems s ! 0) - 1
          else RenderItem.NumFramesDirty (mAllRitems s ! 0)),
         (if RenderItem.NumFramesDirty (mAllRitems s ! 0) > 0
          then (object_copies 0 s)[nat j := object_copies 0 s ! nat j + 1]
          else object_copies 0 s))"
    by (simp add: item_ob_def advance_def j_def Let_def)
  ultimately show "item_ob 0 0 s' = advance (item_ob 0 0 s)"
    by (simp only: o3)
  show "material_ob k k s' = advance (material_ob k k s)" if "k < 2"
  proof -
    have q: "mCurrFrameResourceIndex s3 = j" "mCurrFrameResourceIndex s3 = j"
      "mMaterials s3 = mMaterials s" "mCurrFrameResource s3 = Some (nat j)"
      "material_copies k s3 = material_copies k s"
      by (simp_all add: s3 s2 s1 material_copies_def map_update_same)
    from mx have lm: "length (mMaterials s) = 2"
      by (auto simp: map_eq_Cons_conv)
    have xk: "MatCBIndex (snd (mMaterials s ! k)) = k"
    proof -
      have "map (\<lambda>p. MatCBIndex (snd p)) (mMaterials s) ! k = [0, 1] ! k"
        by (simp add: mx)
      then have "MatCBIndex (snd (mMaterials s ! k)) = [0, 1] ! k"
        using that lm by simp
      then show ?thesis
        using that by (cases k) auto
    qed
    have d: "distinct (map (\<lambda>p. MatCBIndex (snd p)) (mMaterials s3))"
      by (simp add: q mx)
    have k: "k < length (mMaterials s3)"
      using that by (simp add: q lm)
    have x: "MatCBIndex (snd (mMaterials s3 ! k)) = k"
      by (simp add: q xk)
    from UpdateMaterialCBs_material [OF m d k q(4) x] have
      "material_ob k k s4 =
        (j,
         (if Material.NumFramesDirty (snd (mMaterials s ! k)) > 0
          then Material.NumFramesDirty (snd (mMaterials s ! k)) - 1
          else Material.NumFramesDirty (snd (mMaterials s ! k))),
         (if Material.NumFramesDirty (snd (mMaterials s ! k)) > 0
          then (material_copies k s)[nat j := material_copies k s ! nat j + 1]
          else material_copies k s))"
      by (simp add: q)
    moreover have "material_ob k k s' = material_ob k k s4"
      by (simp add: s' UpdateSampler_def material_ob_def material_copies_def)
    moreover have "advance (material_ob k k s) =
        (j,
         (if Material.NumFramesDirty (snd (mMaterials s ! k)) > 0
          then Material.NumFramesDirty (snd (mMaterials s ! k)) - 1
          else Material.NumFramesDirty (snd (mMaterials s ! k))),
         (if Material.NumFramesDirty (snd (mMaterials s ! k)) > 0
          then (material_copies k s)[nat j := material_copies k s ! nat j + 1]
          else material_copies k s))"
      by (simp add: material_ob_def advance_def j_def Let_def)
    ultimately show ?thesis
      by (simp only:)
  qed
  show "dirty_ok s'" if "dirty_ok s"
  proof -
    have "dirty_ok s4"
      using that dirty_ok_cycle [OF c] dirty_ok_CrateApp_AnimateMaterials [OF a]
        dirty_ok_UpdateObjectCBs [OF ob] dirty_ok_UpdateMaterialCBs [OF m]
      by blast
    then show ?thesis
      by (simp add: s' UpdateSampler_def dirty_ok_def)
  qed
qed

lemma CrateApp_Draw_quiet:
  assumes d: "CrateApp_Draw s = Some (s', t)"
  shows "crate_inv s \<Longrightarrow> crate_inv s'" "item_ob k x s' = item_ob k x s"
    "material_ob k y s' = material_ob k y s" "dirty_ok s \<Longrightarrow> dirty_ok s'"
proof -
  from CrateApp_Draw_cases [OF d] obtain body tc where
    sb: "submit_and_signal s = Some (s', tc)" and "t = [AllocReset, ListReset] @ body @ tc"
    by blast
  show "item_ob k x s' = item_ob k x s" "material_ob k y s' = material_ob k y s"
    by (rule submit_ob [OF sb])+
  show "dirty_ok s'" if "dirty_ok s"
    using that by (rule dirty_ok_submit [OF sb])
  show "crate_inv s'" if "crate_inv s"
    using that submit_effect [OF sb] by (auto simp: crate_inv_def)
qed

lemma CrateApp_step_dirty:
  assumes "crate_inv s \<and> dirty_ok s" "CrateApp_step e s = Some (s', t)"
  shows "crate_inv s' \<and> dirty_ok s'"
proof (cases e)
  case (Crate_Update m2 c)
  then have u: "CrateApp_Update m2 c s = Some (s', t)"
    using assms(2) by simp
  show ?thesis
    using CrateApp_Update_propagates(1,4) [OF _ u] assms(1)
    by simp
next
  case Crate_Draw
  then have dr: "CrateApp_Draw s = Some (s', t)"
    using assms(2) by simp
  show ?thesis
    using assms CrateApp_Draw_quiet [OF dr] Crate_Draw by simp
next
  case (Crate_OnKeyDown w)
  then show ?thesis
    using assms by (auto simp: crate_inv_CrateApp_OnKeyDown dirty_ok_CrateApp_OnKeyDown)
qed

lemma CrateApp_step_item:
  assumes "crate_inv s" "\<not> is_rescale e" "CrateApp_step e s = Some (s', t)"
  shows "crate_inv s' \<and>
         item_ob 0 0 s' = (if is_Crate_Update e then advance (item_ob 0 0 s) else item_ob 0 0 s)"
proof (cases e)
  case (Crate_Update m2 c)
  then have u: "CrateApp_Update m2 c s = Some (s', t)"
    using assms(3) by simp
  show ?thesis
    using CrateApp_Update_propagates(1,2) [OF assms(1) u] Crate_Update
    by simp
next
  case Crate_Draw
  then have dr: "CrateApp_Draw s = Some (s', t)"
    using assms(3) by simp
  show ?thesis
    using assms CrateApp_Draw_quiet [OF dr] Crate_Draw by simp
next
  case (Crate_OnKeyDown w)
  then have "w \<noteq> 0x31 \<and> w \<noteq> 0x32" "s' = CrateApp_OnKeyDown w s"
    using assms by auto
  then show ?thesis
    using assms(1) CrateApp_OnKeyDown_cases [of w s] Crate_OnKeyDown
    by (simp add: crate_inv_CrateApp_OnKeyDown item_ob_def object_copies_def)
qed

lemma CrateApp_step_material:
  assumes "crate_inv s" "k < 2" "CrateApp_step e s = Some (s', t)"
  shows "crate_inv s' \<and>
         material_ob k k s' =
           (if is_Crate_Update e then advance (material_ob k k s) else material_ob k k s)"
proof (cases e)
  case (Crate_Update m2 c)
  then have u: "CrateApp_Update m2 c s = Some (s', t)"
    using assms(3) by simp
  show ?thesis
    using CrateApp_Update_propagates(1) [OF assms(1) u]
      CrateApp_Update_propagates(3) [OF assms(1) u assms(2)] Crate_Update
    by simp
next
  case Crate_Draw
  then have dr: "CrateApp_Draw s = Some (s', t)"
    using assms(3) by simp
  show ?thesis
    using assms CrateApp_Draw_quiet [OF dr] Crate_Draw by simp
next
  case (Crate_OnKeyDown w)
  then have "s' = CrateApp_OnKeyDown w s"
    using assms by auto
  then show ?thesis
    using assms(1) CrateApp_OnKeyDown_cases [of w s] Crate_OnKeyDown
    by (simp add: crate_inv_CrateApp_OnKeyDown material_ob_def material_copies_def)
qed

lemma CrateApp_run_dirty:
  assumes "run_with CrateApp_step es (CrateApp_Initialize d) = Some (s, t)"
  shows "crate_inv s \<and> dirty_ok s"
proof -
  let ?I = "\<lambda>x. crate_inv x \<and> dirty_ok x"
  have stp: "?I x'" if "?I x" "CrateApp_step e x = Some (x', u)" for e x x' u
    using CrateApp_step_dirty [OF that] .
  have init: "?I (CrateApp_Initialize d)"
    by (simp add: crate_inv_Initialize dirty_ok_CrateApp_Initialize)
  from run_with_invariant [of ?I CrateApp_step, OF stp init assms] show ?thesis .
qed

lemma CrateApp_run_item:
  assumes "crate_inv s" "list_all (\<lambda>e. \<not> is_rescale e) es"
    "run_with CrateApp_step es s = Some (s', t)"
  shows "item_ob 0 0 s' = (advance ^^ length (filter is_Crate_Update es)) (item_ob 0 0 s)"
proof -
  have stp: "crate_inv x' \<and> item_ob 0 0 x' =
      (if is_Crate_Update e then advance (item_ob 0 0 x) else item_ob 0 0 x)"
    if "crate_inv x" "\<not> is_rescale e" "CrateApp_step e x = Some (x', u)" for e x x' u
    using CrateApp_step_item [OF that] .
  from run_advance [of crate_inv "\<lambda>e. \<not> is_rescale e" CrateApp_step "item_ob 0 0"
      is_Crate_Update, OF stp assms]
  show ?thesis
    by simp
qed

lemma CrateApp_run_material:
  assumes "crate_inv s" "k < 2" "run_with CrateApp_step es s = Some (s', t)"
  shows "material_ob k k s' = (advance ^^ length (filter is_Crate_Update es)) (material_ob k k s)"
proof -
  have stp: "crate_inv x' \<and> material_ob k k x' =
      (if is_Crate_Update e then advance (material_ob k k x) else material_ob k k x)"
    if "crate_inv x" "True" "CrateApp_step e x = Some (x', u)" for e x x' u
    using CrateApp_step_material [OF that(1) assms(2) that(3)] .
  have ok: "list_all (\<lambda>e. True) es"
    by (simp add: list_all_iff)
  from run_advance [of crate_inv "\<lambda>e. True" CrateApp_step "material_ob k k" is_Crate_Update,
      OF stp assms(1) ok assms(3)]
  show ?thesis
    by simp
qed

lemma list_all_modify:
  assumes "list_all (\<lambda>p. P (snd p)) m" "\<And>v. P v \<Longrightarrow> P (f v)"
  shows "list_all (\<lambda>p. P (snd p)) (modify k f m)"
  using assms by (induction m) (auto simp: modify_def)

lemma BlendApp_AnimateMaterials_frame:
  assumes a: "BlendApp_AnimateMaterials dt tick s = Some s'"
  shows "s' = s\<lparr>mMaterials := mMaterials s',
                 mBoltAnimSrvOffsetInHeap := mBoltAnimSrvOffsetInHeap s'\<rparr>"
  using a
  by (auto simp: BlendApp_AnimateMaterials_def Let_def split: option.splits if_splits)

lemma dirty_ok_BlendApp_AnimateMaterials:
  assumes a: "BlendApp_AnimateMaterials dt tick s = Some s'" and d: "dirty_ok s"
  shows "dirty_ok s'"
proof -
  let ?P = "\<lambda>m. 0 \<le> Material.NumFramesDirty m \<and> Material.NumFramesDirty m \<le> gNumFrameResources"
  from d have m: "list_all (\<lambda>p. ?P (snd p)) (mMaterials s)"
    by (simp add: dirty_ok_def)
  have w: "list_all (\<lambda>p. ?P (snd p))
             (modify ''water'' (\<lambda>m. m\<lparr>MatTransform := x,
                  Material.NumFramesDirty := gNumFrameResources\<rparr>) (mMaterials s))" for x
    by (rule list_all_modify [OF m]) (simp add: gNumFrameResources_def)
  have b: "list_all (\<lambda>p. ?P (snd p))
             (modify ''boltAnim'' (\<lambda>m. m\<lparr>DiffuseSrvHeapIndex := y\<rparr>)
                (modify ''water'' (\<lambda>m. m\<lparr>MatTransform := x,
                  Material.NumFramesDirty := gNumFrameResources\<rparr>) (mMaterials s)))" for x y
    by (rule list_all_modify [OF w]) simp
  have "list_all (\<lambda>p. ?P (snd p)) (mMaterials s')"
    using a w b
    by (auto simp: BlendApp_AnimateMaterials_def Let_def split: option.splits if_splits)
  moreover have "mAllRitems s' = mAllRitems s"
    by (subst BlendApp_AnimateMaterials_frame [OF a]) simp
  ultimately show ?thesis
    using d by (simp add: dirty_ok_def)
qed

lemma blend_item_index:
  assumes inv: "blend_inv s" and k: "k < 4"
  shows "ObjCBIndex (mAllRitems s ! k) = word_of_nat k" "length (mAllRitems s) = 4"
    "distinct (map ObjCBIndex (mAllRitems s))"
proof -
  from inv have ix: "map ObjCBIndex (mAllRitems s) = [0, 1, 2, 3]"
    by (simp add: blend_inv_def)
  then show l: "length (mAllRitems s) = 4"
    by (auto simp: map_eq_Cons_conv)
  show "distinct (map ObjCBIndex (mAllRitems s))"
    by (simp add: ix)
  have "map ObjCBIndex (mAllRitems s) ! k = [0, 1, 2, 3] ! k"
    by (simp add: ix)
  then have "ObjCBIndex (mAllRitems s ! k) = [0, 1, 2, 3] ! k"
    using k l by simp
  moreover from k have "k = 0 \<or> k = 1 \<or> k = 2 \<or> k = 3"
    by presburger
  ultimately show "ObjCBIndex (mAllRitems s ! k) = word_of_nat k"
    by auto
qed

lemma BlendApp_Update_propagates:
  assumes inv: "blend_inv s" and
    r: "0 \<le> mCurrFrameResourceIndex s" "mCurrFrameResourceIndex s < 3" and
    u: "BlendApp_Update dt tick c s = Some (s', t)"
  shows "0 \<le> mCurrFrameResourceIndex s' \<and> mCurrFrameResourceIndex s' < 3"
    and "k < 4 \<Longrightarrow> item_ob k (word_of_nat k) s' = advance (item_ob k (word_of_nat k) s)"
    and "dirty_ok s \<Longrightarrow> dirty_ok s'"
proof -
  from u obtain s1 s2 s3 where
    c: "cycle_frame_resource s = Some s1" and
    a: "BlendApp_AnimateMaterials dt tick s1 = Some s2" and
    ob: "UpdateObjectCBs s2 = Some s3" and
    m: "UpdateMaterialCBs s3 = Some s'"
    by (auto simp: BlendApp_Update_def split: option.splits)
  define j where "j = (mCurrFrameResourceIndex s + 1) mod 3"
  have j: "0 \<le> j" "j < 3"
    by (simp_all add: j_def)
  have s1: "s1 = s\<lparr>mCurrFrameResourceIndex := j, mCurrFrameResource := Some (nat j)\<rparr>"
    using cycle_ring [OF c r] by (simp add: j_def)
  note s2 = BlendApp_AnimateMaterials_frame [OF a]
  have f2: "mAllRitems s2 = mAllRitems s" "mCurrFrameResource s2 = Some (nat j)"
    "mCurrFrameResourceIndex s2 = j" "mFrameResources s2 = mFrameResources s"
    by (subst s2, simp add: s1)+
  have ix': "mCurrFrameResourceIndex s' = j"
    using UpdateMaterialCBs_effect [OF m] UpdateObjectCBs_effect [OF ob] f2(3) by auto
  show "0 \<le> mCurrFrameResourceIndex s' \<and> mCurrFrameResourceIndex s' < 3"
    using j by (simp add: ix')
  show "item_ob k (word_of_nat k) s' = advance (item_ob k (word_of_nat k) s)" if "k < 4"
  proof -
    note bi = blend_item_index [OF inv that]
    have d: "distinct (map ObjCBIndex (mAllRitems s2))"
      by (simp add: f2 bi)
    have k: "k < length (mAllRitems s2)"
      using that by (simp add: f2 bi)
    have x: "ObjCBIndex (mAllRitems s2 ! k) = word_of_nat k"
      by (simp add: f2 bi)
    have same: "object_copies (word_of_nat k) s2 = object_copies (word_of_nat k) s"
      by (simp add: object_copies_def f2)
    from UpdateObjectCBs_item [OF ob d k f2(2) x] have
      "item_ob k (word_of_nat k) s3 =
        (j,
         (if RenderItem.NumFramesDirty (mAllRitems s ! k) > 0
          then RenderItem.NumFramesDirty (mAllRitems s ! k) - 1
          else RenderItem.NumFramesDirty (mAllRitems s ! k)),
         (if RenderItem.NumFramesDirty (mAllRitems s ! k) > 0
          then (object_copies (word_of_nat k) s)
                 [nat j := object_copies (word_of_nat k) s ! nat j + 1]
          else object_copies (word_of_nat k) s))"
      by (simp add: f2 same)
    moreover have "item_ob k (word_of_nat k) s' = item_ob k (word_of_nat k) s3"
      by (rule UpdateMaterialCBs_item_ob [OF m])
    moreover have "advance (item_ob k (word_of_nat k) s) =
        (j,
         (if RenderItem.NumFramesDirty (mAllRitems s ! k) > 0
          then RenderItem.NumFramesDirty (mAllRitems s ! k) - 1
          else RenderItem.NumFramesDirty (mAllRitems s ! k)),
         (if RenderItem.NumFramesDirty (mAllRitems s ! k) > 0
          then (object_copies (word_of_nat k) s)
                 [nat j := object_copies (word_of_nat k) s ! nat j + 1]
          else object_copies (word_of_nat k) s))"
      by (simp add: item_ob_def advance_def j_def Let_def)
    ultimately show ?thesis
      by (simp only:)
  qed
  show "dirty_ok s'" if "dirty_ok s"
    using that dirty_ok_cycle [OF c] dirty_ok_BlendApp_AnimateMaterials [OF a]
      dirty_ok_UpdateObjectCBs [OF ob] dirty_ok_UpdateMaterialCBs [OF m]
    by blast
qed

lemma BlendApp_Draw_quiet:
  assumes d: "BlendApp_Draw s = Some (s', t)"
  shows "item_ob k x s' = item_ob k x s" "dirty_ok s \<Longrightarrow> dirty_ok s'"
proof -
  from BlendApp_Draw_cases [OF d] obtain s1 body tc where
    s1: "s1 = fst (if mRenderMode s = PixelOverdraw
                   then CreateResourcesForPixelOverdrawMode s else (s, []))" and
    sb: "submit_and_signal s1 = Some (s', tc)" and
    "t = [AllocReset, ListReset] @ body @ tc"
    by blast
  have q: "item_ob k x s1 = item_ob k x s" "dirty_ok s1 = dirty_ok s"
    by (simp_all add: s1 CreateResourcesForPixelOverdrawMode_def item_ob_def object_copies_def
        dirty_ok_def)
  show "item_ob k x s' = item_ob k x s"
    using submit_ob(1) [OF sb, of k x] q by simp
  show "dirty_ok s'" if "dirty_ok s"
    using that q dirty_ok_submit [OF sb] by simp
qed

lemma BlendApp_OnKeyDown_quiet:
  "item_ob k x (BlendApp_OnKeyDown w s) = item_ob k x s"
  "dirty_ok (BlendApp_OnKeyDown w s) = dirty_ok s"
  by (simp_all add: BlendApp_OnKeyDown_def ChangeRenderMode_def item_ob_def object_copies_def
      dirty_ok_def)

lemma BlendApp_step_item:
  assumes q: "blend_inv s \<and> 0 \<le> mCurrFrameResourceIndex s \<and> mCurrFrameResourceIndex s < 3"
    and st: "BlendApp_step e s = Some (s', t)"
  shows "(blend_inv s' \<and> 0 \<le> mCurrFrameResourceIndex s' \<and> mCurrFrameResourceIndex s' < 3)"
    and "k < 4 \<Longrightarrow> item_ob k (word_of_nat k) s' =
           (if is_Blend_Update e then advance (item_ob k (word_of_nat k) s)
            else item_ob k (word_of_nat k) s)"
    and "dirty_ok s \<Longrightarrow> dirty_ok s'"
proof -
  from q have inv: "blend_inv s" and
    r: "0 \<le> mCurrFrameResourceIndex s" "mCurrFrameResourceIndex s < 3"
    by simp_all
  have inv': "blend_inv s'"
    by (rule blend_inv_step(1) [OF st inv])
  have ix: "mCurrFrameResourceIndex s' =
       (if is_Blend_Update e then (mCurrFrameResourceIndex s + 1) mod 3
        else mCurrFrameResourceIndex s)"
    by (rule BlendApp_step_index [OF st r])
  show "(blend_inv s' \<and> 0 \<le> mCurrFrameResourceIndex s' \<and> mCurrFrameResourceIndex s' < 3)"
    using inv' ix r by simp
  show "item_ob k (word_of_nat k) s' =
           (if is_Blend_Update e then advance (item_ob k (word_of_nat k) s)
            else item_ob k (word_of_nat k) s)" if "k < 4"
  proof (cases e)
    case (Blend_Update dt tick c)
    then have u: "BlendApp_Update dt tick c s = Some (s', t)"
      using st by simp
    show ?thesis
      using BlendApp_Update_propagates(2) [OF inv r u that] Blend_Update by simp
  next
    case Blend_Draw
    then have d: "BlendApp_Draw s = Some (s', t)"
      using st by simp
    show ?thesis
      using BlendApp_Draw_quiet(1) [OF d] Blend_Draw by simp
  next
    case (Blend_OnKeyDown w)
    then show ?thesis
      using st BlendApp_OnKeyDown_quiet(1) [of k _ w s] by auto
  qed
  show "dirty_ok s'" if "dirty_ok s"
  proof (cases e)
    case (Blend_Update dt tick c)
    then have u: "BlendApp_Update dt tick c s = Some (s', t)"
      using st by simp
    show ?thesis
      using BlendApp_Update_propagates(3) [OF inv r u that] .
  next
    case Blend_Draw
    then have d: "BlendApp_Draw s = Some (s', t)"
      using st by simp
    show ?thesis
      using BlendApp_Draw_quiet(2) [OF d that] .
  next
    case (Blend_OnKeyDown w)
    then show ?thesis
      using st that BlendApp_OnKeyDown_quiet(2) [of w s] by auto
  qed
qed

lemma BlendApp_run_dirty:
  assumes "run_with BlendApp_step es (BlendApp_Initialize d) = Some (s, t)"
  shows "dirty_ok s"
proof -
  let ?I = "\<lambda>x. (blend_inv x \<and> 0 \<le> mCurrFrameResourceIndex x \<and> mCurrFrameResourceIndex x < 3)
             \<and> dirty_ok x"
  have stp: "?I x'" if "?I x" "BlendApp_step e x = Some (x', u)" for e x x' u
    using BlendApp_step_item(1,3) [OF _ that(2)] that(1) by blast
  have init: "?I (BlendApp_Initialize d)"
    by (simp add: blend_inv_Initialize dirty_ok_BlendApp_Initialize BlendApp_Initialize_index)
  from run_with_invariant [of ?I BlendApp_step, OF stp init assms] show ?thesis
    by simp
qed

lemma BlendApp_run_item:
  assumes "k < 4" "run_with BlendApp_step es (BlendApp_Initialize d) = Some (s, t)"
  shows "item_ob k (word_of_nat k) s =
           (advance ^^ length (filter is_Blend_Update es)) (0, 3, [0, 0, 0])"
proof -
  let ?Q = "\<lambda>x. blend_inv x \<and> 0 \<le> mCurrFrameResourceIndex x \<and> mCurrFrameResourceIndex x < 3"
  have stp: "?Q x' \<and> item_ob k (word_of_nat k) x' =
      (if is_Blend_Update e then advance (item_ob k (word_of_nat k) x)
       else item_ob k (word_of_nat k) x)"
    if "?Q x" "True" "BlendApp_step e x = Some (x', u)" for e x x' u
    using BlendApp_step_item(1) [OF that(1,3)] BlendApp_step_item(2) [OF that(1,3) assms(1)]
    by simp
  have init: "?Q (BlendApp_Initialize d)"
    by (simp add: blend_inv_Initialize BlendApp_Initialize_index)
  have ok: "list_all (\<lambda>e. True) es"
    by (simp add: list_all_iff)
  have "item_ob k (word_of_nat k) (BlendApp_Initialize d) = (0, 3, [0, 0, 0])"
  proof -
    from assms(1) have "k = 0 \<or> k = 1 \<or> k = 2 \<or> k = 3"
      by presburger
    then show ?thesis
      by (auto simp: item_ob_def object_copies_def blend_defs Let_def replicate3)
  qed
  with run_advance [of ?Q "\<lambda>e. True" BlendApp_step "item_ob k (word_of_nat k)" is_Blend_Update,
      OF stp init ok assms(2)]
  show ?thesis
    by simp
qed

lemma propagation_facts:
  assumes ob: "ob = (advance ^^ n) (i, 3, cs)" and i: "0 \<le> i" "i < 3" and l: "length cs = 3"
  shows "3 \<le> n \<Longrightarrow> fst (snd ob) = 0 \<and> snd (snd ob) = map Suc cs"
    and "n \<le> 3 \<Longrightarrow> fst (snd ob) = 3 - int n \<and> sum_list (snd (snd ob)) = sum_list cs + n"
proof -
  show "fst (snd ob) = 0 \<and> snd (snd ob) = map Suc cs" if "3 \<le> n"
    by (simp add: ob advance_many [OF i l that])
  show "fst (snd ob) = 3 - int n \<and> sum_list (snd (snd ob)) = sum_list cs + n" if "n \<le> 3"
    using advance_few [OF i l that] by (auto simp: ob)
qed

lemma UpdateObjectCBs_spec:
  assumes u: "UpdateObjectCBs s = Some s'"
  shows "\<exists>i. mCurrFrameResource s = Some i \<and> i < length (mFrameResources s) \<and>
     mAllRitems s' = map RenderItem_copied (mAllRitems s) \<and>
     ObjectCB (mFrameResources s' ! i) =
       ObjectCB (mFrameResources s ! i) @
       map (\<lambda>e. (ObjCBIndex e, XMMatrixTranspose (World e), XMMatrixTranspose (TexTransform e)))
         (filter (\<lambda>e. RenderItem.NumFramesDirty e > 0) (mAllRitems s)) \<and>
     (\<forall>j. j \<noteq> i \<longrightarrow> mFrameResources s' ! j = mFrameResources s ! j)"
proof -
  from UpdateObjectCBs_effect [OF u] obtain i where
    i: "mCurrFrameResource s = Some i" "i < length (mFrameResources s)" and
    s': "s' = s\<lparr>mFrameResources := (mFrameResources s)
                    [i := (mFrameResources s ! i)
                       \<lparr>ObjectCB := fst (UpdateObjectCBs_loop (ObjectCB (mFrameResources s ! i))
                                          (mAllRitems s))\<rparr>],
                  mAllRitems := map RenderItem_copied (mAllRitems s)\<rparr>"
    by blast
  show ?thesis
    using i by (simp add: s' UpdateObjectCBs_loop_fst)
qed

lemma UpdateMaterialCBs_spec:
  assumes u: "UpdateMaterialCBs s = Some s'"
  shows "\<exists>i. mCurrFrameResource s = Some i \<and> i < length (mFrameResources s) \<and>
     mMaterials s' = map (\<lambda>(k, m). (k, Material_copied m)) (mMaterials s) \<and>
     MaterialCB (mFrameResources s' ! i) =
       MaterialCB (mFrameResources s ! i) @
       map (\<lambda>(k, m). (MatCBIndex m, XMMatrixTranspose (MatTransform m)))
         (filter (\<lambda>(k, m). Material.NumFramesDirty m > 0) (mMaterials s)) \<and>
     (\<forall>j. j \<noteq> i \<longrightarrow> mFrameResources s' ! j = mFrameResources s ! j)"
proof -
  from UpdateMaterialCBs_effect [OF u] obtain i where
    i: "mCurrFrameResource s = Some i" "i < length (mFrameResources s)" and
    s': "s' = s\<lparr>mFrameResources := (mFrameResources s)
                    [i := (mFrameResources s ! i)
                       \<lparr>MaterialCB := fst (UpdateMaterialCBs_loop (MaterialCB (mFrameResources s ! i))
                                          (mMaterials s))\<rparr>],
                  mMaterials := map (\<lambda>(k, m). (k, Material_copied m)) (mMaterials s)\<rparr>"
    by blast
  show ?thesis
    using i by (simp add: s' UpdateMaterialCBs_loop_fst)
qed

lemma crate_rescaled:
  assumes "crate_inv s"
  shows "crate_inv (ScaleTexTransform x s)"
    and "\<exists>i cs. item_ob 0 0 (ScaleTexTransform x s) = (i, 3, cs) \<and> 0 \<le> i \<and> i < 3 \<and>
           length cs = 3 \<and> cs = object_copies 0 (ScaleTexTransform x s)"
proof -
  show "crate_inv (ScaleTexTransform x s)"
    by (rule crate_inv_ScaleTexTransform [OF assms])
  from assms have "map ObjCBIndex (mAllRitems s) = [0, 1]"
    by (simp add: crate_inv_def)
  then have "0 < length (mAllRitems s)"
    by (auto simp: map_eq_Cons_conv)
  then show "\<exists>i cs. item_ob 0 0 (ScaleTexTransform x s) = (i, 3, cs) \<and> 0 \<le> i \<and> i < 3 \<and>
           length cs = 3 \<and> cs = object_copies 0 (ScaleTexTransform x s)"
    using assms
    by (simp add: item_ob_def object_copies_def ScaleTexTransform_def Let_def crate_inv_def
        gNumFrameResources_def)
qed

lemma crate_material_init:
  assumes "k < 2"
  shows "material_ob k k (CrateApp_Initialize d) = (0, 3, [0, 0, 0])"
proof -
  from assms have "k = 0 \<or> k = 1"
    by presburger
  then show ?thesis
    by (auto simp: material_ob_def material_copies_def crate_defs replicate3)
qed

section \<open>The dirty counters\<close>

text \<open>
  C8. In every state that the callbacks of CrateApp and of BlendApp reach from Initialize,
  \<open>NumFramesDirty\<close> of every render item and of every material lies in
  \<open>[0, gNumFrameResources]\<close>. UpdateObjectCBs appends to the object buffer of the
  current frame resource, and of no other, one copy for each render item whose counter is
  positive, in order, and leaves every render item with its counter decremented when it
  was positive and as it was otherwise; UpdateMaterialCBs does the same for the
  materials. After ScaleTexTransform has set the counters to \<open>gNumFrameResources\<close>, in a
  run of CrateApp without another scaling key the first render item has been copied once
  more into each of the three frame resources and its counter is 0 once three Updates
  have run, however many follow; up to three Updates the counter is 3 less their number
  and the copies made are as many as the Updates. The same holds, counted from
  Initialize, for the two materials of CrateApp and for the four render items of
  BlendApp, which nothing dirties again.
\<close>

theorem dirty_counter_propagation:
  "(run_with CrateApp_step es (CrateApp_Initialize d) = Some (s, t) \<longrightarrow> dirty_ok s) \<and>
   (run_with BlendApp_step bs (BlendApp_Initialize d) = Some (b, u) \<longrightarrow> dirty_ok b) \<and>
   (UpdateObjectCBs s0 = Some s1 \<longrightarrow>
      (\<exists>i. mCurrFrameResource s0 = Some i \<and> i < length (mFrameResources s0) \<and>
         mAllRitems s1 = map RenderItem_copied (mAllRitems s0) \<and>
         ObjectCB (mFrameResources s1 ! i) =
           ObjectCB (mFrameResources s0 ! i) @
           map (\<lambda>e. (ObjCBIndex e, XMMatrixTranspose (World e), XMMatrixTranspose (TexTransform e)))
             (filter (\<lambda>e. RenderItem.NumFramesDirty e > 0) (mAllRitems s0)) \<and>
         (\<forall>j. j \<noteq> i \<longrightarrow> mFrameResources s1 ! j = mFrameResources s0 ! j))) \<and>
   (UpdateMaterialCBs s2 = Some s3 \<longrightarrow>
      (\<exists>i. mCurrFrameResource s2 = Some i \<and> i < length (mFrameResources s2) \<and>
         mMaterials s3 = map (\<lambda>(k, m). (k, Material_copied m)) (mMaterials s2) \<and>
         MaterialCB (mFrameResources s3 ! i) =
           MaterialCB (mFrameResources s2 ! i) @
           map (\<lambda>(k, m). (MatCBIndex m, XMMatrixTranspose (MatTransform m)))
             (filter (\<lambda>(k, m). Material.NumFramesDirty m > 0) (mMaterials s2)) \<and>
         (\<forall>j. j \<noteq> i \<longrightarrow> mFrameResources s3 ! j = mFrameResources s2 ! j))) \<and>
   RenderItem.NumFramesDirty (RenderItem_copied e) =
     (if RenderItem.NumFramesDirty e > 0 then RenderItem.NumFramesDirty e - 1
      else RenderItem.NumFramesDirty e) \<and>
   Material.NumFramesDirty (Material_copied m) =
     (if Material.NumFramesDirty m > 0 then Material.NumFramesDirty m - 1
      else Material.NumFramesDirty m) \<and>
   (run_with CrateApp_step es (CrateApp_Initialize d) = Some (s, t) \<and>
    run_with CrateApp_step es' (ScaleTexTransform delta s) = Some (s', t') \<and>
    list_all (\<lambda>e. \<not> is_rescale e) es' \<longrightarrow>
      (3 \<le> length (filter is_Crate_Update es') \<longrightarrow>
         RenderItem.NumFramesDirty (mAllRitems s' ! 0) = 0 \<and>
         object_copies 0 s' = map Suc (object_copies 0 (ScaleTexTransform delta s))) \<and>
      (length (filter is_Crate_Update es') \<le> 3 \<longrightarrow>
         RenderItem.NumFramesDirty (mAllRitems s' ! 0) =
           3 - int (length (filter is_Crate_Update es')) \<and>
         sum_list (object_copies 0 s') =
           sum_list (object_copies 0 (ScaleTexTransform delta s)) +
           length (filter is_Crate_Update es'))) \<and>
   (run_with CrateApp_step es (CrateApp_Initialize d) = Some (s, t) \<and> k < 2 \<longrightarrow>
      (3 \<le> length (filter is_Crate_Update es) \<longrightarrow>
         Material.NumFramesDirty (snd (mMaterials s ! k)) = 0 \<and>
         material_copies k s = [1, 1, 1]) \<and>
      (length (filter is_Crate_Update es) \<le> 3 \<longrightarrow>
         Material.NumFramesDirty (snd (mMaterials s ! k)) =
           3 - int (length (filter is_Crate_Update es)) \<and>
         sum_list (material_copies k s) = length (filter is_Crate_Update es))) \<and>
   (run_with BlendApp_step bs (BlendApp_Initialize d) = Some (b, u) \<and> n < 4 \<longrightarrow>
      (3 \<le> length (filter is_Blend_Update bs) \<longrightarrow>
         RenderItem.NumFramesDirty (mAllRitems b ! n) = 0 \<and>
         object_copies (word_of_nat n) b = [1, 1, 1]) \<and>
      (length (filter is_Blend_Update bs) \<le> 3 \<longrightarrow>
         RenderItem.NumFramesDirty (mAllRitems b ! n) =
           3 - int (length (filter is_Blend_Update bs)) \<and>
         sum_list (object_copies (word_of_nat n) b) = length (filter is_Blend_Update bs)))"
proof -
  have c1: "dirty_ok s" if "run_with CrateApp_step es (CrateApp_Initialize d) = Some (s, t)"
    using CrateApp_run_dirty [OF that] by simp
  have c2: "dirty_ok b" if "run_with BlendApp_step bs (BlendApp_Initialize d) = Some (b, u)"
    using BlendApp_run_dirty [OF that] .
  have c5: "RenderItem.NumFramesDirty (RenderItem_copied e) =
     (if RenderItem.NumFramesDirty e > 0 then RenderItem.NumFramesDirty e - 1
      else RenderItem.NumFramesDirty e)"
    by (simp add: RenderItem_copied_def)
  have c6: "Material.NumFramesDirty (Material_copied m) =
     (if Material.NumFramesDirty m > 0 then Material.NumFramesDirty m - 1
      else Material.NumFramesDirty m)"
    by (simp add: Material_copied_def)
  have c7: "(3 \<le> length (filter is_Crate_Update es') \<longrightarrow>
         RenderItem.NumFramesDirty (mAllRitems s' ! 0) = 0 \<and>
         object_copies 0 s' = map Suc (object_copies 0 (ScaleTexTransform delta s))) \<and>
      (length (filter is_Crate_Update es') \<le> 3 \<longrightarrow>
         RenderItem.NumFramesDirty (mAllRitems s' ! 0) =
           3 - int (length (filter is_Crate_Update es')) \<and>
         sum_list (object_copies 0 s') =
           sum_list (object_copies 0 (ScaleTexTransform delta s)) +
           length (filter is_Crate_Update es'))"
    if a: "run_with CrateApp_step es (CrateApp_Initialize d) = Some (s, t) \<and>
      run_with CrateApp_step es' (ScaleTexTransform delta s) = Some (s', t') \<and>
      list_all (\<lambda>e. \<not> is_rescale e) es'"
  proof -
    from a have r0: "run_with CrateApp_step es (CrateApp_Initialize d) = Some (s, t)" and
      r1: "run_with CrateApp_step es' (ScaleTexTransform delta s) = Some (s', t')" and
      ok: "list_all (\<lambda>e. \<not> is_rescale e) es'"
      by simp_all
    have inv: "crate_inv s"
      using CrateApp_run_dirty [OF r0] by simp
    from crate_rescaled(2) [OF inv, of delta] obtain i cs where
      o: "item_ob 0 0 (ScaleTexTransform delta s) = (i, 3, cs)" and i: "0 \<le> i" "i < 3" and
      l: "length cs = 3" and cs: "cs = object_copies 0 (ScaleTexTransform delta s)"
      by blast
    from CrateApp_run_item [OF crate_rescaled(1) [OF inv] ok r1] have
      ob: "item_ob 0 0 s' = (advance ^^ length (filter is_Crate_Update es')) (i, 3, cs)"
      by (simp add: o)
    from propagation_facts [OF ob i l] show ?thesis
      by (simp add: item_ob_def cs)
  qed
  have c8: "(3 \<le> length (filter is_Crate_Update es) \<longrightarrow>
         Material.NumFramesDirty (snd (mMaterials s ! k)) = 0 \<and>
         material_copies k s = [1, 1, 1]) \<and>
      (length (filter is_Crate_Update es) \<le> 3 \<longrightarrow>
         Material.NumFramesDirty (snd (mMaterials s ! k)) =
           3 - int (length (filter is_Crate_Update es)) \<and>
         sum_list (material_copies k s) = length (filter is_Crate_Update es))"
    if a: "run_with CrateApp_step es (CrateApp_Initialize d) = Some (s, t) \<and> k < 2"
  proof -
    from a have r0: "run_with CrateApp_step es (CrateApp_Initialize d) = Some (s, t)" and
      k: "k < 2"
      by simp_all
    from CrateApp_run_material [OF crate_inv_Initialize k r0] have
      ob: "material_ob k k s = (advance ^^ length (filter is_Crate_Update es)) (0, 3, [0, 0, 0])"
      by (simp add: crate_material_init [OF k])
    from propagation_facts [OF ob] show ?thesis
      by (simp add: material_ob_def)
  qed
  have c9: "(3 \<le> length (filter is_Blend_Update bs) \<longrightarrow>
         RenderItem.NumFramesDirty (mAllRitems b ! n) = 0 \<and>
         object_copies (word_of_nat n) b = [1, 1, 1]) \<and>
      (length (filter is_Blend_Update bs) \<le> 3 \<longrightarrow>
         RenderItem.NumFramesDirty (mAllRitems b ! n) =
           3 - int (length (filter is_Blend_Update bs)) \<and>
         sum_list (object_copies (word_of_nat n) b) = length (filter is_Blend_Update bs))"
    if a: "run_with BlendApp_step bs (BlendApp_Initialize d) = Some (b, u) \<and> n < 4"
  proof -
    from a have r0: "run_with BlendApp_step bs (BlendApp_Initialize d) = Some (b, u)" and
      n: "n < 4"
      by simp_all
    note ob = BlendApp_run_item [OF n r0]
    from propagation_facts [OF ob] show ?thesis
      by (simp add: item_ob_def)
  qed
  show ?thesis
    using c1 c2 UpdateObjectCBs_spec [of s0 s1] UpdateMaterialCBs_spec [of s2 s3] c5 c6 c7 c8 c9
    by blast
qed

lemma crate_rescale_ex:
  "\<exists>s t s' t'.
     run_with CrateApp_step [Crate_Update Identity4x4 1, Crate_Draw]
       (CrateApp_Initialize \<lparr>SwapChainBufferCount = 2, mCurrBackBuffer = 0, mCurrentFence = 1\<rparr>)
       = Some (s, t) \<and>
     run_with CrateApp_step
       [Crate_Update Identity4x4 1, Crate_Draw, Crate_Update Identity4x4 1, Crate_Draw,
        Crate_Update Identity4x4 1]
       (ScaleTexTransform 0.01 s) = Some (s', t') \<and>
     object_copies 0 (ScaleTexTransform 0.01 s) = [0, 1, 0]"
  by (simp add: crate_defs crate_step_defs replicate3 upt_rec ScaleTexTransform_def
      object_copies_def)

lemma crate_copy_ex:
  "\<exists>s1 s3.
     UpdateObjectCBs
       ((CrateApp_Initialize \<lparr>SwapChainBufferCount = 2, mCurrBackBuffer = 0, mCurrentFence = 1\<rparr>)
          \<lparr>mCurrFrameResource := Some 0\<rparr>) = Some s1 \<and>
     UpdateMaterialCBs
       ((CrateApp_Initialize \<lparr>SwapChainBufferCount = 2, mCurrBackBuffer = 0, mCurrentFence = 1\<rparr>)
          \<lparr>mCurrFrameResource := Some 0\<rparr>) = Some s3"
  by (simp add: crate_defs UpdateObjectCBs_def UpdateMaterialCBs_def Let_def replicate3)

theorem dirty_counter_propagation_witness:
  "(\<exists>s t s' t'.
      run_with CrateApp_step [Crate_Update Identity4x4 1, Crate_Draw]
        (CrateApp_Initialize \<lparr>SwapChainBufferCount = 2, mCurrBackBuffer = 0, mCurrentFence = 1\<rparr>)
        = Some (s, t) \<and> dirty_ok s \<and>
      Material.NumFramesDirty (snd (mMaterials s ! 1)) = 2 \<and>
      sum_list (material_copies 1 s) = 1 \<and>
      run_with CrateApp_step
        [Crate_Update Identity4x4 1, Crate_Draw, Crate_Update Identity4x4 1, Crate_Draw,
         Crate_Update Identity4x4 1]
        (ScaleTexTransform 0.01 s) = Some (s', t') \<and>
      RenderItem.NumFramesDirty (mAllRitems s' ! 0) = 0 \<and>
      object_copies 0 s' = [1, 2, 1]) \<and>
   (\<exists>s1. UpdateObjectCBs
       ((CrateApp_Initialize \<lparr>SwapChainBufferCount = 2, mCurrBackBuffer = 0, mCurrentFence = 1\<rparr>)
          \<lparr>mCurrFrameResource := Some 0\<rparr>) = Some s1 \<and>
      map RenderItem.NumFramesDirty (mAllRitems s1) = [2, 2] \<and>
      map fst (ObjectCB (mFrameResources s1 ! 0)) = [0, 1]) \<and>
   (\<exists>s3. UpdateMaterialCBs
       ((CrateApp_Initialize \<lparr>SwapChainBufferCount = 2, mCurrBackBuffer = 0, mCurrentFence = 1\<rparr>)
          \<lparr>mCurrFrameResource := Some 0\<rparr>) = Some s3 \<and>
      map (\<lambda>p. Material.NumFramesDirty (snd p)) (mMaterials s3) = [2, 2] \<and>
      map fst (MaterialCB (mFrameResources s3 ! 0)) = [0, 1]) \<and>
   (\<exists>b u. run_with BlendApp_step
        [Blend_Update 0 True 1, Blend_Draw, Blend_Update 0 True 1, Blend_Draw,
         Blend_Update 0 True 1, Blend_Draw]
        (BlendApp_Initialize \<lparr>SwapChainBufferCount = 2, mCurrBackBuffer = 0, mCurrentFence = 1\<rparr>)
        = Some (b, u) \<and> dirty_ok b \<and>
      RenderItem.NumFramesDirty (mAllRitems b ! 3) = 0 \<and> object_copies 3 b = [1, 1, 1])"
proof -
  let ?d = "\<lparr>SwapChainBufferCount = 2, mCurrBackBuffer = 0, mCurrentFence = 1\<rparr>"
  let ?es = "[Crate_Update Identity4x4 1, Crate_Draw]"
  let ?es' = "[Crate_Update Identity4x4 1, Crate_Draw, Crate_Update Identity4x4 1, Crate_Draw,
         Crate_Update Identity4x4 1]"
  let ?bs = "[Blend_Update 0 True 1, Blend_Draw, Blend_Update 0 True 1, Blend_Draw,
         Blend_Update 0 True 1, Blend_Draw]"
  let ?s0 = "(CrateApp_Initialize ?d)\<lparr>mCurrFrameResource := Some 0\<rparr>"
  obtain s t s' t' where
    r0: "run_with CrateApp_step ?es (CrateApp_Initialize ?d) = Some (s, t)" and
    r1: "run_with CrateApp_step ?es' (ScaleTexTransform 0.01 s) = Some (s', t')" and
    c0: "object_copies 0 (ScaleTexTransform 0.01 s) = [0, 1, 0]"
    using crate_rescale_ex by blast
  obtain s1 s3 where
    u1: "UpdateObjectCBs ?s0 = Some s1" and u3: "UpdateMaterialCBs ?s0 = Some s3"
    using crate_copy_ex by blast
  obtain b u where
    rb: "run_with BlendApp_step ?bs (BlendApp_Initialize ?d) = Some (b, u)"
    using blend_wait_ex by blast
  note T = dirty_counter_propagation [where es = ?es and d = ?d and s = s and t = t
      and bs = ?bs and b = b and u = u and ?s0.0 = ?s0 and ?s1.0 = s1 and ?s2.0 = ?s0
      and ?s3.0 = s3 and es' = ?es' and delta = "0.01" and s' = s' and t' = t' and k = 1
      and n = 3]
  have a1: "dirty_ok s"
    using T r0 by blast
  have a2: "Material.NumFramesDirty (snd (mMaterials s ! 1)) = 2 \<and>
      sum_list (material_copies 1 s) = 1"
    using T r0 by simp
  have a3: "RenderItem.NumFramesDirty (mAllRitems s' ! 0) = 0 \<and> object_copies 0 s' = [1, 2, 1]"
    using T r0 r1 c0 by simp
  have a4: "map RenderItem.NumFramesDirty (mAllRitems s1) = [2, 2] \<and>
      map fst (ObjectCB (mFrameResources s1 ! 0)) = [0, 1]"
  proof -
    from T u1 obtain i where
      "mCurrFrameResource ?s0 = Some i"
      "mAllRitems s1 = map RenderItem_copied (mAllRitems ?s0)"
      "ObjectCB (mFrameResources s1 ! i) =
           ObjectCB (mFrameResources ?s0 ! i) @
           map (\<lambda>e. (ObjCBIndex e, XMMatrixTranspose (World e), XMMatrixTranspose (TexTransform e)))
             (filter (\<lambda>e. RenderItem.NumFramesDirty e > 0) (mAllRitems ?s0))"
      by blast
    then show ?thesis
      by (simp add: crate_defs RenderItem_copied_def replicate3)
  qed
  have a5: "map (\<lambda>p. Material.NumFramesDirty (snd p)) (mMaterials s3) = [2, 2] \<and>
      map fst (MaterialCB (mFrameResources s3 ! 0)) = [0, 1]"
  proof -
    from T u3 obtain i where
      "mCurrFrameResource ?s0 = Some i"
      "mMaterials s3 = map (\<lambda>(k, m). (k, Material_copied m)) (mMaterials ?s0)"
      "MaterialCB (mFrameResources s3 ! i) =
           MaterialCB (mFrameResources ?s0 ! i) @
           map (\<lambda>(k, m). (MatCBIndex m, XMMatrixTranspose (MatTransform m)))
             (filter (\<lambda>(k, m). Material.NumFramesDirty m > 0) (mMaterials ?s0))"
      by blast
    then show ?thesis
      by (simp add: crate_defs Material_copied_def replicate3)
  qed
  have a6: "dirty_ok b"
    using T rb by blast
  have a7: "RenderItem.NumFramesDirty (mAllRitems b ! 3) = 0 \<and> object_copies 3 b = [1, 1, 1]"
    using T rb by simp
  have e1: "\<exists>s t s' t'.
      run_with CrateApp_step ?es (CrateApp_Initialize ?d) = Some (s, t) \<and> dirty_ok s \<and>
      Material.NumFramesDirty (snd (mMaterials s ! 1)) = 2 \<and>
      sum_list (material_copies 1 s) = 1 \<and>
      run_with CrateApp_step ?es' (ScaleTexTransform 0.01 s) = Some (s', t') \<and>
      RenderItem.NumFramesDirty (mAllRitems s' ! 0) = 0 \<and>
      object_copies 0 s' = [1, 2, 1]"
    using r0 r1 a1 a2 a3 by blast
  have e2: "\<exists>s1. UpdateObjectCBs ?s0 = Some s1 \<and>
      map RenderItem.NumFramesDirty (mAllRitems s1) = [2, 2] \<and>
      map fst (ObjectCB (mFrameResources s1 ! 0)) = [0, 1]"
    using u1 a4 by (intro exI [of _ s1]) simp
  have e3: "\<exists>s3. UpdateMaterialCBs ?s0 = Some s3 \<and>
      map (\<lambda>p. Material.NumFramesDirty (snd p)) (mMaterials s3) = [2, 2] \<and>
      map fst (MaterialCB (mFrameResources s3 ! 0)) = [0, 1]"
    using u3 a5 by (intro exI [of _ s3]) simp
  have e4: "\<exists>b u. run_with BlendApp_step ?bs (BlendApp_Initialize ?d) = Some (b, u) \<and>
      dirty_ok b \<and>
      RenderItem.NumFramesDirty (mAllRitems b ! 3) = 0 \<and> object_copies 3 b = [1, 1, 1]"
    using rb a6 a7 by blast
  show ?thesis
    by (rule conjI [OF e1 conjI [OF e2 conjI [OF e3 e4]]])
qed

end
